(* ===== verification/Prelude.thy ===== *)
theory Prelude
  imports Complex_Main "HOL-Library.List_Lexorder" "HOL-Library.Char_ord" "HOL-Library.Sublist"
    "HOL-Library.Product_Lexorder" "HOL-Library.Multiset"
begin

text \<open>
  Shared vocabulary of the time-clock development: the names of the model's basic
  types, the collections of facts the component theories feed to the simplifier,
  and generic lemmas on lists, strings and the lexicographic order on strings that
  several components use.  Strings are \<open>char list\<close>; their order is the
  lexicographic order of HOL-Library's \<open>List_Lexorder\<close> over byte-valued
  characters (\<open>Char_ord\<close>), which is SQLite's BINARY collation on ASCII text.
\<close>

type_synonym sql_text = string
type_synonym user_id = nat
type_synonym row_id = nat

named_theorems handler_defs "definitions of request handlers, unfolded by the component proofs"
named_theorems query_defs "definitions of SQL queries over the database state"

subsection \<open>Lists\<close>

text \<open>
  \<open>dedup\<close> keeps the first occurrence of each element, in order: the order in
  which a Python dict first sees its keys.
\<close>

fun dedup :: "'a list \<Rightarrow> 'a list" where
  "dedup [] = []"
| "dedup (x # xs) = x # dedup (filter (\<lambda>y. y \<noteq> x) xs)"

lemma set_dedup [simp]: "set (dedup xs) = set xs"
  by (induction xs rule: dedup.induct) auto

lemma distinct_dedup [simp]: "distinct (dedup xs)"
  by (induction xs rule: dedup.induct) auto

lemma dedup_snoc:
  "dedup (xs @ [y]) = (if y \<in> set xs then dedup xs else dedup xs @ [y])"
  by (induction xs arbitrary: y rule: dedup.induct) auto

lemma filter_snoc_cases:
  "filter P (xs @ [x]) = (if P x then filter P xs @ [x] else filter P xs)"
  by simp

lemma prefix_snoc_nth:
  assumes "prefix xs ys" and "length xs < length ys"
  shows "prefix (xs @ [ys ! length xs]) ys"
  using assms by (rule append_one_prefix)

lemma prefix_distinct:
  assumes "prefix xs ys" and "distinct ys"
  shows "distinct xs"
  using assms by (auto simp: prefix_def)

lemma length_remdups_map_filter_le:
  "length (remdups (map f (filter P xs))) \<le> length (remdups (map f xs))"
proof -
  have "set (map f (filter P xs)) \<subseteq> set (map f xs)" by auto
  then have "card (set (map f (filter P xs))) \<le> card (set (map f xs))"
    by (rule card_mono [OF finite_set])
  then show ?thesis by (simp add: length_remdups_card_conv)
qed

lemma sorted_pair_fst:
  "sorted (map (\<lambda>r. (f r, g r)) xs) \<Longrightarrow> sorted (map f xs)"
  by (induction xs) auto

subsection \<open>Mapping a fallible function over a list\<close>

text \<open>A Python loop whose body may raise: the first error ends it.\<close>

fun map_sum :: "('a \<Rightarrow> 'e + 'b) \<Rightarrow> 'a list \<Rightarrow> 'e + 'b list" where
  "map_sum f [] = Inr []"
| "map_sum f (x # xs) =
     (case f x of Inl e \<Rightarrow> Inl e | Inr y \<Rightarrow> (case map_sum f xs of Inl e \<Rightarrow> Inl e | Inr ys \<Rightarrow> Inr (y # ys)))"

lemma map_sum_Inr: "(\<forall>x \<in> set xs. f x = Inr (g x)) \<Longrightarrow> map_sum f xs = Inr (map g xs)"
  by (induction xs) auto

subsection \<open>Descending order\<close>

text \<open>\<open>ORDER BY k DESC\<close> with ties in rowid order: a stable sort on the reversed
  order.\<close>

definition sort_desc_key :: "('a \<Rightarrow> 'b::linorder) \<Rightarrow> 'a list \<Rightarrow> 'a list" where
  "sort_desc_key f xs = rev (sort_key f (rev xs))"

lemma mset_sort_desc_key [simp]: "mset (sort_desc_key f xs) = mset xs"
  by (simp add: sort_desc_key_def)

lemma set_sort_desc_key [simp]: "set (sort_desc_key f xs) = set xs"
  by (simp add: sort_desc_key_def)

lemma length_sort_desc_key [simp]: "length (sort_desc_key f xs) = length xs"
  by (simp add: sort_desc_key_def)

lemma length_filter_sort_key [simp]: "length (filter P (sort_key f xs)) = length (filter P xs)"
  by (metis mset_filter mset_sort size_mset)

lemma length_filter_sort_desc_key [simp]:
  "length (filter P (sort_desc_key f xs)) = length (filter P xs)"
  by (metis mset_filter mset_sort_desc_key size_mset)

lemma sorted_wrt_sort_desc_key: "sorted_wrt (\<lambda>a b. f b \<le> f a) (sort_desc_key f xs)"
proof -
  have "sorted (map f (sort_key f (rev xs)))" by (rule sorted_sort_key)
  then have "sorted_wrt (\<lambda>a b. f a \<le> f b) (sort_key f (rev xs))" by (simp add: sorted_wrt_map)
  then show ?thesis by (simp add: sort_desc_key_def sorted_wrt_rev)
qed

text \<open>In a list sorted in descending order, a property closed upwards holds of the
  first \<open>n\<close> elements as soon as \<open>n\<close> elements have it.\<close>

lemma take_sorted_desc_upward:
  fixes f :: "'a \<Rightarrow> 'b::linorder"
  assumes "sorted_wrt (\<lambda>a b. f b \<le> f a) ys" and "\<And>a b. P a \<Longrightarrow> f a \<le> f b \<Longrightarrow> P b"
    and "n \<le> length (filter P ys)" and "y \<in> set (take n ys)"
  shows "P y"
  using assms(1,3,4)
proof (induction ys arbitrary: n)
  case Nil
  then show ?case by simp
next
  case (Cons z zs)
  show ?case
  proof (cases "P z")
    case True
    then show ?thesis
      using Cons by (cases n) auto
  next
    case False
    have "\<not> P w" if "w \<in> set zs" for w
    proof
      assume "P w"
      moreover have "f w \<le> f z" using that Cons.prems(1) by simp
      ultimately show False using False assms(2) by blast
    qed
    then have "n = 0" using Cons.prems(2) False by (auto simp: filter_empty_conv)
    then show ?thesis using Cons.prems(3) by simp
  qed
qed

lemma sorted_wrt_take: "sorted_wrt P xs \<Longrightarrow> sorted_wrt P (take n xs)"
  by (metis append_take_drop_id sorted_wrt_append)

subsection \<open>Counting rows per key\<close>

lemma length_filter_mono:
  "(\<And>x. P x \<Longrightarrow> Q x) \<Longrightarrow> length (filter P xs) \<le> length (filter Q xs)"
  by (induction xs) auto

lemma length_le_mult_keys:
  "(\<forall>k. length (filter (\<lambda>x. f x = k) xs) \<le> n) \<Longrightarrow> length xs \<le> n * length (remdups (map f xs))"
proof (induction xs rule: length_induct)
  case (1 xs)
  show ?case
  proof (cases xs)
    case Nil
    then show ?thesis by simp
  next
    case (Cons x ys)
    let ?r = "filter (\<lambda>y. f y \<noteq> f x) xs"
    have "length (filter (\<lambda>y. f y \<noteq> f x) ys) < Suc (length ys)"
      by (rule le_imp_less_Suc [OF length_filter_le])
    then have lt: "length ?r < length xs" using Cons by simp
    have "\<forall>k. length (filter (\<lambda>y. f y = k) ?r) \<le> n"
    proof
      fix k
      have "length (filter (\<lambda>y. f y = k) ?r) \<le> length (filter (\<lambda>y. f y = k) xs)"
        unfolding filter_filter by (rule length_filter_mono) simp
      then show "length (filter (\<lambda>y. f y = k) ?r) \<le> n" using "1.prems" by (meson le_trans)
    qed
    then have ih: "length ?r \<le> n * length (remdups (map f ?r))" using "1.IH" lt by blast
    have split: "length xs = length (filter (\<lambda>y. f y = f x) xs) + length ?r"
      by (simp add: sum_length_filter_compl)
    have "set (map f xs) = insert (f x) (set (map f ?r))" using Cons by auto
    moreover have "f x \<notin> set (map f ?r)" by auto
    ultimately have keys: "length (remdups (map f xs)) = Suc (length (remdups (map f ?r)))"
      by (simp add: length_remdups_card_conv)
    have "length (filter (\<lambda>y. f y = f x) xs) \<le> n" using "1.prems" by blast
    with split ih keys show ?thesis by simp
  qed
qed

lemma distinct_count_list_le: "distinct xs \<Longrightarrow> count_list xs x \<le> 1"
  by (induction xs) auto

lemma length_filter_strict_mono:
  assumes "\<And>y. Q y \<Longrightarrow> P y" and "x \<in> set xs" and "P x" and "\<not> Q x"
  shows "length (filter Q xs) < length (filter P xs)"
  using assms(2)
proof (induction xs)
  case Nil
  then show ?case by simp
next
  case (Cons y ys)
  have mono: "length (filter Q ys) \<le> length (filter P ys)"
    using assms(1) by (rule length_filter_mono)
  show ?case
  proof (cases "y = x")
    case True
    then show ?thesis using assms(3,4) mono by simp
  next
    case False
    then have "length (filter Q ys) < length (filter P ys)" using Cons by simp
    then show ?thesis using assms(1) by auto
  qed
qed

lemma prefix_take_length: "prefix c ys \<Longrightarrow> c = take (length c) ys"
  by (auto simp: prefix_def)

subsection \<open>Strings under the lexicographic order\<close>

lemma Cons_less_eq_Cons:
  "(a # x :: 'a::linorder list) \<le> b # y \<longleftrightarrow> a < b \<or> a = b \<and> x \<le> y"
  by (auto simp: list_le_def)

lemma Cons_lt_if_head_lt:
  "(a :: 'a::linorder) < b \<Longrightarrow> a # x < b # y"
  by simp

lemma Cons_gt_if_head_gt:
  "(b :: 'a::linorder) < a \<Longrightarrow> \<not> a # x \<le> b # y"
  by (auto simp: Cons_less_eq_Cons)

end
