(* ===== verification/Schema.thy ===== *)
theory Schema
  imports Prelude
begin

text \<open>
  The persistent state of the application (\<open>src/database.py\<close>, \<open>init_db\<close>): the
  tables \<open>usuarios\<close> and \<open>pontos\<close> as lists of rows in rowid order, with the
  AUTOINCREMENT counters of \<open>sqlite_sequence\<close>.  The CHECK constraints on
  \<open>perfil\<close> and \<open>tipo\<close> become datatypes; the UNIQUE constraints on \<open>cpf\<close> and
  \<open>login\<close> become the guard of \<open>insert_usuario\<close>, which fails with
  \<open>UniqueViolation\<close> as SQLite raises \<open>IntegrityError\<close>.  The table \<open>pontos\<close> has
  no constraint beyond NOT NULL and CHECK, so \<open>insert_ponto\<close> cannot fail
  (foreign keys are not enforced: SQLite's default).  The password hashes of
  werkzeug are modelled by \<open>pw_hash\<close>: \<open>check_password_hash\<close> accepts exactly the
  password a hash was generated from.  The row lookups of \<open>src/auth.py\<close>
  (\<open>User.get\<close>, \<open>User.get_by_login\<close>, \<open>User.check_password\<close>) close the theory.
\<close>

subsection \<open>Rows and tables\<close>

datatype perfil = Admin | Colaborador

datatype tipo = Entrada | Saida_almoco | Volta_almoco | Saida_final

datatype pw_hash = PwHash string

definition generate_password_hash :: "string \<Rightarrow> pw_hash" where
  "generate_password_hash pw = PwHash pw"

fun check_password_hash :: "pw_hash \<Rightarrow> string \<Rightarrow> bool" where
  "check_password_hash (PwHash h) pw = (h = pw)"

record usuario =
  uid :: user_id
  nome :: sql_text
  cpf :: sql_text
  funcao :: sql_text
  login :: sql_text
  senha :: pw_hash
  perfil :: perfil

record ponto =
  pid :: row_id
  usuario_id :: user_id
  data :: sql_text
  tipo :: tipo
  hora :: sql_text
  observacao :: sql_text

record db =
  usuarios :: "usuario list"
  pontos :: "ponto list"
  seq_usuarios :: nat
  seq_pontos :: nat

datatype sql_error = UniqueViolation

definition empty_db :: db where
  "empty_db = \<lparr>usuarios = [], pontos = [], seq_usuarios = 0, seq_pontos = 0\<rparr>"

subsection \<open>Inserts\<close>

text \<open>\<open>INSERT INTO usuarios\<close>: the UNIQUE constraints on \<open>cpf\<close> and \<open>login\<close>.\<close>

definition insert_usuario ::
  "sql_text \<Rightarrow> sql_text \<Rightarrow> sql_text \<Rightarrow> sql_text \<Rightarrow> pw_hash \<Rightarrow> perfil \<Rightarrow> db \<Rightarrow> sql_error + db" where
  "insert_usuario n c f l s p d =
     (if c \<in> set (map cpf (usuarios d)) \<or> l \<in> set (map login (usuarios d))
      then Inl UniqueViolation
      else (let i = Suc (seq_usuarios d) in
            Inr (d\<lparr>usuarios := usuarios d @
                     [\<lparr>uid = i, nome = n, cpf = c, funcao = f, login = l, senha = s, perfil = p\<rparr>],
                   seq_usuarios := i\<rparr>)))"

text \<open>\<open>INSERT INTO pontos\<close>: no constraint that the model's types do not already enforce.\<close>

definition insert_ponto ::
  "user_id \<Rightarrow> sql_text \<Rightarrow> tipo \<Rightarrow> sql_text \<Rightarrow> sql_text \<Rightarrow> db \<Rightarrow> db" where
  "insert_ponto u dt t h obs d =
     (let i = Suc (seq_pontos d) in
      d\<lparr>pontos := pontos d @
           [\<lparr>pid = i, usuario_id = u, data = dt, tipo = t, hora = h, observacao = obs\<rparr>],
         seq_pontos := i\<rparr>)"

subsection \<open>Start-up\<close>

text \<open>
  \<open>init_db\<close>: the tables exist (CREATE TABLE IF NOT EXISTS); when no row has
  \<open>perfil = 'admin'\<close> the bootstrap administrator is inserted.  The insert can fail
  when another row already holds its \<open>cpf\<close> or \<open>login\<close>; the code does not catch it.
\<close>

definition admin_count :: "db \<Rightarrow> nat" where
  "admin_count d = length (filter (\<lambda>u. perfil u = Admin) (usuarios d))"

definition init_db :: "db \<Rightarrow> sql_error + db" where
  "init_db d =
     (if admin_count d = 0
      then insert_usuario ''Administrador'' ''00000000000'' ''Administrador'' ''admin''
             (generate_password_hash ''admin123'') Admin d
      else Inr d)"

subsection \<open>Lookups of \<open>src/auth.py\<close>\<close>

definition user_get :: "db \<Rightarrow> user_id \<Rightarrow> usuario option" where
  "user_get d i = find (\<lambda>u. uid u = i) (usuarios d)"

definition get_by_login :: "db \<Rightarrow> sql_text \<Rightarrow> usuario option" where
  "get_by_login d l = find (\<lambda>u. login u = l) (usuarios d)"

definition check_password :: "db \<Rightarrow> sql_text \<Rightarrow> string \<Rightarrow> bool" where
  "check_password d l pw =
     (case find (\<lambda>u. login u = l) (usuarios d) of
        None \<Rightarrow> False
      | Some u \<Rightarrow> check_password_hash (senha u) pw)"

declare insert_usuario_def [query_defs] insert_ponto_def [query_defs]
  admin_count_def [query_defs] user_get_def [query_defs] get_by_login_def [query_defs]

subsection \<open>Well-formed tables\<close>

text \<open>
  What SQLite keeps true of the two tables: row ids are distinct and below the
  AUTOINCREMENT counter, \<open>cpf\<close> and \<open>login\<close> are unique.
\<close>

definition schema_ok :: "db \<Rightarrow> bool" where
  "schema_ok d \<longleftrightarrow>
     distinct (map uid (usuarios d)) \<and> (\<forall>u \<in> set (usuarios d). 0 < uid u \<and> uid u \<le> seq_usuarios d) \<and>
     distinct (map cpf (usuarios d)) \<and> distinct (map login (usuarios d)) \<and>
     distinct (map pid (pontos d)) \<and> (\<forall>p \<in> set (pontos d). 0 < pid p \<and> pid p \<le> seq_pontos d)"

lemma schema_ok_empty: "schema_ok empty_db"
  by (simp add: schema_ok_def empty_db_def)

lemma insert_usuario_schema_ok:
  assumes "schema_ok d" and "insert_usuario n c f l s p d = Inr d'"
  shows "schema_ok d'"
proof -
  have fresh: "Suc (seq_usuarios d) \<notin> set (map uid (usuarios d))"
    using assms(1) by (auto simp: schema_ok_def)
  show ?thesis
    using assms fresh
    by (auto simp: schema_ok_def insert_usuario_def Let_def le_SucI split: if_splits)
qed

lemma insert_ponto_schema_ok:
  assumes "schema_ok d"
  shows "schema_ok (insert_ponto u dt t h obs d)"
proof -
  have fresh: "Suc (seq_pontos d) \<notin> set (map pid (pontos d))"
    using assms by (auto simp: schema_ok_def)
  show ?thesis
    using assms fresh by (auto simp: schema_ok_def insert_ponto_def Let_def le_SucI)
qed

lemma insert_ponto_usuarios [simp]:
  "usuarios (insert_ponto u dt t h obs d) = usuarios d"
  by (simp add: insert_ponto_def Let_def)

lemma insert_ponto_pontos:
  "pontos (insert_ponto u dt t h obs d) =
     pontos d @ [\<lparr>pid = Suc (seq_pontos d), usuario_id = u, data = dt, tipo = t, hora = h,
                  observacao = obs\<rparr>]"
  by (simp add: insert_ponto_def Let_def)

lemma insert_usuario_pontos:
  "insert_usuario n c f l s p d = Inr d' \<Longrightarrow> pontos d' = pontos d"
  by (auto simp: insert_usuario_def Let_def split: if_splits)

lemma insert_usuario_Inr_iff:
  "(\<exists>d'. insert_usuario n c f l s p d = Inr d') \<longleftrightarrow>
     c \<notin> set (map cpf (usuarios d)) \<and> l \<notin> set (map login (usuarios d))"
  by (simp add: insert_usuario_def Let_def)

lemma insert_usuario_appends:
  "insert_usuario n c f l s p d = Inr d' \<Longrightarrow>
     usuarios d' = usuarios d @ [\<lparr>uid = Suc (seq_usuarios d), nome = n, cpf = c, funcao = f,
                                  login = l, senha = s, perfil = p\<rparr>]"
  by (auto simp: insert_usuario_def Let_def split: if_splits)

lemma find_Some_in_set:
  "find P xs = Some x \<Longrightarrow> x \<in> set xs \<and> P x"
  by (auto simp: find_Some_iff)

end
