(* ===== verification/Sequencer.thy ===== *)
theory Sequencer
  imports Schema
begin

text \<open>
  The punch sequencer: the loop of \<open>employee_dashboard\<close> and \<open>register_punch\<close>
  (\<open>src/routes.py\<close>) that walks the fixed order \<open>punch_types\<close> and returns the
  first type missing from the day's recorded types, or \<open>None\<close> when all four are
  there.  \<open>first_missing\<close> is the \<open>for\<close> loop with its \<open>break\<close>; \<open>next_punch\<close>
  runs it on \<open>punch_types\<close>.  The abstract contract \<open>next_spec\<close> is stated on the
  set of recorded types; the lemmas show the loop refines it, that the result is
  missing and everything before it present, and the prefix behaviour of the spec.
\<close>

definition punch_types :: "tipo list" where
  "punch_types = [Entrada, Saida_almoco, Volta_almoco, Saida_final]"

fun first_missing :: "tipo list \<Rightarrow> tipo list \<Rightarrow> tipo option" where
  "first_missing [] completed = None"
| "first_missing (t # ts) completed =
     (if t \<notin> set completed then Some t else first_missing ts completed)"

definition next_punch :: "tipo list \<Rightarrow> tipo option" where
  "next_punch completed = first_missing punch_types completed"

text \<open>The contract of the sequencer, on the set of recorded types.\<close>

definition next_spec :: "tipo set \<Rightarrow> tipo option" where
  "next_spec S = find (\<lambda>t. t \<notin> S) punch_types"

lemma punch_types_distinct [simp]: "distinct punch_types"
  by (simp add: punch_types_def)

lemma set_punch_types [simp]: "set punch_types = UNIV"
proof -
  have "t \<in> set punch_types" for t by (cases t) (simp_all add: punch_types_def)
  then show ?thesis by blast
qed

lemma length_punch_types [simp]: "length punch_types = 4"
  by (simp add: punch_types_def)

subsection \<open>The loop\<close>

lemma first_missing_find:
  "first_missing ts completed = find (\<lambda>t. t \<notin> set completed) ts"
  by (induction ts) auto

lemma first_missing_Some:
  "first_missing ts completed = Some t \<Longrightarrow>
     t \<in> set ts \<and> t \<notin> set completed \<and>
     (\<forall>t' \<in> set (takeWhile (\<lambda>x. x \<noteq> t) ts). t' \<in> set completed)"
  by (induction ts) (auto split: if_splits)

lemma first_missing_None:
  "first_missing ts completed = None \<longleftrightarrow> set ts \<subseteq> set completed"
  by (induction ts) auto

lemma first_missing_Cons_irrelevant:
  "t \<notin> set ts \<Longrightarrow> first_missing ts (t # c) = first_missing ts c"
  by (induction ts) auto

lemma first_missing_prefix:
  assumes "prefix c ts" and "distinct ts"
  shows "first_missing ts c = (if length c < length ts then Some (ts ! length c) else None)"
  using assms
proof (induction ts arbitrary: c)
  case Nil
  then show ?case by simp
next
  case (Cons t ts)
  show ?case
  proof (cases c)
    case Nil
    then show ?thesis by simp
  next
    case (Cons x c')
    with Cons.prems have x: "x = t" and pc: "prefix c' ts" by auto
    have "t \<notin> set c'" using Cons.prems pc x by (auto dest: set_mono_prefix)
    with Cons.IH [OF pc] Cons.prems show ?thesis
      by (simp add: \<open>c = x # c'\<close> x first_missing_Cons_irrelevant)
  qed
qed

lemma next_punch_prefix:
  assumes "prefix c punch_types"
  shows "next_punch c = (if length c < 4 then Some (punch_types ! length c) else None)"
  using first_missing_prefix [OF assms punch_types_distinct] by (simp add: next_punch_def)

lemma next_punch_set_eq:
  "set c = set c' \<Longrightarrow> next_punch c = next_punch c'"
  by (simp add: next_punch_def first_missing_find)

lemma take_punch_types_prefix: "prefix (take k punch_types) punch_types"
  by (simp add: take_is_prefix)

subsection \<open>Properties of the sequencer\<close>

text \<open>
  the specification's first testable property, for the unordered collection
  the code reads: whenever the recorded types are, as a set, the first \<open>k\<close> types of
  the fixed order (in any order, with any duplicates), the next punch is the
  \<open>k\<close>-th type of the order, and there is none when \<open>k\<close> reaches four.
\<close>

theorem next_punch_after_prefix:
  assumes "set c = set (take k punch_types)"
  shows "next_punch c = (if k < 4 then Some (punch_types ! k) else None)"
proof -
  have "next_punch c = next_punch (take k punch_types)"
    using assms by (rule next_punch_set_eq)
  also have "\<dots> = (if k < 4 then Some (punch_types ! k) else None)"
    using next_punch_prefix [OF take_punch_types_prefix, of k] by (simp add: min_def)
  finally show ?thesis .
qed

text \<open>
  C19: the loop refines its contract: \<open>next_punch\<close> on the list of recorded types is
  the abstract \<open>next_spec\<close> on the set of those types.
\<close>

theorem next_punch_refines_spec: "next_punch c = next_spec (set c)"
  by (simp add: next_punch_def next_spec_def first_missing_find)

text \<open>
  when the sequencer names a type, that type is not recorded yet and every type
  before it in the fixed order is.
\<close>

theorem next_punch_sound:
  assumes "next_punch c = Some t"
  shows "t \<notin> set c \<and> (\<forall>t' \<in> set (takeWhile (\<lambda>x. x \<noteq> t) punch_types). t' \<in> set c)"
  using first_missing_Some [of punch_types c t] assms by (simp add: next_punch_def)

text \<open>
  the sequencer reports the day complete exactly when all four types have been
  recorded, however often each occurs.
\<close>

theorem next_punch_complete_iff: "next_punch c = None \<longleftrightarrow> (\<forall>t. t \<in> set c)"
  by (auto simp: next_punch_def first_missing_None)

end
