(* ===== verification/PyText.thy ===== *)
theory PyText
  imports Prelude
begin

text \<open>
  The Python \<open>str\<close> builtins the handlers of \<open>src/routes.py\<close> call, on strings of
  code points below 256 (\<open>char\<close>): \<open>str.split(sep)\<close> as \<open>py_split\<close>,
  \<open>sep.join\<close> as \<open>join_sep\<close> (its inverse), \<open>str.strip()\<close> as \<open>py_strip\<close> with
  the characters for which \<open>str.isspace()\<close> holds, and \<open>re.sub(r'[^0-9]', '', s)\<close>
  as \<open>only_digits\<close>.  Python's exceptions appear as \<open>py_error\<close>.
\<close>

datatype py_error = IndexError

fun py_split :: "char \<Rightarrow> string \<Rightarrow> string list" where
  "py_split c [] = [[]]"
| "py_split c (x # xs) =
     (if x = c then [] # py_split c xs
      else (case py_split c xs of [] \<Rightarrow> [[x]] | p # ps \<Rightarrow> (x # p) # ps))"

text \<open>Joining parts with a separator, \<open>sep.join(parts)\<close>: the inverse of \<open>py_split\<close>.\<close>

fun join_sep :: "char \<Rightarrow> string list \<Rightarrow> string" where
  "join_sep c [] = []"
| "join_sep c [p] = p"
| "join_sep c (p # ps) = p @ c # join_sep c ps"

definition py_isspace :: "char \<Rightarrow> bool" where
  "py_isspace c \<longleftrightarrow> of_char c \<in> {9, 10, 11, 12, 13, 28, 29, 30, 31, 32, 133, 160 :: nat}"

definition py_strip :: "string \<Rightarrow> string" where
  "py_strip s = rev (dropWhile py_isspace (rev (dropWhile py_isspace s)))"

definition py_isdigit :: "char \<Rightarrow> bool" where
  "py_isdigit c \<longleftrightarrow> (48 :: nat) \<le> of_char c \<and> of_char c \<le> (57 :: nat)"

definition only_digits :: "string \<Rightarrow> string" where
  "only_digits s = filter py_isdigit s"

text \<open>\<open>str.lower()\<close> on code points below 256: ASCII capitals and the Latin-1
  capitals except the multiplication sign move up by 32.\<close>

definition py_lower_char :: "char \<Rightarrow> char" where
  "py_lower_char c =
     (let n = (of_char c :: nat) in
      if 65 \<le> n \<and> n \<le> 90 \<or> 192 \<le> n \<and> n \<le> 222 \<and> n \<noteq> 215 then char_of (n + 32) else c)"

definition py_lower :: "string \<Rightarrow> string" where
  "py_lower s = map py_lower_char s"

subsection \<open>\<open>py_split\<close>\<close>

lemma py_split_ne [simp]: "py_split c s \<noteq> []"
  by (induction s) (auto split: list.split)

lemma py_split_no_sep: "c \<notin> set a \<Longrightarrow> py_split c a = [a]"
  by (induction a) auto

lemma py_split_sep: "c \<notin> set a \<Longrightarrow> py_split c (a @ c # b) = a # py_split c b"
  by (induction a) auto

lemma py_split_parts: "p \<in> set (py_split c s) \<Longrightarrow> c \<notin> set p"
proof (induction s arbitrary: p)
  case Nil
  then show ?case by simp
next
  case (Cons x xs)
  then show ?case by (auto split: if_splits list.splits)
qed

lemma join_sep_Cons_Cons: "join_sep c ((x # a) # ps) = x # join_sep c (a # ps)"
  by (cases ps) auto

lemma py_split_join: "join_sep c (py_split c s) = s"
proof (induction s)
  case Nil
  then show ?case by simp
next
  case (Cons x xs)
  then show ?case
    by (cases "py_split c xs") (auto simp: join_sep_Cons_Cons)
qed

subsection \<open>\<open>py_strip\<close>\<close>

lemma dropWhile_all_Nil:
  assumes "\<forall>c \<in> set (dropWhile P s). P c"
  shows "dropWhile P s = []"
proof (rule ccontr)
  assume ne: "dropWhile P s \<noteq> []"
  then have "\<not> P (hd (dropWhile P s))" by (rule hd_dropWhile)
  moreover have "hd (dropWhile P s) \<in> set (dropWhile P s)" using ne by (rule hd_in_set)
  ultimately show False using assms by blast
qed

lemma py_strip_Nil_iff: "py_strip s = [] \<longleftrightarrow> (\<forall>c \<in> set s. py_isspace c)"
proof -
  let ?t = "dropWhile py_isspace s"
  have "py_strip s = [] \<longleftrightarrow> (\<forall>c \<in> set ?t. py_isspace c)"
    unfolding py_strip_def by (simp only: rev_is_Nil_conv dropWhile_eq_Nil_conv set_rev)
  also have "\<dots> \<longleftrightarrow> ?t = []"
  proof
    assume "\<forall>c \<in> set ?t. py_isspace c"
    then show "?t = []" by (rule dropWhile_all_Nil)
  next
    assume "?t = []"
    then show "\<forall>c \<in> set ?t. py_isspace c" by (simp only: list.set ball_empty)
  qed
  also have "\<dots> \<longleftrightarrow> (\<forall>c \<in> set s. py_isspace c)"
    by (rule dropWhile_eq_Nil_conv)
  finally show ?thesis .
qed

lemma dropWhile_none:
  "\<forall>c \<in> set xs. \<not> P c \<Longrightarrow> dropWhile P xs = xs"
  by (cases xs) simp_all

lemma py_strip_no_space:
  assumes "\<forall>c \<in> set s. \<not> py_isspace c"
  shows "py_strip s = s"
proof -
  have "dropWhile py_isspace s = s"
    using assms by (rule dropWhile_none)
  moreover have "dropWhile py_isspace (rev s) = rev s"
    using assms by (simp add: dropWhile_none)
  ultimately show ?thesis by (simp add: py_strip_def)
qed

subsection \<open>\<open>py_lower\<close>\<close>

lemma py_lower_csv: "py_lower ''csv'' = ''csv''"
  by (simp add: py_lower_def py_lower_char_def)

end
