(* ===== verification/Clock.thy ===== *)
theory Clock
  imports PyText
begin

text \<open>
  Dates and times as the code produces and reads them (\<open>src/routes.py\<close>).
  \<open>get_brasilia_date\<close> and \<open>get_brasilia_time\<close> read the clock in the fixed zone
  \<open>BRASIL_TZ\<close> (UTC-3) from a POSIX time in whole seconds; the calendar arithmetic
  of Python's \<open>datetime\<close> is \<open>civil_of_days\<close> (proleptic Gregorian, from the day
  count since 1970-01-01).  The strings the code builds with \<open>strftime\<close> are
  \<open>strftime_dmy\<close> (\<open>'%d-%m-%Y'\<close>, the format of every stored \<open>pontos.data\<close>),
  \<open>strftime_first_dmy\<close> (\<open>'01-%m-%Y'\<close>) and \<open>strftime_hms\<close> (\<open>'%H:%M:%S'\<close>);
  \<open>iso_date\<close> is the ISO form \<open>YYYY-MM-DD\<close>.  \<open>convert_date_for_db\<close> is the local
  helper of \<open>reports\<close>, \<open>export_reports\<close> and \<open>print_report\<close>, with the
  \<open>IndexError\<close> of \<open>parts[2]\<close> as an error value.  The last group compares a stored \<open>'%d-%m-%Y'\<close> string with an ISO
  string in SQLite's BINARY collation.
\<close>

record civil_date =
  year :: nat
  month :: nat
  day :: nat

record clock_time =
  hour :: nat
  minute :: nat
  second :: nat

subsection \<open>The clock in UTC-3\<close>

definition brasil_offset :: int where
  "brasil_offset = -3 * 3600"

definition civil_of_days :: "int \<Rightarrow> civil_date" where
  "civil_of_days z0 =
     (let z = z0 + 719468; era = z div 146097; doe = z - era * 146097;
          yoe = (doe - doe div 1460 + doe div 36524 - doe div 146096) div 365;
          doy = doe - (365 * yoe + yoe div 4 - yoe div 100);
          mp = (5 * doy + 2) div 153;
          d = doy - (153 * mp + 2) div 5 + 1;
          m = (if mp < 10 then mp + 3 else mp - 9);
          y = yoe + era * 400 + (if m \<le> 2 then 1 else 0)
      in \<lparr>year = nat y, month = nat m, day = nat d\<rparr>)"

definition get_brasilia_date :: "int \<Rightarrow> civil_date" where
  "get_brasilia_date t = civil_of_days ((t + brasil_offset) div 86400)"

definition get_brasilia_time :: "int \<Rightarrow> clock_time" where
  "get_brasilia_time t =
     (let s = (t + brasil_offset) mod 86400 in
      \<lparr>hour = nat (s div 3600), minute = nat (s mod 3600 div 60), second = nat (s mod 60)\<rparr>)"

subsection \<open>Formatting\<close>

definition digit_char :: "nat \<Rightarrow> char" where
  "digit_char n = ''0123456789'' ! n"

fun digits_of :: "nat \<Rightarrow> string" where
  "digits_of n = (if n < 10 then [digit_char n] else digits_of (n div 10) @ [digit_char (n mod 10)])"

declare digits_of.simps [simp del]

definition pad2 :: "nat \<Rightarrow> string" where
  "pad2 n = (if n < 10 then CHR ''0'' # digits_of n else digits_of n)"

definition strftime_dmy :: "civil_date \<Rightarrow> string" where
  "strftime_dmy d = pad2 (day d) @ ''-'' @ pad2 (month d) @ ''-'' @ digits_of (year d)"

definition strftime_first_dmy :: "civil_date \<Rightarrow> string" where
  "strftime_first_dmy d = ''01-'' @ pad2 (month d) @ ''-'' @ digits_of (year d)"

definition strftime_hms :: "clock_time \<Rightarrow> string" where
  "strftime_hms c = pad2 (hour c) @ '':'' @ pad2 (minute c) @ '':'' @ pad2 (second c)"

definition iso_date :: "civil_date \<Rightarrow> string" where
  "iso_date d = digits_of (year d) @ ''-'' @ pad2 (month d) @ ''-'' @ pad2 (day d)"

subsection \<open>\<open>convert_date_for_db\<close>\<close>

definition convert_date_for_db :: "string \<Rightarrow> py_error + string" where
  "convert_date_for_db s =
     (if s \<noteq> [] \<and> CHR ''-'' \<in> set s then
        (let parts = py_split (CHR ''-'') s in
         if length (parts ! 0) = 2 then
           (if length parts < 3 then Inl IndexError
            else Inr (parts ! 2 @ ''-'' @ parts ! 1 @ ''-'' @ parts ! 0))
         else Inr s)
      else Inr s)"

text \<open>A well-formed \<open>'%H:%M:%S'\<close> string: eight characters, digits around two colons.\<close>

definition hora_ok :: "string \<Rightarrow> bool" where
  "hora_ok s \<longleftrightarrow> length s = 8 \<and> s ! 2 = CHR '':'' \<and> s ! 5 = CHR '':'' \<and>
     list_all py_isdigit [s ! 0, s ! 1, s ! 3, s ! 4, s ! 6, s ! 7]"

subsection \<open>Digits\<close>

lemma of_char_digit_char:
  "n < 10 \<Longrightarrow> of_char (digit_char n) = 48 + n"
  by (auto simp: digit_char_def less_Suc_eq numeral_eq_Suc)

lemma digit_char_less_iff [simp]:
  "a < 10 \<Longrightarrow> b < 10 \<Longrightarrow> digit_char a < digit_char b \<longleftrightarrow> a < b"
  by (simp add: less_char_def of_char_digit_char)

lemma digit_char_eq_iff [simp]:
  "a < 10 \<Longrightarrow> b < 10 \<Longrightarrow> digit_char a = digit_char b \<longleftrightarrow> a = b"
  by (metis of_char_digit_char add_left_cancel)

lemma dash_less_digit_char [simp]:
  "n < 10 \<Longrightarrow> CHR ''-'' < digit_char n"
  by (simp add: less_char_def of_char_digit_char)

lemma digit_char_not_less_dash [simp]:
  "n < 10 \<Longrightarrow> \<not> digit_char n < CHR ''-''"
  using dash_less_digit_char by (metis order_less_asym)

lemma digit_char_not_dash [simp]:
  "n < 10 \<Longrightarrow> digit_char n \<noteq> CHR ''-''"
  "n < 10 \<Longrightarrow> CHR ''-'' \<noteq> digit_char n"
  using dash_less_digit_char by (metis order_less_irrefl)+

lemma digits_of_not_dash:
  "CHR ''-'' \<notin> set (digits_of n)"
proof (induction n rule: digits_of.induct)
  case (1 n)
  then show ?case by (subst digits_of.simps) auto
qed

lemma digits_of_ne [simp]: "digits_of n \<noteq> []"
  by (subst digits_of.simps) simp

lemma digits_of_small: "n < 10 \<Longrightarrow> digits_of n = [digit_char n]"
  by (subst digits_of.simps) simp

lemma digits_of_two:
  assumes "10 \<le> n" and "n < 100"
  shows "digits_of n = [digit_char (n div 10), digit_char (n mod 10)]"
proof -
  have "n div 10 < 10" using assms by simp
  with assms show ?thesis by (subst digits_of.simps) (simp add: digits_of_small)
qed

lemma digits_of_four:
  assumes "1000 \<le> y" and "y < 10000"
  shows "digits_of y =
           [digit_char (y div 1000), digit_char (y div 100 mod 10), digit_char (y div 10 mod 10),
            digit_char (y mod 10)]"
proof -
  have a: "digits_of (y div 100) = [digit_char (y div 1000), digit_char (y div 100 mod 10)]"
    using assms digits_of_two [of "y div 100"] by (simp add: div_mult2_eq [symmetric])
  have "digits_of (y div 10) = digits_of (y div 100) @ [digit_char (y div 10 mod 10)]"
    using assms by (subst digits_of.simps) (simp add: div_mult2_eq [symmetric])
  with a assms show ?thesis by (subst digits_of.simps) simp
qed

lemma pad2_two:
  "n < 100 \<Longrightarrow> pad2 n = [digit_char (n div 10), digit_char (n mod 10)]"
  by (auto simp: pad2_def digits_of_small digits_of_two digit_char_def)

lemma length_pad2: "n < 100 \<Longrightarrow> length (pad2 n) = 2"
  by (simp add: pad2_two)

lemma pad2_not_dash: "CHR ''-'' \<notin> set (pad2 n)"
  using digits_of_not_dash [of n] by (simp add: pad2_def)

subsection \<open>Bounds of the clock\<close>

lemma div_bounds_int:
  fixes a :: int and k :: int
  assumes "0 < k"
  shows "k * (a div k) \<le> a \<and> a < k * (a div k) + k"
proof -
  have "k * (a div k) + a mod k = a" by (rule mult_div_mod_eq)
  moreover have "0 \<le> a mod k" "a mod k < k" using assms by simp_all
  ultimately show ?thesis by linarith
qed

lemma civil_day_arith:
  fixes doy :: int
  shows "1 \<le> doy - (153 * ((5 * doy + 2) div 153) + 2) div 5 + 1 \<and>
         doy - (153 * ((5 * doy + 2) div 153) + 2) div 5 + 1 \<le> 31"
proof -
  define mp where "mp = (5 * doy + 2) div 153"
  define x where "x = (153 * mp + 2) div 5"
  have x: "5 * x \<le> 153 * mp + 2 \<and> 153 * mp + 2 < 5 * x + 5"
    unfolding x_def by (rule div_bounds_int) simp
  have m: "153 * mp \<le> 5 * doy + 2 \<and> 5 * doy + 2 < 153 * mp + 153"
    unfolding mp_def by (rule div_bounds_int) simp
  from x m have "x \<le> doy" and "doy - x \<le> 30" by linarith+
  then show ?thesis unfolding x_def mp_def by simp
qed

lemma civil_day_nat:
  "1 \<le> nat (doy - (153 * ((5 * doy + 2) div 153) + 2) div 5 + 1)"
  "nat (doy - (153 * ((5 * doy + 2) div 153) + 2) div 5 + 1) \<le> 31"
  using civil_day_arith [of doy] by linarith+

lemma civil_of_days_day: "1 \<le> day (civil_of_days z) \<and> day (civil_of_days z) \<le> 31"
  unfolding civil_of_days_def Let_def civil_date.select_convs
  by (simp only: civil_day_nat simp_thms)

lemma get_brasilia_date_day: "1 \<le> day (get_brasilia_date t) \<and> day (get_brasilia_date t) \<le> 31"
  unfolding get_brasilia_date_def by (rule civil_of_days_day)

lemma get_brasilia_time_bounds:
  "hour (get_brasilia_time t) < 24 \<and> minute (get_brasilia_time t) < 60 \<and>
   second (get_brasilia_time t) < 60"
proof -
  define s where "s = (t + brasil_offset) mod 86400"
  have s0: "0 \<le> s" and s1: "s < 86400" unfolding s_def by simp_all
  have h: "s div 3600 < 24"
    using s1 div_bounds_int [of 3600 s] by linarith
  have m: "s mod 3600 div 60 < 60"
    using div_bounds_int [of 60 "s mod 3600"] pos_mod_bound [of 3600 s] by linarith
  have c: "s mod 60 < 60" by simp
  have "get_brasilia_time t = \<lparr>hour = nat (s div 3600), minute = nat (s mod 3600 div 60),
                                second = nat (s mod 60)\<rparr>"
    unfolding get_brasilia_time_def s_def Let_def ..
  with h m c show ?thesis by (simp add: nat_less_iff)
qed

subsection \<open>Reading a date back for the queries\<close>

lemma py_split_strftime_dmy:
  "py_split (CHR ''-'') (strftime_dmy d) = [pad2 (day d), pad2 (month d), digits_of (year d)]"
  by (simp add: strftime_dmy_def py_split_sep py_split_no_sep pad2_not_dash digits_of_not_dash)

lemma py_split_iso_date:
  "py_split (CHR ''-'') (iso_date d) = [digits_of (year d), pad2 (month d), pad2 (day d)]"
  by (simp add: iso_date_def py_split_sep py_split_no_sep pad2_not_dash digits_of_not_dash)

lemma convert_date_for_db_dmy:
  assumes "day d < 100"
  shows "convert_date_for_db (strftime_dmy d) = Inr (iso_date d)"
proof -
  note split = py_split_strftime_dmy [of d]
  have dash: "CHR ''-'' \<in> set (strftime_dmy d)"
    by (simp add: strftime_dmy_def)
  then have "strftime_dmy d \<noteq> []" by auto
  with dash show ?thesis
    using assms by (simp add: convert_date_for_db_def Let_def split length_pad2 iso_date_def)
qed

lemma convert_date_for_db_iso:
  assumes "1000 \<le> year d" and "year d < 10000"
  shows "convert_date_for_db (iso_date d) = Inr (iso_date d)"
proof -
  note split = py_split_iso_date [of d]
  show ?thesis
    using assms by (simp add: convert_date_for_db_def split digits_of_four)
qed

subsection \<open>A stored date against an ISO bound\<close>

text \<open>
  In BINARY collation the first two characters decide: the day of a stored
  \<open>'%d-%m-%Y'\<close> string is compared with the century of an ISO date, and the third
  character (\<open>'-'\<close> against a digit) settles a tie.
\<close>

lemma two_digit_lex:
  "(a::nat) < 100 \<Longrightarrow> c < 100 \<Longrightarrow>
     (a div 10 < c div 10 \<or> a div 10 = c div 10 \<and> a mod 10 \<le> c mod 10) \<longleftrightarrow> a \<le> c"
proof -
  assume a: "a < 100" and c: "c < 100"
  have ea: "a = 10 * (a div 10) + a mod 10" and ec: "c = 10 * (c div 10) + c mod 10" by simp_all
  have "a mod 10 < 10" "c mod 10 < 10" by simp_all
  then show ?thesis using ea ec by linarith
qed

lemma two_digit_lex_less:
  "(a::nat) < 100 \<Longrightarrow> c < 100 \<Longrightarrow>
     (a div 10 < c div 10 \<or> a div 10 = c div 10 \<and> a mod 10 < c mod 10) \<longleftrightarrow> a < c"
proof -
  assume a: "a < 100" and c: "c < 100"
  have ea: "a = 10 * (a div 10) + a mod 10" and ec: "c = 10 * (c div 10) + c mod 10" by simp_all
  have "a mod 10 < 10" "c mod 10 < 10" by simp_all
  then show ?thesis using ea ec by linarith
qed

lemma iso_chars:
  assumes "1000 \<le> year e" and "year e < 10000"
  obtains r where "iso_date e =
     digit_char (year e div 100 div 10) # digit_char (year e div 100 mod 10) #
     digit_char (year e div 10 mod 10) # r"
  using assms by (simp add: iso_date_def digits_of_four div_mult2_eq [symmetric])

lemma strftime_dmy_le_iso:
  assumes "day d < 100" and "1000 \<le> year e" and "year e < 10000"
  shows "strftime_dmy d \<le> iso_date e \<longleftrightarrow> day d \<le> year e div 100"
proof -
  obtain r where e: "iso_date e =
     digit_char (year e div 100 div 10) # digit_char (year e div 100 mod 10) #
     digit_char (year e div 10 mod 10) # r"
    using assms(2,3) by (rule iso_chars)
  have c: "year e div 100 < 100" using assms(3) by simp
  have s: "strftime_dmy d = digit_char (day d div 10) # digit_char (day d mod 10) # CHR ''-'' #
             pad2 (month d) @ CHR ''-'' # digits_of (year d)"
    using assms(1) by (simp add: strftime_dmy_def pad2_two)
  have c10: "year e div 100 div 10 < 10" using c by simp
  have d10: "day d div 10 < 10" using assms(1) by simp
  have "strftime_dmy d \<le> iso_date e \<longleftrightarrow>
        (day d div 10 < year e div 100 div 10 \<or>
         day d div 10 = year e div 100 div 10 \<and> day d mod 10 \<le> year e div 100 mod 10)"
    unfolding s e Cons_less_eq_Cons using c10 d10 by (simp add: le_less)
  also have "\<dots> \<longleftrightarrow> day d \<le> year e div 100"
    using assms(1) c by (rule two_digit_lex)
  finally show ?thesis .
qed

lemma iso_le_strftime_dmy:
  assumes "day d < 100" and "1000 \<le> year e" and "year e < 10000"
  shows "iso_date e \<le> strftime_dmy d \<longleftrightarrow> year e div 100 < day d"
proof -
  obtain r where e: "iso_date e =
     digit_char (year e div 100 div 10) # digit_char (year e div 100 mod 10) #
     digit_char (year e div 10 mod 10) # r"
    using assms(2,3) by (rule iso_chars)
  have c: "year e div 100 < 100" using assms(3) by simp
  have s: "strftime_dmy d = digit_char (day d div 10) # digit_char (day d mod 10) # CHR ''-'' #
             pad2 (month d) @ CHR ''-'' # digits_of (year d)"
    using assms(1) by (simp add: strftime_dmy_def pad2_two)
  have c10: "year e div 100 div 10 < 10" using c by simp
  have d10: "day d div 10 < 10" using assms(1) by simp
  have "iso_date e \<le> strftime_dmy d \<longleftrightarrow>
        (year e div 100 div 10 < day d div 10 \<or>
         year e div 100 div 10 = day d div 10 \<and> year e div 100 mod 10 < day d mod 10)"
    unfolding s e Cons_less_eq_Cons using c10 d10 by (auto simp: not_less)
  also have "\<dots> \<longleftrightarrow> year e div 100 < day d"
    using c assms(1) by (rule two_digit_lex_less)
  finally show ?thesis .
qed

subsection \<open>Stored dates among themselves\<close>

text \<open>Two \<open>'%d-%m-%Y'\<close> strings compare by their day of the month first: month
  and year only break a tie.\<close>

lemma strftime_dmy_less_day:
  assumes "day a < day b" and "day b < 100"
  shows "strftime_dmy a < strftime_dmy b"
proof -
  have a100: "day a < 100" using assms by simp
  have s: "strftime_dmy d = digit_char (day d div 10) # digit_char (day d mod 10) # CHR ''-'' #
             pad2 (month d) @ CHR ''-'' # digits_of (year d)" if "day d < 100" for d
    using that by (simp add: strftime_dmy_def pad2_two)
  have "day a div 10 < day b div 10 \<or> day a div 10 = day b div 10 \<and> day a mod 10 < day b mod 10"
    using two_digit_lex_less [OF a100 assms(2)] assms(1) by blast
  moreover have "day a div 10 < 10" "day b div 10 < 10" using a100 assms(2) by simp_all
  ultimately show ?thesis unfolding s [OF a100] s [OF assms(2)] by auto
qed

subsection \<open>Well-formed times\<close>

lemma py_isdigit_digit_char: "n < 10 \<Longrightarrow> py_isdigit (digit_char n)"
  by (simp add: py_isdigit_def of_char_digit_char)

lemma hora_ok_strftime_hms:
  assumes "hour c < 100" and "minute c < 100" and "second c < 100"
  shows "hora_ok (strftime_hms c)"
  using assms by (simp add: hora_ok_def strftime_hms_def pad2_two py_isdigit_digit_char)

lemma hora_ok_clock: "hora_ok (strftime_hms (get_brasilia_time t))"
  using get_brasilia_time_bounds [of t] by (intro hora_ok_strftime_hms) simp_all

end
