(* ===== verification/Punch.thy ===== *)
theory Punch
  imports Sequencer Clock
begin

text \<open>
  The punch ledger and its two handlers in \<open>src/routes.py\<close>:
  \<open>employee_dashboard\<close> (shows the day's punches and the next type) and
  \<open>register_punch\<close> (records the next type).  Both read today's rows of the
  current user (\<open>today_punches\<close>, the query \<open>WHERE usuario_id = ? AND data = ?
  ORDER BY hora\<close>, ties in rowid order) and run the sequencer on their types.
  \<open>register_punch\<close> reads the clock twice, once for the date and once for the
  time, as the code does.  The invariant \<open>ledger_ok\<close> says that for every user and
  date the types recorded, in insertion order, are a prefix of \<open>punch_types\<close>.
  The handler is also split into its read phase \<open>punch_begin\<close> and its write
  phase \<open>punch_commit\<close>: sequentially they are \<open>register_punch\<close>, interleaved they
  break the invariant, since the table \<open>pontos\<close> has no UNIQUE constraint.
\<close>

subsection \<open>Queries\<close>

definition today_punches :: "db \<Rightarrow> user_id \<Rightarrow> sql_text \<Rightarrow> ponto list" where
  "today_punches d u today =
     sort_key hora (filter (\<lambda>p. usuario_id p = u \<and> data p = today) (pontos d))"

definition day_tipos :: "db \<Rightarrow> user_id \<Rightarrow> sql_text \<Rightarrow> tipo list" where
  "day_tipos d u dt = map tipo (filter (\<lambda>p. usuario_id p = u \<and> data p = dt) (pontos d))"

declare today_punches_def [query_defs]

subsection \<open>Handlers\<close>

datatype punch_response = PunchDenied | AllRecorded | Registered tipo sql_text

definition register_punch ::
  "usuario \<Rightarrow> int \<Rightarrow> int \<Rightarrow> string \<Rightarrow> db \<Rightarrow> punch_response \<times> db" where
  "register_punch cu t_date t_time obs d =
     (if perfil cu \<noteq> Colaborador then (PunchDenied, d)
      else
        (let observacao = py_strip obs;
             today = strftime_dmy (get_brasilia_date t_date);
             now = strftime_hms (get_brasilia_time t_time);
             completed = map tipo (today_punches d (uid cu) today)
         in case next_punch completed of
              None \<Rightarrow> (AllRecorded, d)
            | Some t \<Rightarrow> (Registered t now, insert_ponto (uid cu) today t now observacao d)))"

datatype employee_view =
    RedirectAdmin
  | EmployeeView "ponto list" "tipo option" sql_text

definition employee_dashboard :: "usuario \<Rightarrow> int \<Rightarrow> db \<Rightarrow> employee_view" where
  "employee_dashboard cu t d =
     (if perfil cu \<noteq> Colaborador then RedirectAdmin
      else
        (let today = strftime_dmy (get_brasilia_date t);
             ps = today_punches d (uid cu) today
         in EmployeeView ps (next_punch (map tipo ps)) today))"

declare register_punch_def [handler_defs] employee_dashboard_def [handler_defs]

subsection \<open>The handler in two phases\<close>

record punch_request =
  req_user :: usuario
  req_today :: sql_text
  req_now :: sql_text
  req_obs :: sql_text
  req_next :: "tipo option"

definition punch_begin :: "usuario \<Rightarrow> int \<Rightarrow> int \<Rightarrow> string \<Rightarrow> db \<Rightarrow> punch_request" where
  "punch_begin cu t_date t_time obs d =
     (let today = strftime_dmy (get_brasilia_date t_date) in
      \<lparr>req_user = cu, req_today = today, req_now = strftime_hms (get_brasilia_time t_time),
       req_obs = py_strip obs,
       req_next = next_punch (map tipo (today_punches d (uid cu) today))\<rparr>)"

definition punch_commit :: "punch_request \<Rightarrow> db \<Rightarrow> punch_response \<times> db" where
  "punch_commit r d =
     (if perfil (req_user r) \<noteq> Colaborador then (PunchDenied, d)
      else case req_next r of
             None \<Rightarrow> (AllRecorded, d)
           | Some t \<Rightarrow> (Registered t (req_now r),
                        insert_ponto (uid (req_user r)) (req_today r) t (req_now r) (req_obs r) d))"

subsection \<open>The ledger invariant\<close>

definition ledger_ok :: "db \<Rightarrow> bool" where
  "ledger_ok d \<longleftrightarrow>
     (\<forall>p \<in> set (pontos d). prefix (day_tipos d (usuario_id p) (data p)) punch_types)"

text \<open>The punch types still missing from a user's day.\<close>

definition missing_count :: "db \<Rightarrow> user_id \<Rightarrow> sql_text \<Rightarrow> nat" where
  "missing_count d u dt = length (filter (\<lambda>x. x \<notin> set (day_tipos d u dt)) punch_types)"

lemma ledger_ok_day_tipos:
  assumes "ledger_ok d"
  shows "prefix (day_tipos d u dt) punch_types"
proof (cases "day_tipos d u dt")
  case Nil
  then show ?thesis by simp
next
  case (Cons t ts)
  then have "filter (\<lambda>p. usuario_id p = u \<and> data p = dt) (pontos d) \<noteq> []"
    by (auto simp: day_tipos_def)
  then obtain p where "p \<in> set (filter (\<lambda>p. usuario_id p = u \<and> data p = dt) (pontos d))"
    by (meson ex_in_conv set_empty)
  with assms show ?thesis by (auto simp: ledger_ok_def)
qed

lemma ledger_ok_iff:
  "ledger_ok d \<longleftrightarrow> (\<forall>u dt. prefix (day_tipos d u dt) punch_types)"
  using ledger_ok_day_tipos by (auto simp: ledger_ok_def)

lemma set_today_punches_tipos:
  "tipo ` set (today_punches d u dt) = set (day_tipos d u dt)"
  by (simp add: today_punches_def day_tipos_def)

lemma next_punch_today:
  "next_punch (map tipo (today_punches d u dt)) = next_punch (day_tipos d u dt)"
  by (simp add: next_punch_def first_missing_find set_today_punches_tipos)

lemma day_tipos_insert_ponto:
  "day_tipos (insert_ponto u dt t h obs d) u' dt' =
     (if u' = u \<and> dt' = dt then day_tipos d u' dt' @ [t] else day_tipos d u' dt')"
  by (simp add: day_tipos_def insert_ponto_pontos)

lemma prefix_next_punch_snoc:
  assumes "prefix c punch_types" and "next_punch c = Some t"
  shows "prefix (c @ [t]) punch_types"
proof -
  have "length c < 4" and "t = punch_types ! length c"
    using assms next_punch_prefix [OF assms(1)] by (auto split: if_splits)
  then show ?thesis using assms(1) by (simp add: append_one_prefix)
qed

lemma insert_next_ledger_ok:
  assumes "ledger_ok d" and "next_punch (day_tipos d u dt) = Some t"
  shows "ledger_ok (insert_ponto u dt t h obs d)"
proof -
  have "prefix (day_tipos (insert_ponto u dt t h obs d) u' dt') punch_types" for u' dt'
    using assms ledger_ok_day_tipos [OF assms(1)] prefix_next_punch_snoc
    by (simp add: day_tipos_insert_ponto)
  then show ?thesis by (simp add: ledger_ok_iff)
qed

lemma register_punch_cases:
  assumes "perfil cu = Colaborador"
  shows "register_punch cu t_date t_time obs d =
     (let today = strftime_dmy (get_brasilia_date t_date);
          now = strftime_hms (get_brasilia_time t_time)
      in case next_punch (day_tipos d (uid cu) today) of
           None \<Rightarrow> (AllRecorded, d)
         | Some t \<Rightarrow> (Registered t now, insert_ponto (uid cu) today t now (py_strip obs) d))"
  using assms by (simp add: register_punch_def Let_def next_punch_today)

lemma register_punch_progress:
  assumes "register_punch cu t t obs d = (Registered x h, d')"
  shows "missing_count d' (uid cu) (strftime_dmy (get_brasilia_date t)) <
         missing_count d (uid cu) (strftime_dmy (get_brasilia_date t))"
proof -
  let ?today = "strftime_dmy (get_brasilia_date t)"
  have n: "next_punch (day_tipos d (uid cu) ?today) = Some x"
    and e: "d' = insert_ponto (uid cu) ?today x (strftime_hms (get_brasilia_time t)) (py_strip obs) d"
    using assms by (auto simp: register_punch_def Let_def next_punch_today split: if_splits option.splits)
  have x: "x \<notin> set (day_tipos d (uid cu) ?today)"
    using n by (auto simp: next_punch_def dest: first_missing_Some)
  have "length (filter (\<lambda>y. y \<notin> set (day_tipos d (uid cu) ?today @ [x])) punch_types) <
        length (filter (\<lambda>y. y \<notin> set (day_tipos d (uid cu) ?today)) punch_types)"
    by (rule length_filter_strict_mono [where x = x]) (auto simp: x)
  then show ?thesis by (simp add: missing_count_def e day_tipos_insert_ponto)
qed

lemma day_tipos_count:
  "count_list (day_tipos d u dt) x = length (filter (\<lambda>p. usuario_id p = u \<and> data p = dt \<and> tipo p = x) (pontos d))"
  unfolding day_tipos_def count_list_eq_length_filter filter_map filter_filter length_map comp_def
  by (rule arg_cong [where f = length], rule filter_cong) auto

lemma ledger_ok_distinct_day:
  assumes "ledger_ok d"
  shows "distinct (day_tipos d u dt)"
  using ledger_ok_day_tipos [OF assms] punch_types_distinct by (rule prefix_distinct)

lemma punch_commit_begin:
  assumes "perfil cu = Colaborador"
  shows "punch_commit (punch_begin cu t_date t_time obs d) d' =
     (let today = strftime_dmy (get_brasilia_date t_date);
          now = strftime_hms (get_brasilia_time t_time)
      in case next_punch (day_tipos d (uid cu) today) of
           None \<Rightarrow> (AllRecorded, d')
         | Some t \<Rightarrow> (Registered t now, insert_ponto (uid cu) today t now (py_strip obs) d'))"
  using assms
  by (simp add: punch_commit_def punch_begin_def Let_def next_punch_today split: option.split)

subsection \<open>Properties of the punch handlers\<close>

text \<open>Recording a punch keeps the ledger invariant.\<close>

lemma register_punch_ledger_ok:
  assumes "ledger_ok d"
  shows "ledger_ok (snd (register_punch cu t_date t_time obs d))"
proof (cases "perfil cu = Colaborador")
  case False
  then show ?thesis using assms by (simp add: register_punch_def)
next
  case True
  let ?today = "strftime_dmy (get_brasilia_date t_date)"
  show ?thesis
  proof (cases "next_punch (day_tipos d (uid cu) ?today)")
    case None
    with True assms show ?thesis by (simp add: register_punch_cases Let_def)
  next
    case (Some t)
    with True assms insert_next_ledger_ok [OF assms Some] show ?thesis
      by (simp add: register_punch_cases Let_def)
  qed
qed

text \<open>
  C3: for an employee whose day still misses a type, \<open>register_punch\<close> records
  exactly that type: one row of the user with today's date in \<open>'%d-%m-%Y'\<close>, the
  time of the second clock read in \<open>'%H:%M:%S'\<close> and the stripped note.
\<close>

theorem register_punch_records_next:
  assumes "perfil cu = Colaborador"
    and "next_punch (day_tipos d (uid cu) (strftime_dmy (get_brasilia_date t_date))) = Some t"
  shows "register_punch cu t_date t_time obs d =
           (Registered t (strftime_hms (get_brasilia_time t_time)),
            insert_ponto (uid cu) (strftime_dmy (get_brasilia_date t_date)) t
              (strftime_hms (get_brasilia_time t_time)) (py_strip obs) d)"
  using assms by (simp add: register_punch_cases Let_def)

text \<open>
  C33: once the four types of the day are recorded, a further punch is refused with
  the "all punches recorded" outcome and the database is left as it was.
\<close>

theorem register_punch_day_complete:
  assumes "perfil cu = Colaborador"
    and "set punch_types \<subseteq> set (day_tipos d (uid cu) (strftime_dmy (get_brasilia_date t_date)))"
  shows "register_punch cu t_date t_time obs d = (AllRecorded, d)"
proof -
  have "next_punch (day_tipos d (uid cu) (strftime_dmy (get_brasilia_date t_date))) = None"
    using assms(2) by (simp add: next_punch_def first_missing_None)
  with assms(1) show ?thesis by (simp add: register_punch_cases Let_def)
qed

text \<open>
  C4: the check-then-insert of \<open>register_punch\<close> is not atomic and the table has no
  UNIQUE constraint on (user, date, type): two requests of the same employee that
  both read before either writes insert the same type twice, and the ledger
  invariant is lost.
\<close>

theorem punch_race_duplicate:
  assumes "perfil cu = Colaborador"
    and "next_punch (day_tipos d (uid cu) (strftime_dmy (get_brasilia_date t_date))) = Some t"
  shows "day_tipos (snd (punch_commit (punch_begin cu t_date t2 o2 d)
                        (snd (punch_commit (punch_begin cu t_date t1 o1 d) d))))
                   (uid cu) (strftime_dmy (get_brasilia_date t_date)) =
           day_tipos d (uid cu) (strftime_dmy (get_brasilia_date t_date)) @ [t, t]
         \<and> \<not> ledger_ok (snd (punch_commit (punch_begin cu t_date t2 o2 d)
                        (snd (punch_commit (punch_begin cu t_date t1 o1 d) d))))"
  (is "?eq \<and> \<not> ledger_ok ?d2")
proof -
  show ?thesis
  proof
    show ?eq using assms by (simp add: punch_commit_begin day_tipos_insert_ponto Let_def)
    show "\<not> ledger_ok ?d2"
    proof
      assume "ledger_ok ?d2"
      then have "distinct (day_tipos ?d2 (uid cu) (strftime_dmy (get_brasilia_date t_date)))"
        by (rule ledger_ok_distinct_day)
      with \<open>?eq\<close> show False by simp
    qed
  qed
qed

text \<open>
  run without interleaving, the read phase followed by the write phase is the
  handler: \<open>register_punch\<close> is the composition of \<open>punch_begin\<close> and
  \<open>punch_commit\<close> on the same database.
\<close>

theorem register_punch_two_phase:
  "register_punch cu t_date t_time obs d = punch_commit (punch_begin cu t_date t_time obs d) d"
  by (simp add: register_punch_def punch_commit_def punch_begin_def Let_def split: option.split)

text \<open>
  in a database that satisfies the ledger invariant an employee has at most
  four punches on a date, all of different types.
\<close>

theorem ledger_day_bounded:
  assumes "ledger_ok d"
  shows "distinct (day_tipos d u dt) \<and> length (day_tipos d u dt) \<le> 4"
proof
  show "distinct (day_tipos d u dt)" using assms by (rule ledger_ok_distinct_day)
  have "length (day_tipos d u dt) \<le> length punch_types"
    using ledger_ok_day_tipos [OF assms] by (rule prefix_length_le)
  then show "length (day_tipos d u dt) \<le> 4" by simp
qed

text \<open>
  the employee dashboard and the punch handler agree: the type the dashboard
  announces as next is the type \<open>register_punch\<close> records on the same date.
\<close>

theorem dashboard_predicts_punch:
  assumes "employee_dashboard cu t d = EmployeeView ps (Some x) today"
  shows "fst (register_punch cu t t' obs d) = Registered x (strftime_hms (get_brasilia_time t'))"
proof -
  have c: "perfil cu = Colaborador"
    using assms by (auto simp: employee_dashboard_def split: if_splits)
  then have "next_punch (day_tipos d (uid cu) (strftime_dmy (get_brasilia_date t))) = Some x"
    using assms by (auto simp: employee_dashboard_def Let_def next_punch_today)
  with c show ?thesis by (simp add: register_punch_cases Let_def)
qed

text \<open>
  only employees punch: for an administrator the handler answers "access
  denied" and writes nothing.
\<close>

theorem register_punch_denied:
  assumes "perfil cu \<noteq> Colaborador"
  shows "register_punch cu t_date t_time obs d = (PunchDenied, d)"
  using assms by (simp add: register_punch_def)

end
