(* ===== verification/Dashboard.thy ===== *)
theory Dashboard
  imports Punch
begin

text \<open>
  The administrator's dashboard, \<open>admin_dashboard\<close> of \<open>src/routes.py\<close>: for
  every employee, ordered by name, the number of punches of each type recorded
  today (the LEFT JOIN on \<open>p.data = today\<close> with one
  \<open>COUNT(CASE WHEN p.tipo = ... THEN 1 END)\<close> per type), and the number of
  employees.  Unlike the reports, the dashboard compares the stored
  \<open>'%d-%m-%Y'\<close> date with a \<open>'%d-%m-%Y'\<close> string, so it sees the punches
  \<open>register_punch\<close> records; under the ledger invariant every count is 0 or 1.
\<close>

record today_row =
  tr_nome :: sql_text
  tr_funcao :: sql_text
  tr_entrada :: nat
  tr_saida_almoco :: nat
  tr_volta_almoco :: nat
  tr_saida_final :: nat

datatype admin_view =
    AdminDenied
  | AdminView "today_row list" nat sql_text

definition tipo_count :: "ponto list \<Rightarrow> tipo \<Rightarrow> nat" where
  "tipo_count ps x = length (filter (\<lambda>p. tipo p = x) ps)"

definition today_row_of :: "db \<Rightarrow> sql_text \<Rightarrow> usuario \<Rightarrow> today_row" where
  "today_row_of d today u =
     (let ps = filter (\<lambda>p. usuario_id p = uid u \<and> data p = today) (pontos d) in
      \<lparr>tr_nome = nome u, tr_funcao = funcao u,
       tr_entrada = tipo_count ps Entrada, tr_saida_almoco = tipo_count ps Saida_almoco,
       tr_volta_almoco = tipo_count ps Volta_almoco, tr_saida_final = tipo_count ps Saida_final\<rparr>)"

definition admin_dashboard :: "usuario \<Rightarrow> int \<Rightarrow> db \<Rightarrow> admin_view" where
  "admin_dashboard cu t d =
     (if perfil cu \<noteq> Admin then AdminDenied
      else
        (let today = strftime_dmy (get_brasilia_date t);
             employees_today =
               map (today_row_of d today) (sort_key nome (filter (\<lambda>u. perfil u = Colaborador) (usuarios d)));
             total_employees = length (filter (\<lambda>u. perfil u = Colaborador) (usuarios d))
         in AdminView employees_today total_employees today))"

declare today_row_of_def [query_defs] admin_dashboard_def [handler_defs]

text \<open>The count a row shows for one type.\<close>

fun tr_count :: "today_row \<Rightarrow> tipo \<Rightarrow> nat" where
  "tr_count r Entrada = tr_entrada r"
| "tr_count r Saida_almoco = tr_saida_almoco r"
| "tr_count r Volta_almoco = tr_volta_almoco r"
| "tr_count r Saida_final = tr_saida_final r"

subsection \<open>Counts\<close>

lemma tipo_count_count_list: "tipo_count ps y = count_list (map tipo ps) y"
  by (induction ps) (auto simp: tipo_count_def)

lemma tr_count_today_row_of:
  "tr_count (today_row_of d today u) x = count_list (day_tipos d (uid u) today) x"
  by (cases x) (simp_all add: today_row_of_def Let_def tipo_count_count_list day_tipos_def)

subsection \<open>Properties of the dashboard\<close>

text \<open>
  in a database whose ledger invariant holds, every count the administrator's
  dashboard shows is 0 or 1: the page's check marks are faithful.
\<close>

theorem admin_dashboard_flags:
  assumes "ledger_ok d" and "admin_dashboard cu t d = AdminView rows n today"
    and "r \<in> set rows"
  shows "tr_count r x \<le> 1"
proof -
  obtain u where "r = today_row_of d today u"
    using assms(2,3) by (auto simp: admin_dashboard_def Let_def split: if_splits)
  then show ?thesis
    using distinct_count_list_le [OF ledger_ok_distinct_day [OF assms(1)]]
    by (simp add: tr_count_today_row_of)
qed


end
