(* ===== verification/Reports.thy ===== *)
theory Reports
  imports Clock Schema
begin

text \<open>
  The attendance report of \<open>src/routes.py\<close> (\<open>reports\<close>): the employee list of the
  drop-down (\<open>employee_options\<close>), the detailed listing of one employee's punches
  in a date range (\<open>detailed_punches\<close>, the JOIN of \<open>pontos\<close> with
  \<open>usuarios\<close> ordered by date and time), the per-employee summary (\<open>summary_of\<close>,
  the LEFT JOIN with \<open>COUNT(DISTINCT ...)\<close> and \<open>COUNT(p.id)\<close>) for all employees
  ordered by name (\<open>summary_all\<close>) or for one id (\<open>summary_one\<close>), and the
  grouping loop \<open>punches_by_date\<close> (a dict in insertion order, here an
  association list built by \<open>group_insert\<close>).  \<open>BETWEEN\<close> on the TEXT column
  \<open>data\<close> is \<open>sql_between\<close> under SQLite's BINARY collation.  The handler
  \<open>reports\<close> converts its two date arguments with \<open>convert_date_for_db\<close>, whose
  \<open>IndexError\<close> ends the request (\<open>ReportError\<close>).  Query results without ORDER BY,
  and ties of an ORDER BY, come in rowid order.
\<close>

subsection \<open>Rows of the result sets\<close>

record detail_row =
  dr_data :: sql_text
  dr_tipo :: tipo
  dr_hora :: sql_text
  dr_observacao :: sql_text
  dr_nome :: sql_text
  dr_funcao :: sql_text

record summary_row =
  sr_nome :: sql_text
  sr_funcao :: sql_text
  dias_trabalhados :: nat
  dias_com_registro :: nat
  total_pontos :: nat

subsection \<open>Queries\<close>

definition sql_between :: "sql_text \<Rightarrow> sql_text \<Rightarrow> sql_text \<Rightarrow> bool" where
  "sql_between x lo hi \<longleftrightarrow> lo \<le> x \<and> x \<le> hi"

definition employee_options :: "db \<Rightarrow> (user_id \<times> sql_text) list" where
  "employee_options d =
     map (\<lambda>u. (uid u, nome u)) (sort_key nome (filter (\<lambda>u. perfil u = Colaborador) (usuarios d)))"

definition detail_of :: "db \<Rightarrow> ponto \<Rightarrow> detail_row option" where
  "detail_of d p =
     map_option (\<lambda>u. \<lparr>dr_data = data p, dr_tipo = tipo p, dr_hora = hora p,
                       dr_observacao = observacao p, dr_nome = nome u, dr_funcao = funcao u\<rparr>)
       (user_get d (usuario_id p))"

definition detailed_punches :: "db \<Rightarrow> user_id \<Rightarrow> sql_text \<Rightarrow> sql_text \<Rightarrow> detail_row list" where
  "detailed_punches d eid lo hi =
     sort_key (\<lambda>r. (dr_data r, dr_hora r))
       (List.map_filter (detail_of d)
          (filter (\<lambda>p. usuario_id p = eid \<and> sql_between (data p) lo hi) (pontos d)))"

definition range_punches :: "db \<Rightarrow> sql_text \<Rightarrow> sql_text \<Rightarrow> user_id \<Rightarrow> ponto list" where
  "range_punches d lo hi u = filter (\<lambda>p. usuario_id p = u \<and> sql_between (data p) lo hi) (pontos d)"

definition summary_of :: "db \<Rightarrow> sql_text \<Rightarrow> sql_text \<Rightarrow> usuario \<Rightarrow> summary_row" where
  "summary_of d lo hi u =
     (let ps = range_punches d lo hi (uid u) in
      \<lparr>sr_nome = nome u, sr_funcao = funcao u,
       dias_trabalhados = length (remdups (map data (filter (\<lambda>p. tipo p = Entrada) ps))),
       dias_com_registro = length (remdups (map data ps)),
       total_pontos = length ps\<rparr>)"

definition summary_all :: "db \<Rightarrow> sql_text \<Rightarrow> sql_text \<Rightarrow> summary_row list" where
  "summary_all d lo hi =
     map (summary_of d lo hi) (sort_key nome (filter (\<lambda>u. perfil u = Colaborador) (usuarios d)))"

definition summary_one :: "db \<Rightarrow> sql_text \<Rightarrow> sql_text \<Rightarrow> user_id \<Rightarrow> summary_row list" where
  "summary_one d lo hi eid = map (summary_of d lo hi) (filter (\<lambda>u. uid u = eid) (usuarios d))"

subsection \<open>Grouping by date\<close>

fun group_insert :: "('k \<times> 'a list) list \<Rightarrow> 'k \<Rightarrow> 'a \<Rightarrow> ('k \<times> 'a list) list" where
  "group_insert [] k x = [(k, [x])]"
| "group_insert ((k', xs) # gs) k x =
     (if k' = k then (k', xs @ [x]) # gs else (k', xs) # group_insert gs k x)"

text \<open>The grouping the loop is meant to compute: each date once, in order of first
  appearance, with the rows of that date in their order.\<close>

definition group_spec :: "('a \<Rightarrow> 'k) \<Rightarrow> 'a list \<Rightarrow> ('k \<times> 'a list) list" where
  "group_spec key rows = map (\<lambda>k. (k, filter (\<lambda>r. key r = k) rows)) (dedup (map key rows))"

definition punches_by_date :: "detail_row list \<Rightarrow> (sql_text \<times> detail_row list) list" where
  "punches_by_date rows = foldl (\<lambda>g r. group_insert g (dr_data r) r) [] rows"

subsection \<open>Attendance frequency\<close>

text \<open>
  \<open>export_reports\<close>: \<open>round((dias / 30) * 100, 1) if dias > 0 else 0\<close>.  Python's
  \<open>round\<close> to one decimal is \<open>py_round1\<close>; on these values the exact quotient
  is never half-way between two tenths, so rounding half up agrees with Python's
  half-to-even rounding and the float error of \<open>dias / 30 * 100\<close> (below
  \<open>10\<^sup>-\<^sup>1\<^sup>3\<close>) cannot move the result.
\<close>

definition py_round1 :: "rat \<Rightarrow> rat" where
  "py_round1 x = of_int (round (x * 10)) / 10"

definition frequencia :: "nat \<Rightarrow> rat" where
  "frequencia dias = (if 0 < dias then py_round1 (of_nat dias / 30 * 100) else 0)"

subsection \<open>The handler\<close>

record report_page =
  rp_report_data :: "summary_row list"
  rp_detailed :: "detail_row list"
  rp_by_date :: "(sql_text \<times> detail_row list) list"
  rp_employees :: "(user_id \<times> sql_text) list"
  rp_employee_name :: "sql_text option"
  rp_start :: sql_text
  rp_end :: sql_text

datatype report_response = ReportDenied | ReportError py_error | ReportPage report_page

definition reports ::
  "usuario \<Rightarrow> int \<Rightarrow> sql_text option \<Rightarrow> sql_text option \<Rightarrow> user_id option \<Rightarrow> db \<Rightarrow>
   report_response" where
  "reports cu t start_arg end_arg eid d =
     (if perfil cu \<noteq> Admin then ReportDenied
      else
        (let start_date = (case start_arg of None \<Rightarrow> strftime_first_dmy (get_brasilia_date t) | Some s \<Rightarrow> s);
             end_date = (case end_arg of None \<Rightarrow> strftime_dmy (get_brasilia_date t) | Some s \<Rightarrow> s)
         in case convert_date_for_db start_date of
              Inl e \<Rightarrow> ReportError e
            | Inr lo \<Rightarrow>
                (case convert_date_for_db end_date of
                   Inl e \<Rightarrow> ReportError e
                 | Inr hi \<Rightarrow>
                     (case eid of
                        Some i \<Rightarrow>
                          (let det = detailed_punches d i lo hi in
                           ReportPage \<lparr>rp_report_data = summary_one d lo hi i, rp_detailed = det,
                             rp_by_date = punches_by_date det, rp_employees = employee_options d,
                             rp_employee_name = (case det of [] \<Rightarrow> None | r # _ \<Rightarrow> Some (dr_nome r)),
                             rp_start = start_date, rp_end = end_date\<rparr>)
                      | None \<Rightarrow>
                          ReportPage \<lparr>rp_report_data = summary_all d lo hi, rp_detailed = [],
                             rp_by_date = [], rp_employees = employee_options d,
                             rp_employee_name = None, rp_start = start_date, rp_end = end_date\<rparr>))))"

declare detailed_punches_def [query_defs] summary_all_def [query_defs] summary_one_def [query_defs]
  range_punches_def [query_defs] employee_options_def [query_defs]
declare reports_def [handler_defs]

subsection \<open>The grouping loop\<close>

lemma group_insert_map:
  assumes "distinct ks"
  shows "group_insert (map (\<lambda>k. (k, F k)) ks) k x =
    (if k \<in> set ks then map (\<lambda>k'. (k', if k' = k then F k' @ [x] else F k')) ks
     else map (\<lambda>k'. (k', F k')) ks @ [(k, [x])])"
  using assms by (induction ks) auto

lemma group_spec_snoc:
  "group_spec key (rows @ [x]) = group_insert (group_spec key rows) (key x) x"
proof -
  have d: "distinct (dedup (map key rows))" by simp
  show ?thesis
    unfolding group_spec_def group_insert_map [OF d]
    by (auto simp: dedup_snoc filter_empty_conv intro!: map_cong) (metis image_eqI)
qed

lemma foldl_group_insert:
  "foldl (\<lambda>g r. group_insert g (key r) r) [] rows = group_spec key rows"
proof (induction rows rule: rev_induct)
  case Nil
  then show ?case by (simp add: group_spec_def)
next
  case (snoc x xs)
  then show ?case by (simp add: group_spec_snoc)
qed
lemma filter_eq_neq_sorted:
  assumes "sorted (map key xs)" and "\<forall>r \<in> set xs. k \<le> key r"
  shows "filter (\<lambda>r. key r = k) xs @ filter (\<lambda>r. key r \<noteq> k) xs = xs"
  using assms
proof (induction xs)
  case Nil
  then show ?case by simp
next
  case (Cons y ys)
  show ?case
  proof (cases "key y = k")
    case True
    with Cons show ?thesis by simp
  next
    case False
    with Cons.prems have "k < key y" by auto
    with Cons.prems have "\<forall>r \<in> set ys. k < key r" by fastforce
    then have "filter (\<lambda>r. key r = k) ys = []" and "filter (\<lambda>r. key r \<noteq> k) ys = ys"
      by (auto simp: filter_empty_conv filter_id_conv)
    with False show ?thesis by simp
  qed
qed

lemma group_spec_sorted_concat:
  "sorted (map key rows) \<Longrightarrow> concat (map snd (group_spec key rows)) = rows"
proof (induction rows rule: length_induct)
  case (1 rows)
  show ?case
  proof (cases rows)
    case Nil
    then show ?thesis by (simp add: group_spec_def)
  next
    case (Cons x xs)
    let ?xs' = "filter (\<lambda>r. key r \<noteq> key x) xs"
    have sx: "sorted (map key xs)" and ge: "\<forall>r \<in> set xs. key x \<le> key r"
      using "1.prems" Cons by auto
    have s': "sorted (map key ?xs')" using sx by (simp add: sorted_filter)
    have "length ?xs' < length rows" using Cons by (simp add: le_imp_less_Suc)
    then have ih: "concat (map snd (group_spec key ?xs')) = ?xs'" using "1.IH" s' by blast
    have keys: "dedup (map key rows) = key x # dedup (map key ?xs')"
      using Cons by (simp add: filter_map comp_def)
    have rest: "map (\<lambda>k. filter (\<lambda>r. key r = k) rows) (dedup (map key ?xs')) =
                map (\<lambda>k. filter (\<lambda>r. key r = k) ?xs') (dedup (map key ?xs'))"
      using Cons by (auto intro!: map_cong filter_cong)
    have "concat (map snd (group_spec key rows)) =
          filter (\<lambda>r. key r = key x) rows @
          concat (map (\<lambda>k. filter (\<lambda>r. key r = k) rows) (dedup (map key ?xs')))"
      unfolding group_spec_def keys by (simp add: comp_def)
    also have "\<dots> = filter (\<lambda>r. key r = key x) rows @ concat (map snd (group_spec key ?xs'))"
      unfolding rest by (simp add: group_spec_def comp_def)
    also have "\<dots> = x # (filter (\<lambda>r. key r = key x) xs @ ?xs')" using ih Cons by simp
    also have "\<dots> = rows" using filter_eq_neq_sorted [OF sx ge] Cons by simp
    finally show ?thesis .
  qed
qed
lemma punches_by_date_eq_spec: "punches_by_date rows = group_spec dr_data rows"
  unfolding punches_by_date_def by (rule foldl_group_insert)

subsection \<open>Frequency\<close>

lemma freq_tenths: "0 < d \<Longrightarrow> frequencia d = of_int ((200 * int d + 3) div 6) / 10"
proof -
  assume "0 < d"
  have "round (of_nat d / 30 * 100 * 10 :: rat) = (200 * int d + 3) div 6"
  proof -
    have eq: "(of_nat d / 30 * 100 * 10 :: rat) + 1/2 = of_int (200 * int d + 3) / 6" by simp
    have "round (of_nat d / 30 * 100 * 10 :: rat) = floor (of_int (200 * int d + 3) / (6::rat))"
      by (simp only: round_def eq)
    also have "\<dots> = (200 * int d + 3) div 6"
      using floor_divide_of_int_eq [of "200 * int d + 3" 6] by simp
    finally show ?thesis .
  qed
  with \<open>0 < d\<close> show ?thesis by (simp add: frequencia_def py_round1_def)
qed
lemma frequencia_error_tenths:
  assumes "0 < d"
  shows "\<bar>frequencia d - of_nat d / 30 * 100\<bar> \<le> 1 / 30"
proof -
  define q where "q = (200 * int d + 3) div 6"
  have b: "6 * q \<le> 200 * int d + 3 \<and> 200 * int d + 3 < 6 * q + 6"
    unfolding q_def by (rule div_bounds_int) simp
  define x where "x = 3 * q - 100 * int d"
  have "2 * x \<le> 3" and "-3 < 2 * x" using b by (simp_all add: x_def algebra_simps)
  then have "x \<le> 1" and "-1 \<le> x" by presburger+
  then have i: "3 * q - 100 * int d \<le> 1 \<and> -1 \<le> 3 * q - 100 * int d" by (simp add: x_def)
  have e: "frequencia d - of_nat d / 30 * 100 = of_int (3 * q - 100 * int d) / 30"
    using assms by (simp add: freq_tenths q_def field_simps)
  have bound: "\<bar>of_int (3 * q - 100 * int d) :: rat\<bar> \<le> 1"
    using i by (simp add: abs_le_iff)
  show ?thesis unfolding e abs_divide using bound by (simp add: divide_right_mono)
qed

subsection \<open>The date filter and the stored dates\<close>

lemma strftime_first_dmy_day1: "strftime_first_dmy e = strftime_dmy (e\<lparr>day := 1\<rparr>)"
  by (simp add: strftime_first_dmy_def strftime_dmy_def pad2_def digits_of_small digit_char_def)

lemma get_brasilia_date_day_small: "day (get_brasilia_date t) < 100"
  using get_brasilia_date_day [of t] by simp

lemma clock_date_not_between:
  assumes "1000 \<le> year a" "year a < 10000" "1000 \<le> year b" "year b < 10000"
    and "year a div 100 = year b div 100"
  shows "\<not> sql_between (strftime_dmy (get_brasilia_date t)) (iso_date a) (iso_date b)"
  using assms get_brasilia_date_day_small [of t]
    iso_le_strftime_dmy [of "get_brasilia_date t" a] strftime_dmy_le_iso [of "get_brasilia_date t" b]
  by (simp add: sql_between_def)

lemma range_punches_Nil:
  "\<forall>p \<in> set (pontos d). \<not> sql_between (data p) lo hi \<Longrightarrow> range_punches d lo hi u = []"
  by (auto simp: range_punches_def filter_empty_conv)

lemma detailed_punches_Nil:
  "\<forall>p \<in> set (pontos d). \<not> sql_between (data p) lo hi \<Longrightarrow> detailed_punches d i lo hi = []"
  by (auto simp: detailed_punches_def filter_empty_conv List.map_filter_simps)

lemma summary_of_zero:
  "range_punches d lo hi (uid u) = [] \<Longrightarrow>
     dias_trabalhados (summary_of d lo hi u) = 0 \<and> dias_com_registro (summary_of d lo hi u) = 0 \<and>
     total_pontos (summary_of d lo hi u) = 0"
  by (simp add: summary_of_def)

lemma summary_rows_zero:
  assumes "\<forall>p \<in> set (pontos d). \<not> sql_between (data p) lo hi"
  shows "\<forall>r \<in> set (summary_all d lo hi) \<union> set (summary_one d lo hi i).
           total_pontos r = 0 \<and> dias_com_registro r = 0 \<and> dias_trabalhados r = 0"
  using summary_of_zero [OF range_punches_Nil [OF assms]]
  by (auto simp: summary_all_def summary_one_def)

lemma reports_page:
  assumes "perfil cu = Admin"
    and "convert_date_for_db (case start_arg of None \<Rightarrow> strftime_first_dmy (get_brasilia_date t)
                                                | Some s \<Rightarrow> s) = Inr lo"
    and "convert_date_for_db (case end_arg of None \<Rightarrow> strftime_dmy (get_brasilia_date t)
                                              | Some s \<Rightarrow> s) = Inr hi"
  shows "\<exists>pg. reports cu t start_arg end_arg eid d = ReportPage pg \<and>
     rp_report_data pg = (case eid of None \<Rightarrow> summary_all d lo hi | Some i \<Rightarrow> summary_one d lo hi i) \<and>
     rp_detailed pg = (case eid of None \<Rightarrow> [] | Some i \<Rightarrow> detailed_punches d i lo hi) \<and>
     rp_by_date pg = punches_by_date (rp_detailed pg)"
  using assms by (simp add: reports_def Let_def punches_by_date_def split: option.split)

lemma sorted_detailed_punches_dates:
  "sorted (map dr_data (detailed_punches d i lo hi))"
proof -
  have "sorted (map (\<lambda>r. (dr_data r, dr_hora r)) (detailed_punches d i lo hi))"
    by (simp add: detailed_punches_def)
  then show ?thesis by (rule sorted_pair_fst)
qed

subsection \<open>Properties of the report\<close>

text \<open>
  C2: the report never counts a punch.  \<open>register_punch\<close> stores every date as
  \<open>'%d-%m-%Y'\<close>, while \<open>reports\<close> filters with \<open>BETWEEN\<close> on the ISO strings
  \<open>convert_date_for_db\<close> produces.  For the default range (first day of the current
  month to today), on any database whose dates were written by the clock, the page
  shows no detailed punch and every summary row has a total of zero.
\<close>

theorem reports_default_range_empty:
  assumes "perfil cu = Admin"
    and "\<forall>p \<in> set (pontos d). \<exists>t'. data p = strftime_dmy (get_brasilia_date t')"
    and "1000 \<le> year (get_brasilia_date t)" and "year (get_brasilia_date t) < 10000"
  shows "\<exists>pg. reports cu t None None eid d = ReportPage pg \<and> rp_detailed pg = [] \<and>
           (\<forall>r \<in> set (rp_report_data pg). total_pontos r = 0)"
proof -
  let ?e = "get_brasilia_date t"
  let ?lo = "iso_date (?e\<lparr>day := 1\<rparr>)" and ?hi = "iso_date ?e"
  have lo: "convert_date_for_db (case (None :: string option) of None \<Rightarrow> strftime_first_dmy ?e
                                   | Some s \<Rightarrow> s) = Inr ?lo"
    using convert_date_for_db_dmy [of "?e\<lparr>day := 1\<rparr>"] by (simp add: strftime_first_dmy_day1)
  have hi: "convert_date_for_db (case (None :: string option) of None \<Rightarrow> strftime_dmy ?e
                                   | Some s \<Rightarrow> s) = Inr ?hi"
    using convert_date_for_db_dmy get_brasilia_date_day_small by simp
  have none: "\<forall>p \<in> set (pontos d). \<not> sql_between (data p) ?lo ?hi"
    using assms(2-4) clock_date_not_between [of "?e\<lparr>day := 1\<rparr>" ?e] by auto
  obtain pg where pg: "reports cu t None None eid d = ReportPage pg"
    and rd: "rp_report_data pg = (case eid of None \<Rightarrow> summary_all d ?lo ?hi | Some i \<Rightarrow> summary_one d ?lo ?hi i)"
    and dt: "rp_detailed pg = (case eid of None \<Rightarrow> [] | Some i \<Rightarrow> detailed_punches d i ?lo ?hi)"
    using reports_page [OF assms(1) lo hi, of eid d] by blast
  have "rp_detailed pg = []"
    using dt detailed_punches_Nil [OF none] by (simp split: option.split)
  moreover have "\<forall>r \<in> set (rp_report_data pg). total_pontos r = 0"
    using rd summary_rows_zero [OF none] by (auto split: option.split)
  ultimately show ?thesis using pg by blast
qed

text \<open>
  C17: how \<open>BETWEEN\<close> treats a stored date: a \<open>'%d-%m-%Y'\<close> string lies between
  two ISO dates of four-digit years exactly when its day of the month exceeds the
  century of the lower bound and does not exceed the century of the upper bound;
  its month and year play no part.
\<close>

theorem stored_date_between_iff:
  assumes "day e < 100" and "1000 \<le> year a" and "year a < 10000"
    and "1000 \<le> year b" and "year b < 10000"
  shows "sql_between (strftime_dmy e) (iso_date a) (iso_date b) \<longleftrightarrow>
           year a div 100 < day e \<and> day e \<le> year b div 100"
  using assms iso_le_strftime_dmy [of e a] strftime_dmy_le_iso [of e b]
  by (simp add: sql_between_def)

text \<open>
  C28: the grouping loop of \<open>reports\<close> computes its specification: each date once,
  in the order in which the rows first show it, with the rows of that date in
  their order.
\<close>

theorem punches_by_date_refines:
  "punches_by_date rows =
     map (\<lambda>k. (k, filter (\<lambda>r. dr_data r = k) rows)) (dedup (map dr_data rows))"
  by (simp add: punches_by_date_eq_spec group_spec_def)

text \<open>
  C27: the page's grouped view holds exactly the detailed rows, in their order:
  reading the groups one after the other gives back the listing.
\<close>

theorem report_groups_roundtrip:
  assumes "reports cu t start_arg end_arg eid d = ReportPage pg"
  shows "concat (map snd (rp_by_date pg)) = rp_detailed pg"
proof -
  have adm: "perfil cu = Admin" using assms by (auto simp: reports_def split: if_splits)
  then obtain lo hi where
    l: "convert_date_for_db (case start_arg of None \<Rightarrow> strftime_first_dmy (get_brasilia_date t)
                                              | Some s \<Rightarrow> s) = Inr lo" and
    h: "convert_date_for_db (case end_arg of None \<Rightarrow> strftime_dmy (get_brasilia_date t)
                                            | Some s \<Rightarrow> s) = Inr hi"
    using assms by (auto simp: reports_def Let_def split: sum.splits)
  obtain pg' where pg': "reports cu t start_arg end_arg eid d = ReportPage pg'"
    and b': "rp_by_date pg' = punches_by_date (rp_detailed pg')"
    and d': "rp_detailed pg' = (case eid of None \<Rightarrow> [] | Some i \<Rightarrow> detailed_punches d i lo hi)"
    using reports_page [OF adm l h, of eid d] by blast
  have "pg' = pg" using pg' assms by simp
  with b' d' have by_date: "rp_by_date pg = punches_by_date (rp_detailed pg)"
    and det: "rp_detailed pg = (case eid of None \<Rightarrow> [] | Some i \<Rightarrow> detailed_punches d i lo hi)"
    by simp_all
  have "sorted (map dr_data (rp_detailed pg))"
    using det sorted_detailed_punches_dates by (simp split: option.split)
  then show ?thesis
    using by_date by (simp add: punches_by_date_eq_spec group_spec_sorted_concat)
qed

text \<open>
  in every summary row the days worked (dates with an entrada) are at most
  the days with a record, which are at most the number of punches.
\<close>

theorem summary_counts_ordered:
  "dias_trabalhados (summary_of d lo hi u) \<le> dias_com_registro (summary_of d lo hi u) \<and>
   dias_com_registro (summary_of d lo hi u) \<le> total_pontos (summary_of d lo hi u)"
  using length_remdups_leq [of "map data (range_punches d lo hi (uid u))"]
  by (simp add: summary_of_def Let_def length_remdups_map_filter_le)


text \<open>
  the general report has exactly one row per employee (profile colaborador),
  in ascending order of name.
\<close>

theorem summary_all_by_name:
  "sorted (map sr_nome (summary_all d lo hi)) \<and>
   length (summary_all d lo hi) = length (filter (\<lambda>u. perfil u = Colaborador) (usuarios d))"
proof -
  have "map sr_nome (summary_all d lo hi) =
        map nome (sort_key nome (filter (\<lambda>u. perfil u = Colaborador) (usuarios d)))"
    by (simp add: summary_all_def summary_of_def Let_def comp_def)
  moreover have "sorted (map nome (sort_key nome (filter (\<lambda>u. perfil u = Colaborador) (usuarios d))))"
    by (rule sorted_sort_key)
  ultimately have "sorted (map sr_nome (summary_all d lo hi))" by (simp only:)
  moreover have "length (summary_all d lo hi) = length (filter (\<lambda>u. perfil u = Colaborador) (usuarios d))"
    by (simp add: summary_all_def)
  ultimately show ?thesis by blast
qed

text \<open>
  the report is for administrators only: anyone else gets the access-denied
  answer.
\<close>

theorem reports_denied:
  assumes "perfil cu \<noteq> Admin"
  shows "reports cu t start_arg end_arg eid d = ReportDenied"
  using assms by (simp add: reports_def)

text \<open>
  C35: a date argument with a two-digit first part but fewer than three parts, such
  as a month and a year, makes \<open>parts[2]\<close> raise \<open>IndexError\<close>: the request fails
  instead of being rejected as malformed input.
\<close>

theorem reports_month_year_crash:
  assumes "perfil cu = Admin"
  shows "reports cu t (Some ''03-2024'') end_arg eid d = ReportError IndexError"
  using assms by (simp add: reports_def convert_date_for_db_def)

text \<open>
  the attendance frequency of the export, \<open>round(dias / 30 * 100, 1)\<close>, is
  within a twentieth of a percentage point of the exact ratio over the fixed
  30-day denominator, whatever the length of the selected range.
\<close>

theorem frequencia_error:
  "0 \<le> frequencia dias \<and> \<bar>frequencia dias - of_nat dias / 30 * 100\<bar> \<le> 1 / 20"
proof (cases "dias = 0")
  case True
  then show ?thesis by (simp add: frequencia_def)
next
  case False
  then have pos: "0 < dias" by simp
  then have e: "\<bar>frequencia dias - of_nat dias / 30 * 100\<bar> \<le> 1 / 30"
    by (rule frequencia_error_tenths)
  have "0 \<le> frequencia dias" using pos by (simp add: freq_tenths)
  with e show ?thesis by linarith
qed

end
