(* ===== verification/History.thy ===== *)
theory History
  imports Reports
begin

text \<open>
  The punch history and its export (\<open>src/routes.py\<close>: \<open>punch_history\<close>,
  \<open>export_history\<close>).  An administrator sees the punches of one employee, or of
  all employees (profile colaborador), joined with \<open>usuarios\<close> for the name;
  anyone else sees their own punches only.  All listings are
  \<open>ORDER BY data DESC, hora DESC\<close> (\<open>sort_desc_key\<close>, ties in rowid order) and
  the page keeps the first 100 rows (\<open>LIMIT 100\<close>).  The export runs the same
  queries without the limit and turns each row into the display row of the
  spreadsheet (\<open>export_row_of\<close>: type label, \<open>hora[:5]\<close>, \<open>observacao or '-'\<close>);
  the byte serialisation of pandas and reportlab is not modelled, the response
  names the format, the file name and the rows.  Because the stored dates are
  \<open>'%d-%m-%Y'\<close> strings, the descending order is by day of the month first, and
  the limit can hide the newest punches.
\<close>

record history_row =
  hr_data :: sql_text
  hr_tipo :: tipo
  hr_hora :: sql_text
  hr_observacao :: sql_text
  hr_nome :: "sql_text option"

datatype history_page = HistoryPage "history_row list" sql_text "(user_id \<times> sql_text) list"

definition history_row_of :: "ponto \<Rightarrow> sql_text option \<Rightarrow> history_row" where
  "history_row_of p n =
     \<lparr>hr_data = data p, hr_tipo = tipo p, hr_hora = hora p, hr_observacao = observacao p, hr_nome = n\<rparr>"

definition joined_row :: "db \<Rightarrow> (usuario \<Rightarrow> bool) \<Rightarrow> ponto \<Rightarrow> history_row option" where
  "joined_row d P p =
     (case user_get d (usuario_id p) of
        None \<Rightarrow> None
      | Some u \<Rightarrow> if P u then Some (history_row_of p (Some (nome u))) else None)"

definition history_key :: "history_row \<Rightarrow> sql_text \<times> sql_text" where
  "history_key r = (hr_data r, hr_hora r)"

definition employee_history :: "db \<Rightarrow> user_id \<Rightarrow> history_row list" where
  "employee_history d i =
     sort_desc_key history_key
       (List.map_filter (joined_row d (\<lambda>u. True)) (filter (\<lambda>p. usuario_id p = i) (pontos d)))"

definition all_history :: "db \<Rightarrow> history_row list" where
  "all_history d =
     sort_desc_key history_key (List.map_filter (joined_row d (\<lambda>u. perfil u = Colaborador)) (pontos d))"

definition own_history :: "db \<Rightarrow> user_id \<Rightarrow> history_row list" where
  "own_history d i =
     sort_desc_key history_key
       (map (\<lambda>p. history_row_of p None) (filter (\<lambda>p. usuario_id p = i) (pontos d)))"

definition funcionario_label :: sql_text where
  "funcionario_label = ''Funcion'' @ [CHR 0xE1] @ ''rio''"

definition todos_label :: sql_text where
  "todos_label = ''Todos os Funcion'' @ [CHR 0xE1] @ ''rios''"

definition punch_history :: "usuario \<Rightarrow> user_id option \<Rightarrow> db \<Rightarrow> history_page" where
  "punch_history cu eid d =
     (if perfil cu = Admin then
        (let employees = employee_options d in
         case eid of
           Some i \<Rightarrow>
             HistoryPage (take 100 (employee_history d i))
               (case user_get d i of Some u \<Rightarrow> nome u | None \<Rightarrow> funcionario_label) employees
         | None \<Rightarrow> HistoryPage (take 100 (all_history d)) todos_label employees)
      else HistoryPage (take 100 (own_history d (uid cu))) (nome cu) [])"

declare history_row_of_def [query_defs] joined_row_def [query_defs] employee_history_def [query_defs]
  all_history_def [query_defs] own_history_def [query_defs] punch_history_def [handler_defs]

subsection \<open>Export of the history\<close>

record export_row =
  ex_data :: sql_text
  ex_funcionario :: sql_text
  ex_tipo :: sql_text
  ex_horario :: sql_text
  ex_observacao :: sql_text

datatype export_format = Csv | Excel | Pdf

datatype export_response =
    ExportDenied
  | ExportNoData
  | ExportInvalidFormat
  | ExportFile export_format string "export_row list"

primrec tipo_label :: "tipo \<Rightarrow> sql_text" where
  "tipo_label Entrada = ''Entrada''"
| "tipo_label Saida_almoco = ''Sa'' @ [CHR 0xED] @ ''da Almo'' @ [CHR 0xE7] @ ''o''"
| "tipo_label Volta_almoco = ''Volta Almo'' @ [CHR 0xE7] @ ''o''"
| "tipo_label Saida_final = ''Sa'' @ [CHR 0xED] @ ''da Final''"

definition export_row_of :: "history_row \<Rightarrow> export_row" where
  "export_row_of r =
     \<lparr>ex_data = hr_data r, ex_funcionario = (case hr_nome r of Some n \<Rightarrow> n | None \<Rightarrow> []),
      ex_tipo = tipo_label (hr_tipo r), ex_horario = take 5 (hr_hora r),
      ex_observacao = (if hr_observacao r = [] then ''-'' else hr_observacao r)\<rparr>"

definition export_format_of :: "string \<Rightarrow> export_format option" where
  "export_format_of f =
     (if f = ''csv'' then Some Csv else if f = ''excel'' then Some Excel
      else if f = ''pdf'' then Some Pdf else None)"

definition export_extension :: "export_format \<Rightarrow> string" where
  "export_extension f = (case f of Csv \<Rightarrow> ''.csv'' | Excel \<Rightarrow> ''.xlsx'' | Pdf \<Rightarrow> ''.pdf'')"

definition export_history ::
  "usuario \<Rightarrow> string option \<Rightarrow> user_id option \<Rightarrow> db \<Rightarrow> export_response" where
  "export_history cu fmt eid d =
     (if perfil cu \<noteq> Admin then ExportDenied
      else
        (let format_type = py_lower (case fmt of None \<Rightarrow> ''csv'' | Some f \<Rightarrow> f);
             (punches, filename_prefix) =
               (case eid of
                  Some i \<Rightarrow> (employee_history d i, ''historico_funcionario_'' @ digits_of i)
                | None \<Rightarrow> (all_history d, ''historico_todos_funcionarios''))
         in if punches = [] then ExportNoData
            else
              (let df = map export_row_of punches in
               case export_format_of format_type of
                 Some f \<Rightarrow> ExportFile f (filename_prefix @ export_extension f) df
               | None \<Rightarrow> ExportInvalidFormat)))"

declare export_row_of_def [query_defs] export_history_def [handler_defs]

subsection \<open>Pages of the history\<close>

lemma punch_history_cases:
  assumes "punch_history cu eid d = HistoryPage rows n es"
  shows "perfil cu \<noteq> Admin \<and> rows = take 100 (own_history d (uid cu)) \<and> es = [] \<or>
         perfil cu = Admin \<and> (rows = take 100 (all_history d) \<or> (\<exists>i. rows = take 100 (employee_history d i)))"
  using assms by (auto simp: punch_history_def Let_def split: if_splits option.splits)

lemma own_history_above:
  assumes "100 \<le> length (filter (\<lambda>q. usuario_id q = i \<and> k < data q) (pontos d))"
    and "r \<in> set (take 100 (own_history d i))"
  shows "k < hr_data r"
proof -
  have up: "k < hr_data b" if "k < hr_data a" and "history_key a \<le> history_key b" for a b
    using that by (auto simp: history_key_def less_eq_prod_def)
  have "length (filter (\<lambda>q. usuario_id q = i \<and> k < data q) (pontos d)) =
        length (filter (\<lambda>r. k < hr_data r) (own_history d i))"
    by (simp add: own_history_def filter_map comp_def filter_filter history_row_of_def conj_commute)
  then have c: "100 \<le> length (filter (\<lambda>r. k < hr_data r) (own_history d i))"
    using assms(1) by simp
  have s: "sorted_wrt (\<lambda>a b. history_key b \<le> history_key a) (own_history d i)"
    by (simp add: own_history_def sorted_wrt_sort_desc_key)
  show ?thesis
    using take_sorted_desc_upward [where P = "\<lambda>r. k < hr_data r", OF s up c assms(2)] .
qed
subsection \<open>Properties of the history\<close>

text \<open>
  an employee's history page lists only rows of their own punches and no
  employee drop-down.
\<close>

theorem punch_history_own_only:
  assumes "perfil cu \<noteq> Admin" and "punch_history cu eid d = HistoryPage rows n es"
  shows "es = [] \<and> (\<forall>r \<in> set rows. \<exists>p \<in> set (pontos d). usuario_id p = uid cu \<and> r = history_row_of p None)"
proof -
  have "rows = take 100 (own_history d (uid cu)) \<and> es = []"
    using punch_history_cases [OF assms(2)] assms(1) by blast
  moreover have "set (take 100 (own_history d (uid cu))) \<subseteq> set (own_history d (uid cu))"
    by (rule set_take_subset)
  ultimately show ?thesis by (auto simp: own_history_def)
qed

text \<open>
  every history page is in descending order of the stored date string, then of
  the time, and holds at most 100 rows.
\<close>

theorem punch_history_order:
  assumes "punch_history cu eid d = HistoryPage rows n es"
  shows "sorted_wrt (\<lambda>a b. history_key b \<le> history_key a) rows \<and> length rows \<le> 100"
  using punch_history_cases [OF assms]
  by (auto simp: own_history_def all_history_def employee_history_def
      intro: sorted_wrt_take sorted_wrt_sort_desc_key)

text \<open>
  C18: the history orders the \<open>'%d-%m-%Y'\<close> strings by day of the month first, so
  once an employee has 100 punches on later days of any month, no punch of an
  earlier day of the month (today's included) appears on their history page.
\<close>

theorem punch_history_hides_day:
  assumes "perfil cu \<noteq> Admin" and "punch_history cu eid d = HistoryPage rows n es"
    and "100 \<le> length (filter (\<lambda>q. usuario_id q = uid cu \<and>
                 (\<exists>e. data q = strftime_dmy e \<and> day a < day e \<and> day e < 100)) (pontos d))"
  shows "list_all (\<lambda>r. hr_data r \<noteq> strftime_dmy a) rows"
proof -
  have "length (filter (\<lambda>q. usuario_id q = uid cu \<and>
                 (\<exists>e. data q = strftime_dmy e \<and> day a < day e \<and> day e < 100)) (pontos d)) \<le>
        length (filter (\<lambda>q. usuario_id q = uid cu \<and> strftime_dmy a < data q) (pontos d))"
    by (rule length_filter_mono) (auto intro: strftime_dmy_less_day)
  then have c: "100 \<le> length (filter (\<lambda>q. usuario_id q = uid cu \<and> strftime_dmy a < data q) (pontos d))"
    using assms(3) by linarith
  have "rows = take 100 (own_history d (uid cu))"
    using punch_history_cases [OF assms(2)] assms(1) by blast
  then show ?thesis
    using own_history_above [OF c] by (fastforce simp: list_all_iff)
qed

text \<open>
  with no format argument the history export is a CSV file of every matching
  punch, with no 100-row limit, each row in display form.
\<close>

theorem export_history_default:
  assumes "perfil cu = Admin" and "all_history d \<noteq> []"
  shows "export_history cu None None d =
           ExportFile Csv ''historico_todos_funcionarios.csv'' (map export_row_of (all_history d))"
  using assms by (simp add: export_history_def py_lower_csv export_format_of_def export_extension_def)
end
