(* ===== verification/Exports.thy ===== *)
theory Exports
  imports History Punch "HOL-Library.AList"
begin

text \<open>
  The report exports and the printable report (\<open>src/routes.py\<close>:
  \<open>export_reports\<close> with \<open>export_detailed_excel\<close> and \<open>export_detailed_pdf\<close>,
  and \<open>print_report\<close>).  \<open>export_reports\<close> converts its range like
  \<open>reports\<close>; with an employee it exports the detailed listing, grouped by date
  and sorted by the date string (\<open>sorted(punches_by_date.items())\<close>), each date
  shown as \<open>parts[2]-parts[1]-parts[0]\<close> of its dash-separated parts
  (\<open>display_date\<close>); without one it exports the summary rows with the attendance
  frequency.  A response names the format, the file name, the period and the
  cells handed to the serialisers, which \<open>Adapters\<close> models.  \<open>print_report\<close> groups the
  listing into a dict from date to a dict from type to time and note
  (\<open>print_group\<close>, association lists updated in place as Python dicts are).
\<close>

subsection \<open>Shared pieces\<close>

definition display_date :: "sql_text \<Rightarrow> py_error + sql_text" where
  "display_date s =
     (let date_parts = py_split (CHR ''-'') s in
      if length date_parts < 3 then Inl IndexError
      else Inr (date_parts ! 2 @ ''-'' @ date_parts ! 1 @ ''-'' @ date_parts ! 0))"

definition replace_spaces :: "string \<Rightarrow> string" where
  "replace_spaces s = map (\<lambda>c. if c = CHR '' '' then CHR ''_'' else c) s"

definition obs_or :: "sql_text \<Rightarrow> sql_text \<Rightarrow> sql_text" where
  "obs_or dflt obs = (if obs = [] then dflt else obs)"

subsection \<open>\<open>export_reports\<close>\<close>

record freq_row =
  fr_nome :: sql_text
  fr_funcao :: sql_text
  fr_dias_trabalhados :: nat
  fr_dias_com_registro :: nat
  fr_total_pontos :: nat
  fr_frequencia :: rat

record detail_export_row =
  dx_data :: sql_text
  dx_funcionario :: sql_text
  dx_funcao :: sql_text
  dx_tipo :: sql_text
  dx_horario :: sql_text
  dx_observacao :: sql_text

datatype detailed_content =
    DetailedExcel "detail_export_row list"
  | DetailedPdf sql_text "(sql_text \<times> (sql_text \<times> sql_text \<times> sql_text) list) list"

datatype report_export_response =
    RExportDenied
  | RExportError py_error
  | RExportNoData
  | RExportInvalidFormat
  | RExportInvalidDetailedFormat
  | RExportSummary export_format string "sql_text \<times> sql_text" "freq_row list"
  | RExportDetailed export_format string "sql_text \<times> sql_text" detailed_content

definition freq_row_of :: "summary_row \<Rightarrow> freq_row" where
  "freq_row_of emp =
     \<lparr>fr_nome = sr_nome emp, fr_funcao = sr_funcao emp,
      fr_dias_trabalhados = dias_trabalhados emp, fr_dias_com_registro = dias_com_registro emp,
      fr_total_pontos = total_pontos emp, fr_frequencia = frequencia (dias_trabalhados emp)\<rparr>"

definition excel_rows ::
  "sql_text \<Rightarrow> (sql_text \<times> detail_row list) list \<Rightarrow> py_error + detail_export_row list" where
  "excel_rows employee_name groups =
     (case map_sum (\<lambda>(date, punches).
              (case display_date date of
                 Inl e \<Rightarrow> Inl e
               | Inr formatted_date \<Rightarrow>
                   Inr (map (\<lambda>punch. \<lparr>dx_data = formatted_date, dx_funcionario = employee_name,
                          dx_funcao = dr_funcao punch, dx_tipo = tipo_label (dr_tipo punch),
                          dx_horario = take 5 (dr_hora punch),
                          dx_observacao = obs_or [] (dr_observacao punch)\<rparr>) punches)))
            (sort_key fst groups) of
        Inl e \<Rightarrow> Inl e
      | Inr rss \<Rightarrow> Inr (concat rss))"

definition pdf_tables ::
  "(sql_text \<times> detail_row list) list \<Rightarrow>
   py_error + (sql_text \<times> (sql_text \<times> sql_text \<times> sql_text) list) list" where
  "pdf_tables groups =
     map_sum (\<lambda>(date, punches).
         (case display_date date of
            Inl e \<Rightarrow> Inl e
          | Inr formatted_date \<Rightarrow>
              Inr (formatted_date,
                   map (\<lambda>punch. (tipo_label (dr_tipo punch), take 5 (dr_hora punch),
                                 obs_or ''-'' (dr_observacao punch))) punches)))
       (sort_key fst groups)"

definition export_reports ::
  "usuario \<Rightarrow> int \<Rightarrow> string option \<Rightarrow> sql_text option \<Rightarrow> sql_text option \<Rightarrow> user_id option \<Rightarrow>
   db \<Rightarrow> report_export_response" where
  "export_reports cu t fmt start_arg end_arg eid d =
     (if perfil cu \<noteq> Admin then RExportDenied
      else
        (let format_type = py_lower (case fmt of None \<Rightarrow> ''csv'' | Some f \<Rightarrow> f);
             start_date = (case start_arg of None \<Rightarrow> strftime_first_dmy (get_brasilia_date t) | Some s \<Rightarrow> s);
             end_date = (case end_arg of None \<Rightarrow> strftime_dmy (get_brasilia_date t) | Some s \<Rightarrow> s)
         in case convert_date_for_db start_date of
              Inl e \<Rightarrow> RExportError e
            | Inr lo \<Rightarrow>
                (case convert_date_for_db end_date of
                   Inl e \<Rightarrow> RExportError e
                 | Inr hi \<Rightarrow>
                     (case eid of
                        Some i \<Rightarrow>
                          (case detailed_punches d i lo hi of
                             [] \<Rightarrow> RExportNoData
                           | r # rs \<Rightarrow>
                               (let employee_name = dr_nome r;
                                    groups = punches_by_date (r # rs);
                                    filename = replace_spaces (''relatorio_detalhado_'' @ employee_name @ ''_'' @
                                                 start_date @ ''_a_'' @ end_date)
                                in if format_type = ''excel'' then
                                     (case excel_rows employee_name groups of
                                        Inl e \<Rightarrow> RExportError e
                                      | Inr rows \<Rightarrow> RExportDetailed Excel (filename @ ''.xlsx'') (start_date, end_date) (DetailedExcel rows))
                                   else if format_type = ''pdf'' then
                                     (case pdf_tables groups of
                                        Inl e \<Rightarrow> RExportError e
                                      | Inr tables \<Rightarrow>
                                          RExportDetailed Pdf (filename @ ''.pdf'') (start_date, end_date) (DetailedPdf employee_name tables))
                                   else RExportInvalidDetailedFormat))
                      | None \<Rightarrow>
                          (case summary_all d lo hi of
                             [] \<Rightarrow> RExportNoData
                           | report_data \<Rightarrow>
                               (let df = map freq_row_of report_data;
                                    filename = ''relatorio_frequencia_'' @ start_date @ ''_a_'' @ end_date
                                in case export_format_of format_type of
                                     Some f \<Rightarrow> RExportSummary f (filename @ export_extension f) (start_date, end_date) df
                                   | None \<Rightarrow> RExportInvalidFormat))))))"

declare export_reports_def [handler_defs]

subsection \<open>\<open>print_report\<close>\<close>

type_synonym print_day = "(tipo \<times> (sql_text \<times> sql_text)) list"

datatype print_response =
    PrintDenied
  | PrintNoEmployee
  | PrintError py_error
  | PrintNotFound
  | PrintPage "sql_text \<times> sql_text" "(sql_text \<times> print_day) list" sql_text sql_text

definition print_entry :: "ponto \<Rightarrow> sql_text \<times> sql_text" where
  "print_entry p = (take 5 (hora p), obs_or [] (observacao p))"

definition print_insert :: "(sql_text \<times> print_day) list \<Rightarrow> ponto \<Rightarrow> (sql_text \<times> print_day) list" where
  "print_insert g p =
     (let inner = (case map_of g (data p) of None \<Rightarrow> [] | Some m \<Rightarrow> m) in
      AList.update (data p) (AList.update (tipo p) (print_entry p) inner) g)"

definition print_group :: "ponto list \<Rightarrow> (sql_text \<times> print_day) list" where
  "print_group ps = foldl print_insert [] ps"

definition print_punches :: "db \<Rightarrow> user_id \<Rightarrow> sql_text \<Rightarrow> sql_text \<Rightarrow> ponto list" where
  "print_punches d i lo hi =
     sort_key (\<lambda>p. (data p, hora p)) (filter (\<lambda>p. usuario_id p = i \<and> sql_between (data p) lo hi) (pontos d))"

definition print_report ::
  "usuario \<Rightarrow> int \<Rightarrow> sql_text option \<Rightarrow> sql_text option \<Rightarrow> user_id option \<Rightarrow> db \<Rightarrow> print_response" where
  "print_report cu t start_arg end_arg eid d =
     (if perfil cu \<noteq> Admin then PrintDenied
      else
        (let start_date = (case start_arg of None \<Rightarrow> strftime_first_dmy (get_brasilia_date t) | Some s \<Rightarrow> s);
             end_date = (case end_arg of None \<Rightarrow> strftime_dmy (get_brasilia_date t) | Some s \<Rightarrow> s)
         in case eid of
              None \<Rightarrow> PrintNoEmployee
            | Some i \<Rightarrow>
                (case convert_date_for_db start_date of
                   Inl e \<Rightarrow> PrintError e
                 | Inr lo \<Rightarrow>
                     (case convert_date_for_db end_date of
                        Inl e \<Rightarrow> PrintError e
                      | Inr hi \<Rightarrow>
                          (case user_get d i of
                             None \<Rightarrow> PrintNotFound
                           | Some u \<Rightarrow>
                               PrintPage (nome u, funcao u) (print_group (print_punches d i lo hi))
                                 start_date end_date)))))"

declare print_punches_def [query_defs] print_report_def [handler_defs]

subsection \<open>Grouping of the printable report\<close>

lemma print_group_snoc: "print_group (ps @ [p]) = print_insert (print_group ps) p"
  by (simp add: print_group_def)

lemma print_group_lookup:
  "Option.bind (map_of (print_group ps) dt) (\<lambda>m. map_of m x) =
     (case filter (\<lambda>p. data p = dt \<and> tipo p = x) ps of [] \<Rightarrow> None | qs \<Rightarrow> Some (print_entry (last qs)))"
proof (induction ps rule: rev_induct)
  case Nil
  then show ?case by (simp add: print_group_def)
next
  case (snoc p ps)
  show ?case
  proof (cases "data p = dt")
    case True
    then show ?thesis
      using snoc
      by (auto simp: print_group_snoc print_insert_def Let_def update_conv' split: option.splits list.splits)
  next
    case False
    then show ?thesis
      using snoc by (simp add: print_group_snoc print_insert_def Let_def update_conv')
  qed
qed

subsection \<open>Properties of the exports\<close>

text \<open>
  C37: the date conversion of the detailed exports swaps the two formats: a stored
  \<open>'%d-%m-%Y'\<close> date is shown as \<open>YYYY-MM-DD\<close>, and an ISO date as
  \<open>DD-MM-YYYY\<close>, although the code's comment expects ISO input only.
\<close>

theorem display_date_swaps:
  "display_date (strftime_dmy e) = Inr (iso_date e) \<and> display_date (iso_date e) = Inr (strftime_dmy e)"
  unfolding display_date_def Let_def py_split_strftime_dmy py_split_iso_date
  by (simp add: iso_date_def strftime_dmy_def)

text \<open>
  C36: the detailed export of one employee has no default format: without a
  \<open>format\<close> argument (default \<open>'csv'\<close>) it never produces a file, only an
  error, the no-data warning or the invalid-format warning.
\<close>

theorem export_reports_detailed_default:
  assumes "perfil cu = Admin"
  shows "export_reports cu t None start_arg end_arg (Some i) d \<in>
           {RExportInvalidDetailedFormat, RExportNoData} \<union> range RExportError"
  using assms
  by (auto simp: export_reports_def Let_def py_lower_csv split: sum.splits list.splits)

text \<open>
  C30: the summary export holds exactly the summary rows the reports page shows for
  the same arguments, each with its attendance frequency.
\<close>

theorem export_summary_matches_reports:
  assumes "export_reports cu t fmt start_arg end_arg None d = RExportSummary f n per rows"
  shows "\<exists>pg. reports cu t start_arg end_arg None d = ReportPage pg \<and> rows = map freq_row_of (rp_report_data pg)"
  using assms
  by (auto simp: export_reports_def reports_def Let_def split: if_splits sum.splits list.splits option.splits)
text \<open>
  C31: the printable report loses no punch while the ledger invariant holds: the
  cell of every listed punch's date and type shows that punch (the dict of a day
  keeps one entry per type, so only duplicates could be overwritten).
\<close>

theorem print_report_complete:
  assumes "ledger_ok d" and "p \<in> set (print_punches d i lo hi)"
  shows "Option.bind (map_of (print_group (print_punches d i lo hi)) (data p)) (\<lambda>m. map_of m (tipo p)) =
           Some (print_entry p)"
proof -
  let ?F = "filter (\<lambda>q. data q = data p \<and> tipo q = tipo p) (print_punches d i lo hi)"
  have u: "usuario_id p = i" using assms(2) by (simp add: print_punches_def)
  have "length ?F = length (filter (\<lambda>q. data q = data p \<and> tipo q = tipo p)
                     (filter (\<lambda>q. usuario_id q = i \<and> sql_between (data q) lo hi) (pontos d)))"
    by (simp add: print_punches_def)
  also have "\<dots> \<le> length (filter (\<lambda>q. usuario_id q = i \<and> data q = data p \<and> tipo q = tipo p) (pontos d))"
    unfolding filter_filter by (rule length_filter_mono) auto
  also have "\<dots> = count_list (day_tipos d i (data p)) (tipo p)"
    by (simp add: day_tipos_count)
  also have "\<dots> \<le> 1"
    using ledger_ok_distinct_day [OF assms(1)] by (rule distinct_count_list_le)
  finally have le: "length ?F \<le> 1" .
  have "p \<in> set ?F" using assms(2) by simp
  with le have "?F = [p]"
    by (cases ?F) (auto simp: le_Suc_eq)
  then show ?thesis by (simp add: print_group_lookup)
qed
end
