(* ===== verification/Employees.thy ===== *)
theory Employees
  imports Schema PyText
begin

text \<open>
  Registration of employees, \<open>register_employee\<close> of \<open>src/routes.py\<close>.  An
  administrator posts the form (\<open>employee_form\<close>; a GET request is \<open>None\<close>); the
  four text fields are stripped, the password is not; all five must be non-empty
  (\<open>all([...])\<close>); the CPF keeps its ASCII digits only and must have eleven of them;
  the count of rows with the same clean CPF or the same login must be zero; then
  the row is inserted with \<open>perfil = 'colaborador'\<close>.  The \<open>except\<close> branch of the
  insert is \<open>RegisterFailed\<close> with the database unchanged (no commit).  The lemmas
  show that every outcome but success leaves the database as it was, that the
  insert's UNIQUE violation cannot happen after the pre-check (the \<open>except\<close>
  branch is dead in a sequential run), and that the tables stay well formed and
  every stored CPF consists of eleven digits.
\<close>

record employee_form =
  f_nome :: string
  f_cpf :: string
  f_funcao :: string
  f_login :: string
  f_senha :: string

datatype register_response =
    RegisterDenied
  | RegisterForm
  | MissingFields
  | BadCpf
  | DuplicateIdentity
  | RegisterFailed
  | EmployeeRegistered

definition existing_count :: "db \<Rightarrow> sql_text \<Rightarrow> sql_text \<Rightarrow> nat" where
  "existing_count d c l = length (filter (\<lambda>u. cpf u = c \<or> login u = l) (usuarios d))"

definition register_employee ::
  "usuario \<Rightarrow> employee_form option \<Rightarrow> db \<Rightarrow> register_response \<times> db" where
  "register_employee cu req d =
     (if perfil cu \<noteq> Admin then (RegisterDenied, d)
      else case req of
        None \<Rightarrow> (RegisterForm, d)
      | Some f \<Rightarrow>
          (let nome = py_strip (f_nome f); cpf = py_strip (f_cpf f);
               funcao = py_strip (f_funcao f); login = py_strip (f_login f); senha = f_senha f
           in if \<not> list_all (\<lambda>s. s \<noteq> []) [nome, cpf, funcao, login, senha] then (MissingFields, d)
              else
                (let cpf_clean = only_digits cpf in
                 if length cpf_clean \<noteq> 11 then (BadCpf, d)
                 else if 0 < existing_count d cpf_clean login then (DuplicateIdentity, d)
                 else
                   (case insert_usuario nome cpf_clean funcao login (generate_password_hash senha)
                           Colaborador d of
                      Inl _ \<Rightarrow> (RegisterFailed, d)
                    | Inr d' \<Rightarrow> (EmployeeRegistered, d')))))"

declare existing_count_def [query_defs] register_employee_def [handler_defs]

text \<open>
  The handler split at its one write: the read phase (validation and the duplicate
  pre-check) ends in an early outcome or in the row to insert; the write phase is the
  \<open>try\<close> block, the INSERT with its \<open>except\<close>.  Requests served concurrently run
  the phases of different requests interleaved (\<open>Concurrency\<close>).
\<close>

record reg_request =
  rq_nome :: sql_text
  rq_cpf :: sql_text
  rq_funcao :: sql_text
  rq_login :: sql_text
  rq_senha :: string

definition register_begin :: "usuario \<Rightarrow> employee_form option \<Rightarrow> db \<Rightarrow> register_response + reg_request" where
  "register_begin cu req d =
     (if perfil cu \<noteq> Admin then Inl RegisterDenied
      else case req of
        None \<Rightarrow> Inl RegisterForm
      | Some f \<Rightarrow>
          (let nome = py_strip (f_nome f); cpf = py_strip (f_cpf f);
               funcao = py_strip (f_funcao f); login = py_strip (f_login f); senha = f_senha f
           in if \<not> list_all (\<lambda>s. s \<noteq> []) [nome, cpf, funcao, login, senha] then Inl MissingFields
              else
                (let cpf_clean = only_digits cpf in
                 if length cpf_clean \<noteq> 11 then Inl BadCpf
                 else if 0 < existing_count d cpf_clean login then Inl DuplicateIdentity
                 else Inr \<lparr>rq_nome = nome, rq_cpf = cpf_clean, rq_funcao = funcao, rq_login = login,
                           rq_senha = senha\<rparr>)))"

definition register_commit :: "reg_request \<Rightarrow> db \<Rightarrow> register_response \<times> db" where
  "register_commit q d =
     (case insert_usuario (rq_nome q) (rq_cpf q) (rq_funcao q) (rq_login q) (generate_password_hash (rq_senha q))
             Colaborador d of
        Inl _ \<Rightarrow> (RegisterFailed, d)
      | Inr d' \<Rightarrow> (EmployeeRegistered, d'))"

text \<open>Every stored CPF is eleven ASCII digits.\<close>

definition cpf_ok :: "db \<Rightarrow> bool" where
  "cpf_ok d \<longleftrightarrow> list_all (\<lambda>u. length (cpf u) = 11 \<and> list_all py_isdigit (cpf u)) (usuarios d)"

subsection \<open>Outcomes of the handler\<close>

lemma existing_count_zero_iff:
  "existing_count d c l = 0 \<longleftrightarrow> c \<notin> set (map cpf (usuarios d)) \<and> l \<notin> set (map login (usuarios d))"
  by (auto simp: existing_count_def filter_empty_conv)

lemma only_digits_isdigit: "list_all py_isdigit (only_digits s)"
  by (simp add: only_digits_def list_all_iff)

lemma register_employee_other:
  "register_employee cu req d = (r, d') \<Longrightarrow> r \<noteq> EmployeeRegistered \<Longrightarrow> d' = d"
  by (auto simp: register_employee_def Let_def split: if_splits option.splits sum.splits)

lemma register_employee_success:
  "register_employee cu req d = (EmployeeRegistered, d') \<Longrightarrow>
     \<exists>n c f l s. insert_usuario n c f l s Colaborador d = Inr d' \<and> length c = 11 \<and> list_all py_isdigit c"
  by (auto simp: register_employee_def Let_def split: if_splits option.splits sum.splits;
      blast intro: only_digits_isdigit)

lemma cpf_ok_insert:
  assumes "cpf_ok d" and "insert_usuario n c f l s p d = Inr d'"
    and "length c = 11" and "list_all py_isdigit c"
  shows "cpf_ok d'"
  using assms insert_usuario_appends [OF assms(2)] by (simp add: cpf_ok_def)

lemma register_employee_two_phase:
  "register_employee cu req d = (case register_begin cu req d of Inl r \<Rightarrow> (r, d) | Inr q \<Rightarrow> register_commit q d)"
  by (simp add: register_employee_def register_begin_def register_commit_def Let_def split: option.split)

lemma register_begin_cpf:
  "register_begin cu req d = Inr q \<Longrightarrow> length (rq_cpf q) = 11 \<and> list_all py_isdigit (rq_cpf q)"
  by (auto simp: register_begin_def Let_def only_digits_isdigit split: if_splits option.splits)

lemma register_commit_pontos: "pontos (snd (register_commit q d)) = pontos d"
  by (auto simp: register_commit_def insert_usuario_def Let_def split: sum.split if_splits)

lemma register_commit_invariants:
  assumes "schema_ok d" and "cpf_ok d" and "length (rq_cpf q) = 11" and "list_all py_isdigit (rq_cpf q)"
  shows "schema_ok (snd (register_commit q d)) \<and> cpf_ok (snd (register_commit q d))"
proof (cases "insert_usuario (rq_nome q) (rq_cpf q) (rq_funcao q) (rq_login q) (generate_password_hash (rq_senha q))
                Colaborador d")
  case (Inl e)
  then show ?thesis using assms(1,2) by (simp add: register_commit_def)
next
  case (Inr d')
  then show ?thesis
    using insert_usuario_schema_ok [OF assms(1) Inr] cpf_ok_insert [OF assms(2) Inr assms(3,4)]
    by (simp add: register_commit_def)
qed

subsection \<open>Properties of the handler\<close>

text \<open>Registering an employee keeps the tables well formed and every stored CPF
  eleven digits long.\<close>

lemma register_employee_invariants:
  assumes "schema_ok d" and "cpf_ok d"
  shows "schema_ok (snd (register_employee cu req d)) \<and> cpf_ok (snd (register_employee cu req d))"
proof (cases "register_employee cu req d")
  case (Pair r d')
  show ?thesis
  proof (cases "r = EmployeeRegistered")
    case True
    then obtain n c f l s where
      ins: "insert_usuario n c f l s Colaborador d = Inr d'" and
      len: "length c = 11" and dig: "list_all py_isdigit c"
      using register_employee_success Pair by blast
    show ?thesis
      using insert_usuario_schema_ok [OF assms(1) ins] cpf_ok_insert [OF assms(2) ins len dig] Pair
      by simp
  next
    case False
    then show ?thesis using assms Pair register_employee_other [OF Pair False] by simp
  qed
qed

text \<open>
  C39: the pre-check counts exactly the rows the UNIQUE constraints would reject, so
  in a sequential run the insert never raises and the \<open>except\<close> branch is dead.
\<close>

theorem register_employee_never_fails:
  "fst (register_employee cu req d) \<noteq> RegisterFailed"
  by (auto simp: register_employee_def Let_def insert_usuario_def existing_count_zero_iff
      split: option.splits sum.splits)

text \<open>
  every outcome other than a registration (denied, form, missing fields, bad
  CPF, duplicate) leaves the database unchanged.
\<close>

theorem register_employee_error_unchanged:
  assumes "fst (register_employee cu req d) \<noteq> EmployeeRegistered"
  shows "snd (register_employee cu req d) = d"
  using assms register_employee_other [of cu req d "fst (register_employee cu req d)"
      "snd (register_employee cu req d)"] by simp

text \<open>
  C23: a valid form whose clean CPF and login are new appends one employee row with
  the stripped fields, the digits of the CPF, the hash of the password and the
  next id.
\<close>

theorem register_employee_inserts:
  assumes "perfil cu = Admin"
    and "list_all (\<lambda>s. s \<noteq> []) [py_strip (f_nome f), py_strip (f_cpf f), py_strip (f_funcao f),
           py_strip (f_login f), f_senha f]"
    and "length (only_digits (py_strip (f_cpf f))) = 11"
    and "existing_count d (only_digits (py_strip (f_cpf f))) (py_strip (f_login f)) = 0"
  shows "register_employee cu (Some f) d =
           (EmployeeRegistered,
            d\<lparr>usuarios := usuarios d @
                 [\<lparr>uid = Suc (seq_usuarios d), nome = py_strip (f_nome f),
                   cpf = only_digits (py_strip (f_cpf f)), funcao = py_strip (f_funcao f),
                   login = py_strip (f_login f), senha = generate_password_hash (f_senha f),
                   perfil = Colaborador\<rparr>],
              seq_usuarios := Suc (seq_usuarios d)\<rparr>)"
  using assms by (simp add: register_employee_def Let_def insert_usuario_def existing_count_zero_iff)

text \<open>
  a valid form whose clean CPF or stripped login is already taken is refused as
  a duplicate identity, with no write.
\<close>

theorem register_employee_duplicate:
  assumes "perfil cu = Admin"
    and "list_all (\<lambda>s. s \<noteq> []) [py_strip (f_nome f), py_strip (f_cpf f), py_strip (f_funcao f),
           py_strip (f_login f), f_senha f]"
    and "length (only_digits (py_strip (f_cpf f))) = 11"
    and "\<exists>u \<in> set (usuarios d). cpf u = only_digits (py_strip (f_cpf f)) \<or> login u = py_strip (f_login f)"
  shows "register_employee cu (Some f) d = (DuplicateIdentity, d)"
proof -
  have "0 < existing_count d (only_digits (py_strip (f_cpf f))) (py_strip (f_login f))"
    using assms(4) by (auto simp: existing_count_def filter_empty_conv)
  then show ?thesis using assms(1-3) by (simp add: register_employee_def Let_def)
qed

text \<open>
  C22: the handler's pre-check and the table's UNIQUE constraints agree: a row with
  the same CPF or the same login exists exactly when the insert would be refused.
\<close>

theorem precheck_matches_unique:
  "0 < existing_count d c l \<longleftrightarrow> (\<exists>e. insert_usuario n c f l s p d = Inl e)"
  by (auto simp: insert_usuario_def Let_def existing_count_def filter_empty_conv)

end
