(* ===== verification/Session.thy ===== *)
theory Session
  imports Schema
begin

text \<open>
  Sessions and sign-in (\<open>src/routes.py\<close>: \<open>index\<close>, \<open>login\<close>, \<open>logout\<close>;
  \<open>src/auth.py\<close>: \<open>load_user\<close>).  The flask-login session holds the id of the
  signed-in user (\<open>sess_user\<close>); \<open>current_user\<close> reloads the row with
  \<open>User.get\<close> on every request, and a user whose row is gone is anonymous.
  \<open>login_route\<close> (the view \<open>login\<close>) asks \<open>User.check_password\<close>, then loads the row with
  \<open>User.get_by_login\<close> and signs it in; it follows a non-empty \<open>next\<close> argument
  as given, else goes to the dashboard of the user's profile.  The lemmas show
  that sign-in succeeds exactly for the password the stored hash was made from,
  that an unknown login and a wrong password give the same answer, that the
  internal-error branch is dead, and where \<open>index\<close> sends each visitor.
\<close>

record session =
  sess_user :: "user_id option"

record login_form =
  lf_login :: string
  lf_password :: string

datatype redirect_target = ToLogin | ToAdminDashboard | ToEmployeeDashboard | ToUrl string

datatype login_response =
    LoginFormPage
  | LoginRejected
  | LoginInternalError
  | LoginRedirect redirect_target

definition current_user :: "db \<Rightarrow> session \<Rightarrow> usuario option" where
  "current_user d s = (case sess_user s of None \<Rightarrow> None | Some i \<Rightarrow> user_get d i)"

definition dashboard_of :: "usuario \<Rightarrow> redirect_target" where
  "dashboard_of u = (if perfil u = Admin then ToAdminDashboard else ToEmployeeDashboard)"

definition index :: "db \<Rightarrow> session \<Rightarrow> redirect_target" where
  "index d s = (case current_user d s of None \<Rightarrow> ToLogin | Some u \<Rightarrow> dashboard_of u)"

definition login_route ::
  "login_form option \<Rightarrow> string option \<Rightarrow> db \<Rightarrow> session \<Rightarrow> login_response \<times> session" where
  "login_route req nxt d s =
     (case req of
        None \<Rightarrow> (LoginFormPage, s)
      | Some f \<Rightarrow>
          (if check_password d (lf_login f) (lf_password f) then
             (case get_by_login d (lf_login f) of
                None \<Rightarrow> (LoginInternalError, s)
              | Some u \<Rightarrow>
                  (let s' = s\<lparr>sess_user := Some (uid u)\<rparr>;
                       next_page = (case nxt of None \<Rightarrow> [] | Some n \<Rightarrow> n)
                   in if next_page \<noteq> [] then (LoginRedirect (ToUrl next_page), s')
                      else (LoginRedirect (dashboard_of u), s')))
           else (LoginRejected, s)))"

definition logout :: "session \<Rightarrow> redirect_target \<times> session" where
  "logout s = (ToLogin, s\<lparr>sess_user := None\<rparr>)"

text \<open>
  \<open>User\<close> of \<open>auth.py\<close>: the object flask-login holds as \<open>current_user\<close>, the row's
  columns without the password hash.  The handlers are modelled on the row; they read
  only the columns the object has.
\<close>

record user_obj =
  uo_id :: user_id
  uo_nome :: sql_text
  uo_cpf :: sql_text
  uo_funcao :: sql_text
  uo_login :: sql_text
  uo_perfil :: perfil

definition user_of :: "usuario \<Rightarrow> user_obj" where
  "user_of u = \<lparr>uo_id = uid u, uo_nome = nome u, uo_cpf = cpf u, uo_funcao = funcao u,
                uo_login = login u, uo_perfil = perfil u\<rparr>"

definition load_user :: "db \<Rightarrow> user_id \<Rightarrow> user_obj option" where
  "load_user d i = map_option user_of (user_get d i)"

declare current_user_def [query_defs] login_route_def [handler_defs] index_def [handler_defs]

subsection \<open>Lookups by login\<close>

lemma check_password_get_by_login:
  "check_password d l pw \<longleftrightarrow>
     (\<exists>u. get_by_login d l = Some u \<and> check_password_hash (senha u) pw)"
  by (simp add: check_password_def get_by_login_def split: option.split)

lemma check_password_hash_generate [simp]:
  "check_password_hash (generate_password_hash p) q \<longleftrightarrow> p = q"
  by (simp add: generate_password_hash_def)

lemma get_by_login_unique:
  assumes "distinct (map login (usuarios d))" and "u \<in> set (usuarios d)"
  shows "get_by_login d (login u) = Some u"
proof -
  obtain i where i: "i < length (usuarios d)" "usuarios d ! i = u"
    using assms(2) by (auto simp: in_set_conv_nth)
  have "\<forall>j < i. login (usuarios d ! j) \<noteq> login u"
    using assms(1) i by (auto simp: distinct_conv_nth)
  then show ?thesis
    using i by (auto simp: get_by_login_def find_Some_iff)
qed

lemma user_get_unique:
  assumes "distinct (map uid (usuarios d))" and "u \<in> set (usuarios d)"
  shows "user_get d (uid u) = Some u"
proof -
  obtain i where i: "i < length (usuarios d)" "usuarios d ! i = u"
    using assms(2) by (auto simp: in_set_conv_nth)
  have "\<forall>j < i. uid (usuarios d ! j) \<noteq> uid u"
    using assms(1) i by (auto simp: distinct_conv_nth)
  then show ?thesis
    using i by (auto simp: user_get_def find_Some_iff)
qed

lemma current_user_object:
  "map_option user_of (current_user d s) = (case sess_user s of None \<Rightarrow> None | Some i \<Rightarrow> load_user d i)"
  by (simp add: current_user_def load_user_def split: option.split)

lemma user_of_eq_iff_password:
  "user_of u = user_of u' \<longleftrightarrow> u\<lparr>senha := senha u'\<rparr> = u'"
  by (cases u; cases u') (auto simp: user_of_def)

subsection \<open>Properties of sign-in\<close>

text \<open>
  C24: a login that does not exist and a wrong password for one that does get the
  same answer, and the session is left as it was.
\<close>

theorem login_rejects_uniformly:
  assumes "get_by_login d (lf_login f) = None \<or>
           (\<exists>u. get_by_login d (lf_login f) = Some u \<and> \<not> check_password_hash (senha u) (lf_password f))"
  shows "login_route (Some f) nxt d s = (LoginRejected, s)"
proof -
  have "\<not> check_password d (lf_login f) (lf_password f)"
    using assms by (auto simp: check_password_get_by_login)
  then show ?thesis by (simp add: login_route_def)
qed

text \<open>
  \<open>User.check_password\<close> succeeds only when \<open>User.get_by_login\<close> finds
  the row, so the "internal error" branch of \<open>login\<close> is dead.
\<close>

theorem login_no_internal_error:
  "fst (login_route req nxt d s) \<noteq> LoginInternalError"
  by (auto simp: login_route_def check_password_get_by_login Let_def split: option.splits)

text \<open>
  C25: in well-formed tables, signing in with a row's login and the password its hash
  was made from makes that row the current user.
\<close>

theorem login_signs_in_row:
  assumes "schema_ok d" and "u \<in> set (usuarios d)" and "senha u = generate_password_hash p"
  shows "current_user d (snd (login_route (Some \<lparr>lf_login = login u, lf_password = p\<rparr>) nxt d s)) = Some u"
proof -
  have g: "get_by_login d (login u) = Some u"
    using assms(1,2) by (intro get_by_login_unique) (auto simp: schema_ok_def)
  have "user_get d (uid u) = Some u"
    using assms(1,2) by (intro user_get_unique) (auto simp: schema_ok_def)
  with g assms(3) show ?thesis
    by (simp add: login_route_def check_password_get_by_login current_user_def Let_def)
qed

text \<open>
  C38: after a successful sign-in \<open>login\<close> redirects to any non-empty \<open>next\<close>
  argument as given, whatever its host.
\<close>

theorem login_follows_next:
  assumes "check_password d (lf_login f) (lf_password f)" and "n \<noteq> []"
  shows "fst (login_route (Some f) (Some n) d s) = LoginRedirect (ToUrl n)"
  using assms by (auto simp: login_route_def check_password_get_by_login Let_def)

text \<open>
  after \<open>logout\<close> there is no current user and \<open>index\<close> sends the
  visitor to the sign-in page.
\<close>

theorem logout_signs_out:
  "current_user d (snd (logout s)) = None \<and> index d (snd (logout s)) = ToLogin"
  by (simp add: logout_def current_user_def index_def)
end
