(* ===== verification/App.thy ===== *)
theory App
  imports Dashboard Exports Employees Session
begin

text \<open>
  The application as one machine.  Every route of \<open>src/routes.py\<close> is a
  constructor of \<open>request\<close>; \<open>app_step\<close> dispatches a request at POSIX time
  \<open>t\<close> on the shared database and the requesting client's session, as Flask does:
  the routes marked \<open>@login_required\<close> answer \<open>RUnauthorized\<close> (flask-login's
  redirect to the sign-in page) when the session has no current user, and
  otherwise run their handler with the current user reloaded from the database.
  Only \<open>register_employee\<close> and \<open>register_punch\<close> write the database, and
  only \<open>login\<close> and \<open>logout\<close> write the session.  \<open>reachable\<close> holds of the
  databases a run can produce from the start-up of \<open>init_db\<close> on a new file, each
  step taken by any client with any session; by rule induction every reachable
  database keeps the table invariants, the ledger invariant, well-formed times
  and an administrator.  Requests are sequential here: the interleaving of two
  punch requests is the subject of \<open>punch_race_duplicate\<close>.
\<close>

datatype request =
    ReqIndex
  | ReqLogin "login_form option" "string option"
  | ReqLogout
  | ReqAdminDashboard
  | ReqEmployeeDashboard
  | ReqRegisterEmployee "employee_form option"
  | ReqPunch string
  | ReqPunchHistory "user_id option"
  | ReqReports "sql_text option" "sql_text option" "user_id option"
  | ReqExportHistory "string option" "user_id option"
  | ReqExportReports "string option" "sql_text option" "sql_text option" "user_id option"
  | ReqPrintReport "sql_text option" "sql_text option" "user_id option"

datatype response =
    RUnauthorized
  | RIndex redirect_target
  | RLogin login_response
  | RLogout redirect_target
  | RAdminDashboard admin_view
  | REmployeeDashboard employee_view
  | RRegisterEmployee register_response
  | RPunch punch_response
  | RPunchHistory history_page
  | RReports report_response
  | RExportHistory export_response
  | RExportReports report_export_response
  | RPrintReport print_response

type_synonym app_state = "db \<times> session"

definition handle :: "int \<Rightarrow> request \<Rightarrow> usuario \<Rightarrow> app_state \<Rightarrow> response \<times> app_state" where
  "handle t r cu st =
     (let (d, s) = st in
      case r of
        ReqLogout \<Rightarrow> (let (tg, s') = logout s in (RLogout tg, (d, s')))
      | ReqAdminDashboard \<Rightarrow> (RAdminDashboard (admin_dashboard cu t d), st)
      | ReqEmployeeDashboard \<Rightarrow> (REmployeeDashboard (employee_dashboard cu t d), st)
      | ReqRegisterEmployee f \<Rightarrow> (let (a, d') = register_employee cu f d in (RRegisterEmployee a, (d', s)))
      | ReqPunch obs \<Rightarrow> (let (a, d') = register_punch cu t t obs d in (RPunch a, (d', s)))
      | ReqPunchHistory eid \<Rightarrow> (RPunchHistory (punch_history cu eid d), st)
      | ReqReports a b eid \<Rightarrow> (RReports (reports cu t a b eid d), st)
      | ReqExportHistory fm eid \<Rightarrow> (RExportHistory (export_history cu fm eid d), st)
      | ReqExportReports fm a b eid \<Rightarrow> (RExportReports (export_reports cu t fm a b eid d), st)
      | ReqPrintReport a b eid \<Rightarrow> (RPrintReport (print_report cu t a b eid d), st)
      | _ \<Rightarrow> (RUnauthorized, st))"

definition app_step :: "int \<Rightarrow> request \<Rightarrow> app_state \<Rightarrow> response \<times> app_state" where
  "app_step t r st =
     (let (d, s) = st in
      case r of
        ReqIndex \<Rightarrow> (RIndex (index d s), st)
      | ReqLogin f nxt \<Rightarrow> (let (a, s') = login_route f nxt d s in (RLogin a, (d, s')))
      | _ \<Rightarrow>
          (case current_user d s of
             None \<Rightarrow> (RUnauthorized, st)
           | Some cu \<Rightarrow> handle t r cu st))"

declare handle_def [handler_defs] app_step_def [handler_defs]

text \<open>One client's requests, one after the other, at time \<open>t\<close>.\<close>

fun app_run :: "int \<Rightarrow> request list \<Rightarrow> app_state \<Rightarrow> response list \<times> app_state" where
  "app_run t [] st = ([], st)"
| "app_run t (r # rs) st =
     (let (a, st') = app_step t r st; (as, st'') = app_run t rs st' in (a # as, st''))"

text \<open>An employee pressing the punch button until the day is complete: a loop of
  \<open>register_punch\<close> requests at one time, which terminates because every recorded
  punch removes a type from the day's missing types.\<close>

function punch_until_done :: "int \<Rightarrow> string \<Rightarrow> usuario \<Rightarrow> db \<Rightarrow> punch_response list \<times> db" where
  "punch_until_done t obs cu d =
     (case register_punch cu t t obs d of
        (Registered x h, d') \<Rightarrow> (let (rs, d'') = punch_until_done t obs cu d' in (Registered x h # rs, d''))
      | (a, d') \<Rightarrow> ([a], d'))"
  by pat_completeness auto
termination
proof (relation "measure (\<lambda>(t, obs, cu, d). missing_count d (uid cu) (strftime_dmy (get_brasilia_date t)))")
  show "wf (measure (\<lambda>(t, obs, cu, d). missing_count d (uid cu) (strftime_dmy (get_brasilia_date t))))"
    by simp
next
  fix t obs cu d a d' x h
  assume "(a, d') = register_punch cu t t obs d" and "a = Registered x h"
  then have "register_punch cu t t obs d = (Registered x h, d')" by simp
  then show "((t, obs, cu, d'), t, obs, cu, d)
    \<in> measure (\<lambda>(t, obs, cu, d). missing_count d (uid cu) (strftime_dmy (get_brasilia_date t)))"
    by (simp add: register_punch_progress)
qed

declare punch_until_done.simps [simp del]

text \<open>Start-up on a new database file, then any sequence of requests of any clients.\<close>

inductive reachable :: "db \<Rightarrow> bool" where
  start: "init_db empty_db = Inr d \<Longrightarrow> reachable d"
| step: "reachable d \<Longrightarrow> app_step t r (d, s) = (a, (d', s')) \<Longrightarrow> reachable d'"

text \<open>The invariant of the reachable databases.\<close>

definition app_inv :: "db \<Rightarrow> bool" where
  "app_inv d \<longleftrightarrow> schema_ok d \<and> cpf_ok d \<and> ledger_ok d \<and> 0 < admin_count d \<and>
     list_all (\<lambda>p. hora_ok (hora p)) (pontos d)"

subsection \<open>Which requests write the database\<close>

lemma app_step_db:
  assumes "app_step t r (d, s) = (a, (d', s'))"
  shows "d' = d \<or>
         (\<exists>cu f. d' = snd (register_employee cu f d)) \<or>
         (\<exists>cu obs. d' = snd (register_punch cu t t obs d))"
  using assms
  by (auto simp: app_step_def handle_def logout_def split: request.splits option.splits prod.splits;
      metis snd_conv)

lemma register_punch_db_cases:
  "snd (register_punch cu t t obs d) = d \<or>
   (\<exists>x. snd (register_punch cu t t obs d) =
          insert_ponto (uid cu) (strftime_dmy (get_brasilia_date t)) x
            (strftime_hms (get_brasilia_time t)) (py_strip obs) d)"
  by (auto simp: register_punch_def Let_def split: option.splits)

lemma admin_count_insert_usuario:
  "insert_usuario n c f l s p d = Inr d' \<Longrightarrow> admin_count d \<le> admin_count d'"
  by (simp add: admin_count_def insert_usuario_appends)

lemma register_employee_pontos: "pontos (snd (register_employee cu f d)) = pontos d"
  by (auto simp: register_employee_def Let_def insert_usuario_pontos split: option.splits sum.splits)

lemma register_employee_admin_count:
  "admin_count d \<le> admin_count (snd (register_employee cu f d))"
  by (auto simp: register_employee_def Let_def admin_count_insert_usuario split: option.splits sum.splits)

lemma ledger_ok_same_pontos: "pontos d' = pontos d \<Longrightarrow> ledger_ok d' = ledger_ok d"
  by (simp add: ledger_ok_def day_tipos_def)

lemma app_inv_register_employee: "app_inv d \<Longrightarrow> app_inv (snd (register_employee cu f d))"
  using register_employee_invariants [of d cu f] register_employee_pontos [of cu f d]
    register_employee_admin_count [of d cu f] ledger_ok_same_pontos [of "snd (register_employee cu f d)" d]
  by (simp add: app_inv_def)

lemma app_inv_register_punch: "app_inv d \<Longrightarrow> app_inv (snd (register_punch cu t t obs d))"
proof -
  assume inv: "app_inv d"
  then have l: "ledger_ok (snd (register_punch cu t t obs d))"
    by (simp add: app_inv_def register_punch_ledger_ok)
  from register_punch_db_cases [of cu t obs d] show ?thesis
  proof
    assume "snd (register_punch cu t t obs d) = d"
    then show ?thesis using inv by simp
  next
    assume "\<exists>x. snd (register_punch cu t t obs d) =
          insert_ponto (uid cu) (strftime_dmy (get_brasilia_date t)) x
            (strftime_hms (get_brasilia_time t)) (py_strip obs) d"
    then obtain x where e: "snd (register_punch cu t t obs d) =
          insert_ponto (uid cu) (strftime_dmy (get_brasilia_date t)) x
            (strftime_hms (get_brasilia_time t)) (py_strip obs) d" ..
    show ?thesis
      using inv l insert_ponto_schema_ok [of d] hora_ok_clock [of t] unfolding e
      by (simp add: app_inv_def cpf_ok_def admin_count_def insert_ponto_pontos)
  qed
qed

lemma app_inv_init: "init_db empty_db = Inr d \<Longrightarrow> app_inv d"
  by (auto simp: init_db_def empty_db_def insert_usuario_def admin_count_def app_inv_def schema_ok_def
      cpf_ok_def ledger_ok_def generate_password_hash_def py_isdigit_def)

lemma app_inv_step: "app_inv d \<Longrightarrow> app_step t r (d, s) = (a, (d', s')) \<Longrightarrow> app_inv d'"
  using app_step_db [of t r d s a d' s'] app_inv_register_employee app_inv_register_punch by blast

lemma reachable_app_inv: "reachable d \<Longrightarrow> app_inv d"
proof (induction rule: reachable.induct)
  case (start d)
  then show ?case by (rule app_inv_init)
next
  case (step d t r s a d' s')
  then show ?case by (blast intro: app_inv_step)
qed

subsection \<open>Runs of punch requests\<close>

lemma punch_request_step:
  assumes "ledger_ok d" and "current_user d s = Some cu" and "perfil cu = Colaborador"
  shows "\<exists>a d'. app_step t (ReqPunch obs) (d, s) = (RPunch a, (d', s)) \<and> ledger_ok d' \<and>
           current_user d' s = Some cu \<and>
           day_tipos d' (uid cu) (strftime_dmy (get_brasilia_date t)) =
             take (min 4 (Suc (length (day_tipos d (uid cu) (strftime_dmy (get_brasilia_date t))))))
               punch_types"
proof -
  let ?today = "strftime_dmy (get_brasilia_date t)"
  let ?c = "day_tipos d (uid cu) ?today"
  have p: "prefix ?c punch_types" using ledger_ok_day_tipos [OF assms(1)] .
  then have c: "?c = take (length ?c) punch_types" by (rule prefix_take_length)
  have len: "length ?c \<le> 4" using prefix_length_le [OF p] by simp
  have step: "app_step t (ReqPunch obs) (d, s) =
                (RPunch (fst (register_punch cu t t obs d)), (snd (register_punch cu t t obs d), s))"
    using assms(2) by (simp add: app_step_def handle_def split: prod.split)
  have cu': "current_user (snd (register_punch cu t t obs d)) s = Some cu"
    using assms(2) register_punch_db_cases [of cu t obs d]
    by (auto simp: current_user_def user_get_def split: option.splits)
  have "day_tipos (snd (register_punch cu t t obs d)) (uid cu) ?today =
        take (min 4 (Suc (length ?c))) punch_types"
  proof (cases "length ?c < 4")
    case True
    then have "next_punch ?c = Some (punch_types ! length ?c)" using next_punch_prefix [OF p] by simp
    moreover have "take (Suc (length ?c)) punch_types = take (length ?c) punch_types @ [punch_types ! length ?c]"
      using True by (simp add: take_Suc_conv_app_nth)
    moreover have "min 4 (Suc (length ?c)) = Suc (length ?c)" using True by simp
    ultimately show ?thesis
      using assms(3) c [symmetric] by (simp add: register_punch_cases Let_def day_tipos_insert_ponto)
  next
    case False
    then have "next_punch ?c = None" using next_punch_prefix [OF p] by simp
    then show ?thesis
      using assms(3) False len c [symmetric] by (simp add: register_punch_cases Let_def min_def)
  qed
  then show ?thesis
    using step cu' register_punch_ledger_ok [OF assms(1)] by blast
qed
lemma punch_requests_run:
  assumes "ledger_ok d" and "current_user d s = Some cu" and "perfil cu = Colaborador"
  shows "fst (snd (app_run t (replicate n (ReqPunch obs)) (d, s))) = d' \<Longrightarrow>
         day_tipos d' (uid cu) (strftime_dmy (get_brasilia_date t)) =
           take (min 4 (n + length (day_tipos d (uid cu) (strftime_dmy (get_brasilia_date t))))) punch_types"
  using assms
proof (induction n arbitrary: d)
  case 0
  let ?c = "day_tipos d (uid cu) (strftime_dmy (get_brasilia_date t))"
  have p: "prefix ?c punch_types" using ledger_ok_day_tipos [OF 0(2)] .
  have "min 4 (0 + length ?c) = length ?c" using prefix_length_le [OF p] by simp
  moreover have "d' = d" using 0(1) by simp
  ultimately show ?case using prefix_take_length [OF p] by simp
next
  case (Suc n)
  obtain a d1 where st: "app_step t (ReqPunch obs) (d, s) = (RPunch a, (d1, s))" and l1: "ledger_ok d1"
    and c1: "current_user d1 s = Some cu"
    and t1: "day_tipos d1 (uid cu) (strftime_dmy (get_brasilia_date t)) =
             take (min 4 (Suc (length (day_tipos d (uid cu) (strftime_dmy (get_brasilia_date t))))))
               punch_types"
    using punch_request_step [OF Suc.prems(2-4)] by blast
  have "fst (snd (app_run t (replicate n (ReqPunch obs)) (d1, s))) = d'"
    using Suc.prems(1) st by (simp split: prod.splits)
  from Suc.IH [OF this l1 c1 Suc.prems(4)] show ?case
    by (simp add: t1 min_def)
qed

lemma missing_count_le: "missing_count d u dt \<le> 4"
  using length_filter_le [of _ punch_types] by (simp add: missing_count_def)

lemma punch_until_done_bounded:
  "length (filter (\<lambda>a. a \<noteq> AllRecorded \<and> a \<noteq> PunchDenied) (fst (punch_until_done t obs cu d))) \<le>
     missing_count d (uid cu) (strftime_dmy (get_brasilia_date t))"
proof (induction t obs cu d rule: punch_until_done.induct)
  case (1 t obs cu d)
  show ?case
  proof (cases "register_punch cu t t obs d")
    case (Pair a d')
    show ?thesis
    proof (cases a)
      case (Registered x h)
      have eq: "punch_until_done t obs cu d =
                  (Registered x h # fst (punch_until_done t obs cu d'), snd (punch_until_done t obs cu d'))"
        by (subst punch_until_done.simps) (simp add: Pair Registered split: prod.split)
      show ?thesis
        using 1 [OF Pair [symmetric] Registered] register_punch_progress [of cu t obs d x h d'] Pair Registered
        by (simp add: eq)
    next
      case PunchDenied
      then show ?thesis by (subst punch_until_done.simps) (simp add: Pair)
    next
      case AllRecorded
      then show ?thesis by (subst punch_until_done.simps) (simp add: Pair)
    qed
  qed
qed

lemma punch_until_done_complete:
  "perfil cu = Colaborador \<Longrightarrow>
   set (day_tipos (snd (punch_until_done t obs cu d)) (uid cu) (strftime_dmy (get_brasilia_date t))) = UNIV"
proof (induction t obs cu d rule: punch_until_done.induct)
  case (1 t obs cu d)
  show ?case
  proof (cases "register_punch cu t t obs d")
    case (Pair a d')
    show ?thesis
    proof (cases a)
      case (Registered x h)
      have eq: "snd (punch_until_done t obs cu d) = snd (punch_until_done t obs cu d')"
        by (subst punch_until_done.simps) (simp add: Pair Registered split: prod.split)
      show ?thesis using 1 Pair Registered by (simp add: eq)
    next
      case PunchDenied
      then show ?thesis using Pair 1(2) by (simp add: register_punch_def Let_def split: option.splits)
    next
      case AllRecorded
      then have "d' = d \<and> next_punch (day_tipos d (uid cu) (strftime_dmy (get_brasilia_date t))) = None"
        using Pair 1(2) by (auto simp: register_punch_def Let_def next_punch_today split: option.splits)
      then show ?thesis using Pair AllRecorded
        by (subst punch_until_done.simps) (auto simp: next_punch_def first_missing_None)
    qed
  qed
qed

subsection \<open>Properties of the application\<close>

text \<open>
  C20: an employee can always complete the day: in any reachable database, four
  punch requests of the signed-in employee at one time record the four types of
  that day in the fixed order.
\<close>

theorem employee_completes_day:
  assumes "reachable d" and "current_user d s = Some cu" and "perfil cu = Colaborador"
  shows "day_tipos (fst (snd (app_run t (replicate 4 (ReqPunch obs)) (d, s)))) (uid cu)
           (strftime_dmy (get_brasilia_date t)) = punch_types"
proof -
  have "ledger_ok d" using reachable_app_inv [OF assms(1)] by (simp add: app_inv_def)
  from punch_requests_run [OF this assms(2,3) refl, of t 4 obs] show ?thesis by simp
qed


text \<open>
  C1: every database the application can reach from its start-up keeps its tables
  well formed (distinct ids below the counters, unique CPF and login), every
  stored CPF eleven digits, the ledger invariant (each user's types of a day are a
  prefix of entrada, saida_almoco, volta_almoco, saida_final) and an administrator.
\<close>

theorem reachable_invariants:
  assumes "reachable d"
  shows "schema_ok d \<and> cpf_ok d \<and> ledger_ok d \<and> 0 < admin_count d"
  using reachable_app_inv [OF assms] by (simp add: app_inv_def)

text \<open>
  C40: every time the application stores is a well-formed \<open>'%H:%M:%S'\<close> string,
  so the exports' \<open>hora[:5]\<close> is always five characters \<open>HH:MM\<close>.
\<close>

theorem reachable_times_well_formed:
  assumes "reachable d"
  shows "list_all (\<lambda>p. hora_ok (hora p) \<and> length (take 5 (hora p)) = 5) (pontos d)"
  using reachable_app_inv [OF assms] by (auto simp: app_inv_def hora_ok_def list_all_iff)

text \<open>
  restarting the application on a database it produced is harmless:
  \<open>init_db\<close> finds the administrator and changes nothing.
\<close>

theorem reachable_restart_harmless:
  assumes "reachable d"
  shows "init_db d = Inr d"
  using reachable_app_inv [OF assms] by (simp add: app_inv_def init_db_def)
text \<open>
  C21: pressing the punch button until it refuses terminates: whatever the database
  (even one with duplicates from a race), at most four punches are recorded and the
  employee's day then holds all four types.
\<close>

theorem punch_until_done_terminates:
  assumes "perfil cu = Colaborador"
  shows "length (filter (\<lambda>a. a \<noteq> AllRecorded \<and> a \<noteq> PunchDenied) (fst (punch_until_done t obs cu d))) \<le> 4 \<and>
         set (day_tipos (snd (punch_until_done t obs cu d)) (uid cu) (strftime_dmy (get_brasilia_date t))) = UNIV"
  using punch_until_done_bounded [of t obs cu d] missing_count_le [of d "uid cu" "strftime_dmy (get_brasilia_date t)"]
    punch_until_done_complete [OF assms] by simp
end
