(* ===== verification/Concurrency.thy ===== *)
theory Concurrency
  imports App
begin

text \<open>
  Concurrent requests.  Flask serves requests in threads, each with its own sqlite3
  connection, and \<open>register_punch\<close> reads the day's punches before it inserts
  (\<open>src/routes.py\<close>, lines 203-228) with no transaction around the two and no UNIQUE
  constraint on \<open>pontos\<close> (\<open>src/database.py\<close>).  A concurrent state holds the
  database and the punch requests that have read but not yet written
  (\<open>pending\<close>, values of \<open>punch_request\<close>); \<open>conc_reachable\<close> interleaves
  sequential requests of any client (\<open>app_step\<close>), the read phase of a punch
  (\<open>punch_begin\<close>) and the write phase of any pending one (\<open>punch_commit\<close>).
  The lemmas show that the sequential machine is the special case without pending
  requests, that interleaving breaks the ledger invariant (duplicates), and what it
  cannot break: a day never records a type before the types that precede it.
\<close>

record conc_state =
  cdb :: db
  pending :: "punch_request list"
  pending_reg :: "reg_request list"

inductive conc_reachable :: "conc_state \<Rightarrow> bool" where
  start: "init_db empty_db = Inr d \<Longrightarrow> conc_reachable \<lparr>cdb = d, pending = [], pending_reg = []\<rparr>"
| seq_step: "conc_reachable c \<Longrightarrow> app_step t r (cdb c, s) = (a, (d', s')) \<Longrightarrow>
          conc_reachable (c\<lparr>cdb := d'\<rparr>)"
| read_step: "conc_reachable c \<Longrightarrow> current_user (cdb c) s = Some cu \<Longrightarrow>
          conc_reachable (c\<lparr>pending := punch_begin cu t t obs (cdb c) # pending c\<rparr>)"
| write_step: "conc_reachable c \<Longrightarrow> r \<in> set (pending c) \<Longrightarrow>
          conc_reachable (c\<lparr>cdb := snd (punch_commit r (cdb c)), pending := remove1 r (pending c)\<rparr>)"
| reg_read_step: "conc_reachable c \<Longrightarrow> current_user (cdb c) s = Some cu \<Longrightarrow>
          register_begin cu (Some f) (cdb c) = Inr q \<Longrightarrow>
          conc_reachable (c\<lparr>pending_reg := q # pending_reg c\<rparr>)"
| reg_write_step: "conc_reachable c \<Longrightarrow> q \<in> set (pending_reg c) \<Longrightarrow>
          conc_reachable (c\<lparr>cdb := snd (register_commit q (cdb c)), pending_reg := remove1 q (pending_reg c)\<rparr>)"

text \<open>
  A day is gap-free when every recorded type comes with all the types before it in
  the fixed order, duplicates allowed; a pending request is consistent with the
  database when the type it will write is recorded already or is the next one.
\<close>

definition gap_free :: "tipo list \<Rightarrow> bool" where
  "gap_free c \<longleftrightarrow> list_all (\<lambda>x. list_all (\<lambda>y. y \<in> set c) (takeWhile (\<lambda>y. y \<noteq> x) punch_types)) c"

definition order_ok :: "db \<Rightarrow> bool" where
  "order_ok d \<longleftrightarrow> list_all (\<lambda>p. gap_free (day_tipos d (usuario_id p) (data p))) (pontos d)"

definition pend_ok :: "db \<Rightarrow> punch_request \<Rightarrow> bool" where
  "pend_ok d r \<longleftrightarrow>
     (case req_next r of
        None \<Rightarrow> True
      | Some t \<Rightarrow> (let cur = day_tipos d (uid (req_user r)) (req_today r) in
                   t \<in> set cur \<or> next_punch cur = Some t))"

definition conc_inv :: "conc_state \<Rightarrow> bool" where
  "conc_inv c \<longleftrightarrow> order_ok (cdb c) \<and> list_all (pend_ok (cdb c)) (pending c)"

text \<open>The tables stay well formed: the UNIQUE constraints are checked at every insert.\<close>

definition conc_tables :: "conc_state \<Rightarrow> bool" where
  "conc_tables c \<longleftrightarrow>
     schema_ok (cdb c) \<and> cpf_ok (cdb c) \<and>
     list_all (\<lambda>q. length (rq_cpf q) = 11 \<and> list_all py_isdigit (rq_cpf q)) (pending_reg c)"

subsection \<open>Gap-free days\<close>

lemma gap_free_set: "set c = set c' \<Longrightarrow> gap_free c = gap_free c'"
  by (simp add: gap_free_def list_all_iff)

lemma gap_free_snoc:
  assumes "gap_free c" and "t \<in> set c \<or> next_punch c = Some t"
  shows "gap_free (c @ [t])"
proof -
  from assms(2) show ?thesis
  proof
    assume "t \<in> set c"
    then have "set (c @ [t]) = set c" by auto
    then show ?thesis using assms(1) gap_free_set by blast
  next
    assume n: "next_punch c = Some t"
    have "\<forall>y \<in> set (takeWhile (\<lambda>y. y \<noteq> t) punch_types). y \<in> set c"
      using first_missing_Some [of punch_types c t] n by (simp add: next_punch_def)
    then show ?thesis using assms(1) by (auto simp: gap_free_def list_all_iff)
  qed
qed

lemma gap_free_prefix: "prefix c punch_types \<Longrightarrow> gap_free c"
proof -
  assume p: "prefix c punch_types"
  then obtain zs where pt: "punch_types = c @ zs" by (auto simp: prefix_def)
  have "y \<in> set c" if "x \<in> set c" and "y \<in> set (takeWhile (\<lambda>y. y \<noteq> x) punch_types)" for x y
  proof -
    have "takeWhile (\<lambda>y. y \<noteq> x) punch_types = takeWhile (\<lambda>y. y \<noteq> x) c"
      using that(1) unfolding pt by (simp add: takeWhile_append1)
    then show ?thesis using that(2) by (auto dest: set_takeWhileD)
  qed
  then show ?thesis by (auto simp: gap_free_def list_all_iff)
qed

lemma order_ok_day:
  assumes "order_ok d" and "x \<in> set (day_tipos d u dt)"
  shows "gap_free (day_tipos d u dt)"
proof -
  obtain p where "p \<in> set (pontos d)" and "usuario_id p = u" and "data p = dt"
    using assms(2) by (auto simp: day_tipos_def)
  then show ?thesis using assms(1) by (auto simp: order_ok_def list_all_iff)
qed

lemma order_ok_iff: "order_ok d \<longleftrightarrow> (\<forall>u dt. gap_free (day_tipos d u dt))"
proof
  assume o: "order_ok d"
  show "\<forall>u dt. gap_free (day_tipos d u dt)"
  proof (intro allI)
    fix u dt
    show "gap_free (day_tipos d u dt)"
    proof (cases "day_tipos d u dt")
      case Nil
      then show ?thesis by (simp add: gap_free_def)
    next
      case (Cons x xs)
      then show ?thesis using order_ok_day [OF o, of x u dt] by simp
    qed
  qed
qed (simp add: order_ok_def list_all_iff)

lemma order_ok_same_pontos: "pontos d' = pontos d \<Longrightarrow> order_ok d' = order_ok d"
  by (simp add: order_ok_iff day_tipos_def)

lemma pend_ok_same_pontos:
  assumes "pontos d' = pontos d"
  shows "pend_ok d' r = pend_ok d r"
proof -
  have "day_tipos d' = day_tipos d"
    using assms by (intro ext) (simp add: day_tipos_def)
  then show ?thesis by (simp add: pend_ok_def split: option.split)
qed

subsection \<open>One insert\<close>

lemma order_ok_insert:
  assumes "order_ok d" and "t \<in> set (day_tipos d u dt) \<or> next_punch (day_tipos d u dt) = Some t"
  shows "order_ok (insert_ponto u dt t h obs d)"
  using assms gap_free_snoc [OF _ assms(2)] by (simp add: order_ok_iff day_tipos_insert_ponto)

lemma pend_ok_insert:
  assumes "pend_ok d r" and "t \<in> set (day_tipos d u dt) \<or> next_punch (day_tipos d u dt) = Some t"
  shows "pend_ok (insert_ponto u dt t h obs d) r"
proof (cases "req_next r")
  case None
  then show ?thesis by (simp add: pend_ok_def)
next
  case (Some x)
  let ?c = "day_tipos d (uid (req_user r)) (req_today r)"
  show ?thesis
  proof (cases "uid (req_user r) = u \<and> req_today r = dt")
    case False
    then show ?thesis using assms(1) Some by (auto simp: pend_ok_def day_tipos_insert_ponto)
  next
    case True
    have x: "x \<in> set ?c \<or> next_punch ?c = Some x" using assms(1) Some by (simp add: pend_ok_def Let_def)
    have t: "t \<in> set ?c \<or> next_punch ?c = Some t" using assms(2) True by simp
    have "x \<in> set (?c @ [t]) \<or> next_punch (?c @ [t]) = Some x"
    proof (cases "t \<in> set ?c")
      case True
      then have "next_punch (?c @ [t]) = next_punch ?c"
        by (intro next_punch_set_eq) auto
      then show ?thesis using x by auto
    next
      case False
      then have "next_punch ?c = Some t" using t by simp
      then show ?thesis using x by auto
    qed
    then show ?thesis using True Some by (simp add: pend_ok_def day_tipos_insert_ponto)
  qed
qed

subsection \<open>The steps keep the invariant\<close>

lemma punch_begin_pend_ok:
  "pend_ok d (punch_begin cu t_date t_time obs d)"
  by (auto simp: pend_ok_def punch_begin_def Let_def next_punch_today
      split: option.splits)

lemma conc_inv_commit:
  assumes "conc_inv c" and "r \<in> set (pending c)"
  shows "conc_inv (c\<lparr>cdb := snd (punch_commit r (cdb c)), pending := remove1 r (pending c)\<rparr>)"
proof -
  have o: "order_ok (cdb c)" and ps: "list_all (pend_ok (cdb c)) (pending c)"
    using assms(1) by (simp_all add: conc_inv_def)
  have pr: "pend_ok (cdb c) r" using ps assms(2) by (simp add: list_all_iff)
  have rest: "list_all (pend_ok (cdb c)) (remove1 r (pending c))"
    using ps by (simp add: list_all_iff) (meson set_remove1_subset subsetD)
  show ?thesis
  proof (cases "perfil (req_user r) \<noteq> Colaborador \<or> req_next r = None")
    case True
    then have "snd (punch_commit r (cdb c)) = cdb c" by (auto simp: punch_commit_def)
    then show ?thesis using o rest by (simp add: conc_inv_def)
  next
    case False
    then obtain t where t: "req_next r = Some t" and col: "perfil (req_user r) = Colaborador" by auto
    let ?u = "uid (req_user r)" and ?dt = "req_today r"
    have ok: "t \<in> set (day_tipos (cdb c) ?u ?dt) \<or> next_punch (day_tipos (cdb c) ?u ?dt) = Some t"
      using pr t by (simp add: pend_ok_def Let_def)
    have e: "snd (punch_commit r (cdb c)) = insert_ponto ?u ?dt t (req_now r) (req_obs r) (cdb c)"
      using t col by (simp add: punch_commit_def)
    have "list_all (pend_ok (insert_ponto ?u ?dt t (req_now r) (req_obs r) (cdb c))) (remove1 r (pending c))"
      using rest pend_ok_insert [OF _ ok] by (simp add: list_all_iff)
    then show ?thesis using order_ok_insert [OF o ok] by (simp add: conc_inv_def e)
  qed
qed

lemma conc_inv_register_punch:
  assumes "order_ok d" and "list_all (pend_ok d) ps"
  shows "order_ok (snd (register_punch cu t t obs d)) \<and> list_all (pend_ok (snd (register_punch cu t t obs d))) ps"
proof (cases "perfil cu = Colaborador")
  case False
  then show ?thesis using assms by (simp add: register_punch_def)
next
  case True
  let ?dt = "strftime_dmy (get_brasilia_date t)"
  show ?thesis
  proof (cases "next_punch (day_tipos d (uid cu) ?dt)")
    case None
    then show ?thesis using assms True by (simp add: register_punch_cases Let_def)
  next
    case (Some x)
    then have ok: "x \<in> set (day_tipos d (uid cu) ?dt) \<or> next_punch (day_tipos d (uid cu) ?dt) = Some x"
      by simp
    show ?thesis
      using True Some order_ok_insert [OF assms(1) ok] pend_ok_insert [OF _ ok] assms(2)
      by (simp add: register_punch_cases Let_def list_all_iff)
  qed
qed

lemma conc_inv_seq:
  assumes "conc_inv c" and "app_step t r (cdb c, s) = (a, (d', s'))"
  shows "conc_inv (c\<lparr>cdb := d'\<rparr>)"
proof -
  have o: "order_ok (cdb c)" and ps: "list_all (pend_ok (cdb c)) (pending c)"
    using assms(1) by (simp_all add: conc_inv_def)
  from app_step_db [OF assms(2)] show ?thesis
  proof (elim disjE exE)
    assume "d' = cdb c"
    then show ?thesis using assms(1) by (simp add: conc_inv_def)
  next
    fix cu f
    assume e: "d' = snd (register_employee cu f (cdb c))"
    then have p: "pontos d' = pontos (cdb c)" by (simp add: register_employee_pontos)
    have "order_ok d'" using o order_ok_same_pontos [OF p] by simp
    moreover have "list_all (pend_ok d') (pending c)"
      using ps pend_ok_same_pontos [OF p] by (simp add: list_all_iff)
    ultimately show ?thesis by (simp add: conc_inv_def)
  next
    fix cu obs
    assume "d' = snd (register_punch cu t t obs (cdb c))"
    then show ?thesis using conc_inv_register_punch [OF o ps] by (simp add: conc_inv_def)
  qed
qed

lemma conc_inv_reg_commit:
  assumes "conc_inv c"
  shows "conc_inv (c\<lparr>cdb := snd (register_commit q (cdb c)), pending_reg := remove1 q (pending_reg c)\<rparr>)"
proof -
  have p: "pontos (snd (register_commit q (cdb c))) = pontos (cdb c)" by (rule register_commit_pontos)
  have "order_ok (snd (register_commit q (cdb c)))"
    using assms order_ok_same_pontos [OF p] by (simp add: conc_inv_def)
  moreover have "list_all (pend_ok (snd (register_commit q (cdb c)))) (pending c)"
    using assms pend_ok_same_pontos [OF p] by (simp add: conc_inv_def list_all_iff)
  ultimately show ?thesis by (simp add: conc_inv_def)
qed

lemma conc_inv_init: "init_db empty_db = Inr d \<Longrightarrow> conc_inv \<lparr>cdb = d, pending = [], pending_reg = []\<rparr>"
  by (auto simp: init_db_def empty_db_def insert_usuario_def admin_count_def conc_inv_def order_ok_def)

lemma conc_reachable_inv: "conc_reachable c \<Longrightarrow> conc_inv c"
proof (induction rule: conc_reachable.induct)
  case (start d)
  then show ?case by (rule conc_inv_init)
next
  case (seq_step c t r s a d' s')
  from seq_step.IH seq_step.hyps(2) show ?case by (rule conc_inv_seq)
next
  case (read_step c s cu t obs)
  then show ?case by (simp add: conc_inv_def punch_begin_pend_ok)
next
  case (write_step c r)
  from write_step.IH write_step.hyps(2) show ?case by (rule conc_inv_commit)
next
  case (reg_read_step c s cu f q)
  then show ?case by (simp add: conc_inv_def)
next
  case (reg_write_step c q)
  from reg_write_step.IH show ?case by (rule conc_inv_reg_commit)
qed

subsection \<open>Well-formed tables\<close>

lemma tables_insert_ponto:
  "schema_ok d \<and> cpf_ok d \<Longrightarrow> schema_ok (insert_ponto u dt t h obs d) \<and> cpf_ok (insert_ponto u dt t h obs d)"
  by (simp add: insert_ponto_schema_ok cpf_ok_def)

lemma tables_punch_commit:
  "schema_ok d \<and> cpf_ok d \<Longrightarrow> schema_ok (snd (punch_commit r d)) \<and> cpf_ok (snd (punch_commit r d))"
  by (auto simp: punch_commit_def tables_insert_ponto split: option.split)

lemma tables_app_step:
  assumes "schema_ok d \<and> cpf_ok d" and "app_step t r (d, s) = (a, (d', s'))"
  shows "schema_ok d' \<and> cpf_ok d'"
  using app_step_db [OF assms(2)]
proof (elim disjE exE)
  fix cu obs
  assume "d' = snd (register_punch cu t t obs d)"
  then show ?thesis using register_punch_db_cases [of cu t obs d] assms(1) tables_insert_ponto by auto
qed (use assms(1) register_employee_invariants in auto)

lemma conc_tables_inv: "conc_reachable c \<Longrightarrow> conc_tables c"
proof (induction rule: conc_reachable.induct)
  case (start d)
  have "app_inv d" using start by (rule app_inv_init)
  then show ?case by (simp add: conc_tables_def app_inv_def)
next
  case (seq_step c t r s a d' s')
  then show ?case using tables_app_step [of "cdb c" t r s a d' s'] by (simp add: conc_tables_def)
next
  case (read_step c s cu t obs)
  then show ?case by (simp add: conc_tables_def)
next
  case (write_step c r)
  then show ?case using tables_punch_commit [of "cdb c" r] by (simp add: conc_tables_def)
next
  case (reg_read_step c s cu f q)
  then show ?case using register_begin_cpf [OF reg_read_step.hyps(3)] by (simp add: conc_tables_def)
next
  case (reg_write_step c q)
  then have "length (rq_cpf q) = 11 \<and> list_all py_isdigit (rq_cpf q)"
    by (auto simp: conc_tables_def list_all_iff)
  then show ?case using reg_write_step register_commit_invariants [of "cdb c" q]
    by (auto simp: conc_tables_def list_all_iff dest: set_remove1_subset [THEN subsetD])
qed

subsection \<open>Properties of the concurrent application\<close>

text \<open>
  C6: under any interleaving of requests and of the two phases of concurrent punches,
  a day of an employee that records a type also records every type before it in
  the order entry, lunch out, lunch in, exit: the race duplicates punches but
  never skips one.
\<close>

theorem conc_days_gap_free:
  assumes "conc_reachable c" and "x \<in> set (day_tipos (cdb c) u dt)"
    and "y \<in> set (takeWhile (\<lambda>z. z \<noteq> x) punch_types)"
  shows "y \<in> set (day_tipos (cdb c) u dt)"
proof -
  have "order_ok (cdb c)" using conc_reachable_inv [OF assms(1)] by (simp add: conc_inv_def)
  then have "gap_free (day_tipos (cdb c) u dt)" using assms(2) by (rule order_ok_day)
  then show ?thesis using assms(2,3) by (auto simp: gap_free_def list_all_iff)
qed



text \<open>
  C8: however requests interleave, including two registrations that both pass the
  duplicate pre-check before either inserts, the tables stay well formed: ids, CPFs and
  logins are unique and every CPF has eleven digits, because SQLite checks the UNIQUE
  constraints at the insert itself.
\<close>

theorem conc_tables_well_formed:
  "conc_reachable c \<Longrightarrow> schema_ok (cdb c) \<and> cpf_ok (cdb c)"
  using conc_tables_inv by (simp add: conc_tables_def)

end
