(* ===== verification/Adapters.thy ===== *)
theory Adapters
  imports Exports
begin

text \<open>
  The export adapters of \<open>src/routes.py\<close> (\<open>export_csv\<close>, \<open>export_excel\<close>,
  \<open>export_pdf_history\<close>, \<open>export_pdf_report\<close>, \<open>export_detailed_excel\<close>,
  \<open>export_detailed_pdf\<close>) and the data frames the export routes hand them.  A
  frame (\<open>frame\<close>) is the column names and the rows of cells of
  \<open>pd.DataFrame(list_of_dicts)\<close>, with pandas' typing of a numeric column holding a
  float as float (\<open>pd_dataframe\<close>); \<open>str\<close> of a cell is \<open>cell_str\<close> (floats are the
  one-decimal values of \<open>round(x, 1)\<close>, printed as Python's \<open>repr\<close> prints them).
  \<open>to_csv\<close> is \<open>DataFrame.to_csv(index=False)\<close>: the csv module's writer with
  minimal quoting, doubled quotes and line-feed line ends; \<open>csv_read\<close> is the
  RFC 4180 reader used to state the round trip.  The workbook is modelled as its
  sheet name, its frame and the column widths the code sets (\<open>col_width\<close>, the
  loop over \<open>worksheet.columns\<close>); a PDF as its story of flowables (titles,
  paragraphs, spacers, tables with their style).  The bytes of the xlsx and PDF
  files are library output and are not modelled.
\<close>

subsection \<open>CSV\<close>

abbreviation quote_char :: char where "quote_char \<equiv> CHR 0x22"
abbreviation newline_char :: char where "newline_char \<equiv> CHR 0x0A"

definition csv_special :: "char \<Rightarrow> bool" where
  "csv_special c \<longleftrightarrow> c = CHR '','' \<or> c = quote_char \<or> c = newline_char \<or> c = CHR 0x0D"

fun csv_escape :: "string \<Rightarrow> string" where
  "csv_escape [] = []"
| "csv_escape (c # cs) = (if c = quote_char then [c, c] else [c]) @ csv_escape cs"

definition csv_field :: "string \<Rightarrow> string" where
  "csv_field s = (if list_ex csv_special s then quote_char # csv_escape s @ [quote_char] else s)"

definition csv_record :: "string list \<Rightarrow> string" where
  "csv_record fs =
     (if fs = [[]] then [quote_char, quote_char] else join_sep CHR '','' (map csv_field fs))
     @ [newline_char]"

text \<open>The reader, RFC 4180: the decoder the export is read back with.\<close>

fun unquoted :: "string \<Rightarrow> string \<times> string" where
  "unquoted [] = ([], [])"
| "unquoted (c # cs) =
     (if c = CHR '','' \<or> c = newline_char then ([], c # cs) else apfst (Cons c) (unquoted cs))"

fun quoted :: "string \<Rightarrow> string \<times> string" where
  "quoted [] = ([], [])"
| "quoted [c] = (if c = quote_char then ([], []) else ([c], []))"
| "quoted (c # d # cs) =
     (if c = quote_char then (if d = quote_char then apfst (Cons quote_char) (quoted cs) else ([], d # cs))
      else apfst (Cons c) (quoted (d # cs)))"

definition read_field :: "string \<Rightarrow> string \<times> string" where
  "read_field s = (case s of c # cs \<Rightarrow> if c = quote_char then quoted cs else unquoted s | [] \<Rightarrow> ([], []))"

lemma unquoted_length: "length (snd (unquoted s)) \<le> length s"
  by (induction s) (auto simp: apfst_def map_prod_def split: prod.split)

lemma quoted_length: "length (snd (quoted s)) \<le> length s"
  by (induction s rule: quoted.induct) (auto simp: apfst_def map_prod_def split: prod.split)

lemma read_field_length: "length (snd (read_field s)) \<le> length s"
proof (cases s)
  case Nil
  then show ?thesis by (simp add: read_field_def)
next
  case (Cons c cs)
  have "length (snd (quoted cs)) \<le> length s" using quoted_length [of cs] Cons by simp
  then show ?thesis using unquoted_length [of s] Cons by (simp add: read_field_def)
qed

lemma read_field_shorter: "(f, r) = read_field s \<Longrightarrow> length r \<le> length s"
  using read_field_length [of s] by (metis snd_conv)

function read_fields :: "string \<Rightarrow> string list \<times> string" where
  "read_fields s =
     (case read_field s of
        (f, c # r) \<Rightarrow> if c = CHR '','' then apfst (Cons f) (read_fields r) else ([f], r)
      | (f, []) \<Rightarrow> ([f], []))"
  by pat_completeness auto
termination
  by (relation "measure length") (auto dest: read_field_shorter)

declare read_fields.simps [simp del]


lemma read_fields_length: "s \<noteq> [] \<Longrightarrow> length (snd (read_fields s)) < length s"
proof (induction s rule: read_fields.induct)
  case (1 s)
  show ?case
  proof (cases "read_field s")
    case (Pair f r)
    show ?thesis
    proof (cases r)
      case Nil
      then show ?thesis using Pair 1(2) by (subst read_fields.simps) simp
    next
      case (Cons c r')
      have "length r' < length s" using read_field_length [of s] Pair Cons by simp
      moreover have "length (snd (read_fields r')) \<le> length r'" if "c = CHR '',''"
        using 1(1) [OF Pair [symmetric] Cons that] by (cases "r' = []") (auto simp: read_fields.simps read_field_def)
      ultimately show ?thesis using Pair Cons by (subst read_fields.simps) (auto simp: apfst_def map_prod_def split: prod.split)
    qed
  qed
qed

lemma read_fields_shorter: "(fs, r) = read_fields s \<Longrightarrow> s \<noteq> [] \<Longrightarrow> length r < length s"
  using read_fields_length [of s] by (metis snd_conv)

function csv_read :: "string \<Rightarrow> string list list" where
  "csv_read s = (if s = [] then [] else (case read_fields s of (fs, r) \<Rightarrow> fs # csv_read r))"
  by pat_completeness auto
termination
  by (relation "measure length") (auto dest: read_fields_shorter)

declare csv_read.simps [simp del]

subsection \<open>Round trip\<close>

lemma unquoted_append:
  assumes "\<not> list_ex csv_special s" and "rest = [] \<or> hd rest = CHR '','' \<or> hd rest = newline_char"
  shows "unquoted (s @ rest) = (s, rest)"
  using assms
proof (induction s)
  case Nil
  then show ?case by (cases rest) auto
qed (auto simp: csv_special_def)

lemma quoted_escape:
  assumes "rest = [] \<or> hd rest \<noteq> quote_char"
  shows "quoted (csv_escape s @ quote_char # rest) = (s, rest)"
  using assms
proof (induction s)
  case Nil
  then show ?case by (cases rest) auto
next
  case (Cons c s)
  then show ?case
    by (cases "csv_escape s @ quote_char # rest") auto
qed

lemma read_field_csv_field:
  assumes "rest = [] \<or> hd rest = CHR '','' \<or> hd rest = newline_char"
  shows "read_field (csv_field s @ rest) = (s, rest)"
proof (cases "list_ex csv_special s")
  case True
  have "rest = [] \<or> hd rest \<noteq> quote_char" using assms by auto
  then show ?thesis using True by (simp add: csv_field_def read_field_def quoted_escape)
next
  case False
  show ?thesis
  proof (cases s)
    case Nil
    then show ?thesis using assms by (cases rest) (auto simp: csv_field_def read_field_def)
  next
    case (Cons c cs)
    then have "c \<noteq> quote_char" using False by (simp add: csv_special_def)
    then show ?thesis using False Cons unquoted_append [OF False assms]
      by (simp add: csv_field_def read_field_def)
  qed
qed

lemma read_fields_intersperse:
  "fs \<noteq> [] \<Longrightarrow> read_fields (join_sep CHR '','' (map csv_field fs) @ newline_char # rest) = (fs, rest)"
proof (induction fs)
  case Nil
  then show ?case by simp
next
  case (Cons f fs)
  show ?case
  proof (cases fs)
    case Nil
    then show ?thesis
      by (subst read_fields.simps) (simp add: read_field_csv_field)
  next
    case (Cons g gs)
    then have "read_field (csv_field f @ CHR '','' # join_sep CHR '','' (map csv_field fs) @ newline_char # rest) =
                 (f, CHR '','' # join_sep CHR '','' (map csv_field fs) @ newline_char # rest)"
      by (intro read_field_csv_field) simp
    then show ?thesis using Cons.IH Cons
      by (subst read_fields.simps) simp
  qed
qed

lemma read_fields_csv_record:
  "fs \<noteq> [] \<Longrightarrow> read_fields (csv_record fs @ rest) = (fs, rest)"
proof (cases "fs = [[]]")
  case True
  then show ?thesis
    by (subst read_fields.simps) (simp add: csv_record_def read_field_def)
next
  case False
  assume "fs \<noteq> []"
  then show ?thesis using False read_fields_intersperse by (simp add: csv_record_def)
qed

lemma csv_read_records:
  "list_all (\<lambda>r. r \<noteq> []) rs \<Longrightarrow> csv_read (concat (map csv_record rs)) = rs"
proof (induction rs)
  case Nil
  then show ?case by (simp add: csv_read.simps)
next
  case (Cons r rs)
  have "csv_record r \<noteq> []" by (simp add: csv_record_def)
  then show ?case using Cons read_fields_csv_record [of r "concat (map csv_record rs)"]
    by (subst csv_read.simps) simp
qed


subsection \<open>Frames\<close>

datatype cell = TextCell string | IntCell nat | FloatCell rat

definition py_float_repr1 :: "rat \<Rightarrow> string" where
  "py_float_repr1 q = (let k = nat (round (q * 10)) in digits_of (k div 10) @ ''.'' @ [digit_char (k mod 10)])"

fun cell_str :: "cell \<Rightarrow> string" where
  "cell_str (TextCell s) = s"
| "cell_str (IntCell n) = digits_of n"
| "cell_str (FloatCell q) = py_float_repr1 q"

fun is_float :: "cell \<Rightarrow> bool" where
  "is_float (FloatCell _) = True"
| "is_float _ = False"

fun is_text :: "cell \<Rightarrow> bool" where
  "is_text (TextCell _) = True"
| "is_text _ = False"

fun to_float :: "cell \<Rightarrow> cell" where
  "to_float (IntCell n) = FloatCell (of_nat n)"
| "to_float c = c"

record frame =
  df_columns :: "string list"
  df_rows :: "cell list list"

definition float_column :: "cell list list \<Rightarrow> nat \<Rightarrow> bool" where
  "float_column rows j \<longleftrightarrow>
     list_ex (\<lambda>r. j < length r \<and> is_float (r ! j)) rows \<and>
     list_all (\<lambda>r. j < length r \<longrightarrow> \<not> is_text (r ! j)) rows"

definition pd_dataframe :: "string list \<Rightarrow> cell list list \<Rightarrow> frame" where
  "pd_dataframe cols rows =
     (if rows = [] then \<lparr>df_columns = [], df_rows = []\<rparr>
      else \<lparr>df_columns = cols,
            df_rows = map (\<lambda>r. map (\<lambda>(j, c). if float_column rows j then to_float c else c)
                                   (zip [0..<length r] r)) rows\<rparr>)"

definition to_csv :: "frame \<Rightarrow> string" where
  "to_csv f = csv_record (df_columns f) @ concat (map (csv_record \<circ> map cell_str) (df_rows f))"

definition frame_text :: "frame \<Rightarrow> string list list" where
  "frame_text f = df_columns f # map (map cell_str) (df_rows f)"

subsection \<open>Column widths of the workbooks\<close>

definition col_width :: "string list \<Rightarrow> nat" where
  "col_width column =
     (let max_length = foldl (\<lambda>m v. if m < length v then length v else m) 0 column
      in min (max_length + 2) 50)"

definition column_widths :: "frame \<Rightarrow> nat list" where
  "column_widths f = map col_width (transpose (frame_text f))"

lemma foldl_max_length:
  "foldl (\<lambda>m v. if m < length v then length v else m) m0 vs = Max (insert m0 (length ` set vs))"
proof (induction vs arbitrary: m0)
  case Nil
  then show ?case by simp
next
  case (Cons a vs)
  have "foldl (\<lambda>m v. if m < length v then length v else m) m0 (a # vs) =
          foldl (\<lambda>m v. if m < length v then length v else m) (max m0 (length a)) vs"
    by (simp add: max_def)
  also have "\<dots> = Max (insert (max m0 (length a)) (length ` set vs))" by (rule Cons.IH)
  also have "\<dots> = Max (insert m0 (length ` set (a # vs)))"
    by (cases "vs = []") (simp_all add: max.assoc)
  finally show ?case .
qed

lemma col_width_Max: "col_width vs = min (Max (insert 0 (length ` set vs)) + 2) 50"
  by (simp add: col_width_def foldl_max_length)

lemma col_width_fits: "v \<in> set vs \<Longrightarrow> min (length v + 2) 50 \<le> col_width vs"
proof -
  assume "v \<in> set vs"
  then have "length v \<le> Max (insert 0 (length ` set vs))" by (simp add: Max_ge)
  then show ?thesis by (simp add: col_width_Max)
qed

subsection \<open>Frames of the exports\<close>

lemma pd_dataframe_text:
  assumes "rows \<noteq> []" and "list_all (list_all is_text) rows"
  shows "pd_dataframe cols rows = \<lparr>df_columns = cols, df_rows = rows\<rparr>"
proof -
  have "\<not> float_column rows j" for j
    using assms(1,2) by (auto simp: float_column_def list_ex_iff list_all_iff neq_Nil_conv)
  then have "map (\<lambda>(j, c). if float_column rows j then to_float c else c) (zip [0..<length r] r) = r" for r
    by (simp add: case_prod_unfold)
  then show ?thesis using assms(1) by (simp add: pd_dataframe_def)
qed

lemma csv_read_to_csv:
  assumes "df_columns f \<noteq> []" and "list_all (\<lambda>r. r \<noteq> []) (df_rows f)"
  shows "csv_read (to_csv f) = frame_text f"
proof -
  have "to_csv f = concat (map csv_record (frame_text f))"
    by (simp add: to_csv_def frame_text_def comp_def)
  moreover have "list_all (\<lambda>r. r \<noteq> []) (frame_text f)"
    using assms by (simp add: frame_text_def list_all_iff)
  ultimately show ?thesis by (simp add: csv_read_records)
qed


subsection \<open>Documents and responses\<close>

datatype table_style = GreenHeader nat | BlueHeader

datatype flowable =
    Title string
  | Para string
  | Heading2 string
  | Spacer nat
  | TableF "string list list" table_style

datatype document =
    CsvText string
  | Workbook string frame "nat list"
  | PdfStory "flowable list"

record attachment =
  att_disposition :: string
  att_content_type :: string
  att_body :: document

definition attachment_of :: "string \<Rightarrow> string \<Rightarrow> document \<Rightarrow> attachment" where
  "attachment_of filename ctype body =
     \<lparr>att_disposition = ''attachment; filename='' @ filename, att_content_type = ctype, att_body = body\<rparr>"

definition xlsx_type :: string where
  "xlsx_type = ''application/vnd.openxmlformats-officedocument.spreadsheetml.sheet''"

definition export_csv :: "frame \<Rightarrow> string \<Rightarrow> attachment" where
  "export_csv df filename = attachment_of filename ''text/csv; charset=utf-8'' (CsvText (to_csv df))"

definition export_excel :: "frame \<Rightarrow> string \<Rightarrow> attachment" where
  "export_excel df filename = attachment_of filename xlsx_type (Workbook ''Dados'' df (column_widths df))"

definition export_pdf_history :: "frame \<Rightarrow> string \<Rightarrow> attachment" where
  "export_pdf_history df filename =
     attachment_of filename ''application/pdf''
       (PdfStory [Title (''Hist'' @ [CHR 0xF3] @ ''rico de Pontos''), Spacer 12,
                  TableF (frame_text df) (GreenHeader 10)])"

definition periodo :: "sql_text \<Rightarrow> sql_text \<Rightarrow> string" where
  "periodo start_date end_date = ''Per'' @ [CHR 0xED] @ ''odo: '' @ start_date @ '' a '' @ end_date"

definition export_pdf_report :: "frame \<Rightarrow> string \<Rightarrow> sql_text \<Rightarrow> sql_text \<Rightarrow> attachment" where
  "export_pdf_report df filename start_date end_date =
     attachment_of filename ''application/pdf''
       (PdfStory [Title (''Relat'' @ [CHR 0xF3] @ ''rio de Frequ'' @ [CHR 0xEA] @ ''ncia''), Spacer 12,
                  Para (periodo start_date end_date), Spacer 12,
                  TableF (frame_text df) (GreenHeader 9)])"

definition col_funcionario :: string where "col_funcionario = ''Funcion'' @ [CHR 0xE1] @ ''rio''"
definition col_funcao :: string where "col_funcao = ''Fun'' @ [CHR 0xE7, CHR 0xE3] @ ''o''"
definition col_horario :: string where "col_horario = ''Hor'' @ [CHR 0xE1] @ ''rio''"
definition col_observacao :: string where "col_observacao = ''Observa'' @ [CHR 0xE7, CHR 0xE3] @ ''o''"

definition relatorio_detalhado :: string where
  "relatorio_detalhado = ''Relat'' @ [CHR 0xF3] @ ''rio Detalhado''"

definition detailed_columns :: "string list" where
  "detailed_columns = [''Data'', col_funcionario, col_funcao, ''Tipo de Ponto'', col_horario, col_observacao]"

definition export_detailed_excel :: "detail_export_row list \<Rightarrow> string \<Rightarrow> attachment" where
  "export_detailed_excel excel_data filename =
     (let df = pd_dataframe detailed_columns
                 (map (\<lambda>r. map TextCell [dx_data r, dx_funcionario r, dx_funcao r, dx_tipo r,
                                         dx_horario r, dx_observacao r]) excel_data)
      in attachment_of filename xlsx_type (Workbook relatorio_detalhado df (column_widths df)))"

definition date_section :: "sql_text \<times> (sql_text \<times> sql_text \<times> sql_text) list \<Rightarrow> flowable list" where
  "date_section g =
     (case g of (formatted_date, punches) \<Rightarrow>
        [Heading2 (''<b>'' @ formatted_date @ ''</b>''), Spacer 6,
         TableF ([''Tipo de Ponto'', col_horario, col_observacao] # map (\<lambda>(a, b, c). [a, b, c]) punches) BlueHeader,
         Spacer 15])"

definition export_detailed_pdf ::
  "(sql_text \<times> (sql_text \<times> sql_text \<times> sql_text) list) list \<Rightarrow> string \<Rightarrow> sql_text \<Rightarrow> sql_text \<Rightarrow> sql_text \<Rightarrow>
   attachment" where
  "export_detailed_pdf tables filename employee_name start_date end_date =
     attachment_of filename ''application/pdf''
       (PdfStory ([Title (relatorio_detalhado @ '' - '' @ employee_name), Spacer 12,
                   Para (periodo start_date end_date), Spacer 20] @ concat (map date_section tables)))"

subsection \<open>The frames the routes build\<close>

definition history_columns :: "string list" where
  "history_columns = [''Data'', col_funcionario, ''Tipo de Ponto'', col_horario, col_observacao]"

definition export_fields :: "export_row \<Rightarrow> string list" where
  "export_fields r = [ex_data r, ex_funcionario r, ex_tipo r, ex_horario r, ex_observacao r]"

definition history_frame :: "export_row list \<Rightarrow> frame" where
  "history_frame rows = pd_dataframe history_columns (map (map TextCell \<circ> export_fields) rows)"

definition summary_columns :: "string list" where
  "summary_columns = [col_funcionario, col_funcao, ''Dias Trabalhados'', ''Dias com Registro'',
                      ''Total de Pontos'', ''Frequ'' @ [CHR 0xEA] @ ''ncia (%)'']"

definition summary_cells :: "freq_row \<Rightarrow> cell list" where
  "summary_cells r =
     [TextCell (fr_nome r), TextCell (fr_funcao r), IntCell (fr_dias_trabalhados r),
      IntCell (fr_dias_com_registro r), IntCell (fr_total_pontos r),
      (if 0 < fr_dias_trabalhados r then FloatCell (fr_frequencia r) else IntCell 0)]"

definition summary_frame :: "freq_row list \<Rightarrow> frame" where
  "summary_frame rows = pd_dataframe summary_columns (map summary_cells rows)"

subsection \<open>The export routes with their serialisers\<close>

definition history_download :: "export_response \<Rightarrow> attachment option" where
  "history_download r =
     (case r of
        ExportFile Csv filename rows \<Rightarrow> Some (export_csv (history_frame rows) filename)
      | ExportFile Excel filename rows \<Rightarrow> Some (export_excel (history_frame rows) filename)
      | ExportFile Pdf filename rows \<Rightarrow> Some (export_pdf_history (history_frame rows) filename)
      | _ \<Rightarrow> None)"

definition reports_download :: "report_export_response \<Rightarrow> attachment option" where
  "reports_download r =
     (case r of
        RExportSummary Csv filename _ rows \<Rightarrow> Some (export_csv (summary_frame rows) filename)
      | RExportSummary Excel filename _ rows \<Rightarrow> Some (export_excel (summary_frame rows) filename)
      | RExportSummary Pdf filename (s, e) rows \<Rightarrow> Some (export_pdf_report (summary_frame rows) filename s e)
      | RExportDetailed _ filename _ (DetailedExcel rows) \<Rightarrow> Some (export_detailed_excel rows filename)
      | RExportDetailed _ filename (s, e) (DetailedPdf name tables) \<Rightarrow>
          Some (export_detailed_pdf tables filename name s e)
      | _ \<Rightarrow> None)"


subsection \<open>Properties of the serialisers\<close>

lemma export_history_rows_ne:
  "export_history cu fmt eid d = ExportFile f filename rows \<Longrightarrow> rows \<noteq> []"
  by (auto simp: export_history_def Let_def split: if_splits option.splits prod.splits)

lemma history_frame_text:
  "rows \<noteq> [] \<Longrightarrow> history_frame rows = \<lparr>df_columns = history_columns, df_rows = map (map TextCell \<circ> export_fields) rows\<rparr>"
  unfolding history_frame_def by (rule pd_dataframe_text) (auto simp: list_all_iff export_fields_def)

text \<open>
  C10: the CSV file of the history export decodes, field by field, to the header and
  the rows the handler selected: notes with commas, quotes or line breaks survive
  the quoting of the CSV writer.
\<close>

theorem export_history_csv_roundtrip:
  assumes "export_history cu fmt eid d = ExportFile Csv filename rows"
  shows "\<exists>s. history_download (export_history cu fmt eid d) =
               Some (attachment_of filename ''text/csv; charset=utf-8'' (CsvText s)) \<and>
             csv_read s = history_columns # map export_fields rows"
proof -
  let ?f = "history_frame rows"
  have f: "?f = \<lparr>df_columns = history_columns, df_rows = map (map TextCell \<circ> export_fields) rows\<rparr>"
    using history_frame_text [OF export_history_rows_ne [OF assms]] .
  have "csv_read (to_csv ?f) = frame_text ?f"
    by (rule csv_read_to_csv) (simp_all add: f history_columns_def list_all_iff export_fields_def)
  also have "\<dots> = history_columns # map export_fields rows"
    by (simp add: f frame_text_def comp_def map_idI)
  finally have "csv_read (to_csv ?f) = history_columns # map export_fields rows" .
  then show ?thesis using assms
    by (intro exI [of _ "to_csv ?f"]) (simp add: history_download_def export_csv_def)
qed

text \<open>
  C11: the column-width loop of \<open>export_excel\<close> and \<open>export_detailed_excel\<close> computes, for
  every column, two more than the length of its longest text, header included, capped
  at 50.
\<close>

theorem column_widths_reference:
  "column_widths df = map (\<lambda>col. min (Max (insert 0 (length ` set col)) + 2) 50) (transpose (frame_text df))"
  by (simp add: column_widths_def col_width_Max)

lemma float_column_summary:
  assumes "rows \<noteq> []"
  shows "float_column (map summary_cells rows) 5 \<longleftrightarrow> list_ex (\<lambda>r. 0 < fr_dias_trabalhados r) rows"
  by (auto simp: float_column_def summary_cells_def list_ex_iff list_all_iff)

lemma py_float_repr1_zero: "py_float_repr1 0 = ''0.0''"
  by (simp add: py_float_repr1_def digits_of_small digit_char_def)

text \<open>
  C12: pandas types the frequency column as float as soon as one employee of the export
  has worked a day, so an employee with no day is written \<open>0.0\<close> in that case and
  \<open>0\<close> when nobody has worked.
\<close>

theorem summary_zero_rendering:
  assumes "i < length rows" and "fr_dias_trabalhados (rows ! i) = 0"
  shows "cell_str (df_rows (summary_frame rows) ! i ! 5) =
           (if list_ex (\<lambda>r. 0 < fr_dias_trabalhados r) rows then ''0.0'' else ''0'')"
proof -
  have ne: "rows \<noteq> []" using assms(1) by auto
  have "df_rows (summary_frame rows) ! i ! 5 =
          (if float_column (map summary_cells rows) 5 then to_float (IntCell 0) else IntCell 0)"
    using assms ne by (simp add: summary_frame_def pd_dataframe_def summary_cells_def numeral_eq_Suc)
  then show ?thesis
    using float_column_summary [OF ne]
    by (simp add: py_float_repr1_zero digits_of_small digit_char_def numeral_eq_Suc)
qed

end
