(* ===== verification/Connection.thy ===== *)
theory Connection
  imports Prelude "HOL-Library.State_Monad"
begin

text \<open>
  The database connection of \<open>src/database.py\<close>: \<open>get_db\<close> opens one sqlite3
  connection per application context and caches it in \<open>flask.g\<close>; \<open>close_db\<close>
  pops it from \<open>g\<close> and closes it; \<open>close_db_handler\<close>, registered with
  \<open>teardown_appcontext\<close>, closes it when the context ends.  The state of a context
  is the cached connection \<open>g_db\<close>, the list of live connections of the process and
  the next handle \<open>sqlite3.connect\<close> returns; the operations are actions of
  HOL-Library's state monad.  A request runs in a fresh context (\<open>in_app_context\<close>,
  Flask's push and teardown) and calls \<open>get_db\<close> any number of times (the route, and
  \<open>User.get\<close>, \<open>User.get_by_login\<close>, \<open>User.check_password\<close> each call it).
\<close>

type_synonym conn = nat

record ctx_state =
  g_db :: "conn option"
  live :: "conn list"
  next_conn :: conn

definition sqlite_connect :: "(ctx_state, conn) state" where
  "sqlite_connect = do {
     s \<leftarrow> State_Monad.get;
     State_Monad.set (s\<lparr>live := next_conn s # live s, next_conn := Suc (next_conn s)\<rparr>);
     State_Monad.return (next_conn s)
   }"

definition sqlite_close :: "conn \<Rightarrow> (ctx_state, unit) state" where
  "sqlite_close c = State_Monad.update (\<lambda>s. s\<lparr>live := remove1 c (live s)\<rparr>)"

definition get_db :: "(ctx_state, conn) state" where
  "get_db = do {
     s \<leftarrow> State_Monad.get;
     (case g_db s of
        None \<Rightarrow> do {
          c \<leftarrow> sqlite_connect;
          State_Monad.update (\<lambda>s. s\<lparr>g_db := Some c\<rparr>);
          State_Monad.return c
        }
      | Some c \<Rightarrow> State_Monad.return c)
   }"

definition close_db :: "(ctx_state, unit) state" where
  "close_db = do {
     s \<leftarrow> State_Monad.get;
     State_Monad.set (s\<lparr>g_db := None\<rparr>);
     (case g_db s of None \<Rightarrow> State_Monad.return () | Some c \<Rightarrow> sqlite_close c)
   }"

definition close_db_handler :: "string option \<Rightarrow> (ctx_state, unit) state" where
  "close_db_handler error = close_db"

definition in_app_context :: "(ctx_state, 'a) state \<Rightarrow> (ctx_state, 'a) state" where
  "in_app_context h = do {
     State_Monad.update (\<lambda>s. s\<lparr>g_db := None\<rparr>);
     x \<leftarrow> h;
     close_db_handler None;
     State_Monad.return x
   }"

primrec get_db_times :: "nat \<Rightarrow> (ctx_state, conn list) state" where
  "get_db_times 0 = State_Monad.return []"
| "get_db_times (Suc n) = do { c \<leftarrow> get_db; cs \<leftarrow> get_db_times n; State_Monad.return (c # cs) }"

definition serve_requests :: "nat list \<Rightarrow> (ctx_state, conn list list) state" where
  "serve_requests ns = State_Monad.traverse_list (\<lambda>n. in_app_context (get_db_times n)) ns"

subsection \<open>The operations\<close>

lemma get_db_cached: "g_db s = Some c \<Longrightarrow> run_state get_db s = (c, s)"
  by (simp add: get_db_def)

lemma get_db_fresh:
  "g_db s = None \<Longrightarrow>
   run_state get_db s =
     (next_conn s, s\<lparr>g_db := Some (next_conn s), live := next_conn s # live s, next_conn := Suc (next_conn s)\<rparr>)"
  by (simp add: get_db_def sqlite_connect_def)

lemma close_db_none: "g_db s = None \<Longrightarrow> run_state close_db s = ((), s)"
  by (simp add: close_db_def)

lemma get_db_times_cached:
  "g_db s = Some c \<Longrightarrow> run_state (get_db_times n) s = (replicate n c, s)"
  by (induction n) (simp_all add: get_db_cached)


lemma close_db_some:
  "g_db s = Some c \<Longrightarrow> run_state close_db s = ((), s\<lparr>g_db := None, live := remove1 c (live s)\<rparr>)"
  by (simp add: close_db_def sqlite_close_def State_Monad.update_def)

lemma run_in_app_context:
  "run_state (in_app_context h) s =
     (let (x, s') = run_state h (s\<lparr>g_db := None\<rparr>) in (x, snd (run_state close_db s')))"
  by (simp add: in_app_context_def close_db_handler_def State_Monad.update_def split: prod.split)

lemma get_db_times_fresh:
  "g_db s = None \<Longrightarrow>
   run_state (get_db_times (Suc m)) s =
     (replicate (Suc m) (next_conn s),
      s\<lparr>g_db := Some (next_conn s), live := next_conn s # live s, next_conn := Suc (next_conn s)\<rparr>)"
  by (simp add: get_db_fresh get_db_times_cached)

lemma request_context:
  "run_state (in_app_context (get_db_times n)) s =
     (if n = 0 then ([], s\<lparr>g_db := None\<rparr>)
      else (replicate n (next_conn s), s\<lparr>g_db := None, next_conn := Suc (next_conn s)\<rparr>))"
proof (cases n)
  case 0
  then show ?thesis by (simp add: run_in_app_context close_db_none)
next
  case (Suc m)
  then show ?thesis by (simp add: run_in_app_context get_db_times_fresh close_db_some del: get_db_times.simps)
qed

lemma serve_requests_run:
  assumes "run_state (serve_requests ns) s = (rss, s')"
  shows "live s' = live s \<and> g_db s' = (if ns = [] then g_db s else None) \<and>
         next_conn s' = next_conn s + length (filter (\<lambda>n. 0 < n) ns) \<and>
         sorted_wrt (<) (map hd (filter (\<lambda>cs. cs \<noteq> []) rss)) \<and>
         (\<forall>c \<in> set (map hd (filter (\<lambda>cs. cs \<noteq> []) rss)). next_conn s \<le> c \<and> c < next_conn s')"
  using assms
proof (induction ns arbitrary: s rss s')
  case Nil
  then show ?case by (simp add: serve_requests_def)
next
  case (Cons n ns)
  define s1 where "s1 = (if n = 0 then s\<lparr>g_db := None\<rparr> else s\<lparr>g_db := None, next_conn := Suc (next_conn s)\<rparr>)"
  define r1 where "r1 = (if n = 0 then [] else replicate n (next_conn s))"
  have rc: "run_state (in_app_context (get_db_times n)) s = (r1, s1)"
    by (simp add: request_context s1_def r1_def)
  obtain rss' where r: "run_state (serve_requests ns) s1 = (rss', s')" and e: "rss = r1 # rss'"
    using Cons.prems rc by (auto simp: serve_requests_def split: prod.splits)
  note ih = Cons.IH [OF r]
  show ?case
  proof (cases "n = 0")
    case True
    then show ?thesis using ih e by (auto simp: s1_def r1_def)
  next
    case False
    then show ?thesis using ih e by (fastforce simp: s1_def r1_def)
  qed
qed

subsection \<open>Properties of the connection handling\<close>

text \<open>
  C15: within one request every \<open>get_db\<close> call returns the same connection, one that
  was not open before the request, and the teardown closes it: after the request
  the live connections are those before it and \<open>g\<close> holds none.
\<close>

theorem request_one_connection:
  assumes "\<forall>c \<in> set (live s). c < next_conn s"
    and "run_state (in_app_context (get_db_times (Suc n))) s = (cs, s')"
  shows "\<exists>c. cs = replicate (Suc n) c \<and> c \<notin> set (live s) \<and> live s' = live s \<and> g_db s' = None"
proof -
  have "run_state (in_app_context (get_db_times (Suc n))) s =
          (replicate (Suc n) (next_conn s), s\<lparr>g_db := None, next_conn := Suc (next_conn s)\<rparr>)"
    using request_context [of "Suc n" s] by simp
  then show ?thesis using assms by auto
qed

text \<open>
  C16: a sequence of requests, each calling \<open>get_db\<close> any number of times, leaks no
  connection, and the requests that use the database each get a connection of their
  own.
\<close>

theorem serve_requests_no_leak:
  assumes "run_state (serve_requests ns) s = (rss, s')"
  shows "live s' = live s \<and> distinct (map hd (filter (\<lambda>cs. cs \<noteq> []) rss))"
  using serve_requests_run [OF assms] by (auto simp: strict_sorted_iff)

end
