(* ===== verification/Web.thy ===== *)
theory Web
  imports App Adapters
begin

text \<open>
  The presentation of \<open>src/routes.py\<close>: what each route answers once its handler
  has decided, as the code writes it with \<open>flash\<close>, \<open>redirect(url_for(...))\<close>,
  \<open>render_template\<close> and the export adapters.  A response is the list of flashed
  messages with their categories and the page: a redirect to an endpoint or URL, a
  rendered template (named; the template files are not part of \<open>src/\<close>), a file
  download, Flask's internal server error for an exception the handler does not
  catch, or flask-login's sign-in redirect for a \<open>@login_required\<close> route without a
  user.  \<open>present\<close> maps every outcome of \<open>App.response\<close> to its response and
  \<open>serve\<close> composes it with \<open>app_step\<close>.
\<close>

datatype category = Success | Danger | Warning

datatype endpoint = EpLogin | EpAdminDashboard | EpEmployeeDashboard | EpPunchHistory | EpReports

datatype page =
    Redirect endpoint
  | RedirectUrl string
  | Template string
  | Download attachment
  | InternalServerError
  | LoginRequired

record http_response =
  http_flashes :: "(string \<times> category) list"
  http_page :: page

definition respond :: "(string \<times> category) list \<Rightarrow> page \<Rightarrow> http_response" where
  "respond fl pg = \<lparr>http_flashes = fl, http_page = pg\<rparr>"

definition acesso_negado :: "endpoint \<Rightarrow> http_response" where
  "acesso_negado ep = respond [(''Acesso negado!'', Danger)] (Redirect ep)"

definition nenhum_dado :: "endpoint \<Rightarrow> http_response" where
  "nenhum_dado ep = respond [(''Nenhum dados encontrados para exportar!'', Warning)] (Redirect ep)"

definition formato_invalido :: string where
  "formato_invalido = ''Formato de exporta'' @ [CHR 0xE7, CHR 0xE3] @ ''o inv'' @ [CHR 0xE1] @ ''lido''"

fun redirect_page :: "redirect_target \<Rightarrow> page" where
  "redirect_page ToLogin = Redirect EpLogin"
| "redirect_page ToAdminDashboard = Redirect EpAdminDashboard"
| "redirect_page ToEmployeeDashboard = Redirect EpEmployeeDashboard"
| "redirect_page (ToUrl u) = RedirectUrl u"

primrec punch_name :: "tipo \<Rightarrow> string" where
  "punch_name Entrada = ''Entrada''"
| "punch_name Saida_almoco = ''Sa'' @ [CHR 0xED] @ ''da para Almo'' @ [CHR 0xE7] @ ''o''"
| "punch_name Volta_almoco = ''Volta do Almo'' @ [CHR 0xE7] @ ''o''"
| "punch_name Saida_final = ''Sa'' @ [CHR 0xED] @ ''da Final''"

fun present_login :: "login_response \<Rightarrow> http_response" where
  "present_login LoginFormPage = respond [] (Template ''login.html'')"
| "present_login LoginRejected = respond [(''Login ou senha incorretos!'', Danger)] (Template ''login.html'')"
| "present_login LoginInternalError = respond [(''Erro interno. Tente novamente.'', Danger)] (Template ''login.html'')"
| "present_login (LoginRedirect tg) = respond [] (redirect_page tg)"

fun present_register :: "register_response \<Rightarrow> http_response" where
  "present_register RegisterDenied = acesso_negado EpEmployeeDashboard"
| "present_register RegisterForm = respond [] (Template ''register_employee.html'')"
| "present_register MissingFields =
     respond [(''Todos os campos s'' @ [CHR 0xE3] @ ''o obrigat'' @ [CHR 0xF3] @ ''rios!'', Danger)]
       (Template ''register_employee.html'')"
| "present_register BadCpf =
     respond [(''CPF deve ter 11 d'' @ [CHR 0xED] @ ''gitos!'', Danger)] (Template ''register_employee.html'')"
| "present_register DuplicateIdentity =
     respond [(''CPF ou login j'' @ [CHR 0xE1] @ '' cadastrado!'', Danger)] (Template ''register_employee.html'')"
| "present_register RegisterFailed =
     respond [(''Erro ao cadastrar colaborador!'', Danger)] (Template ''register_employee.html'')"
| "present_register EmployeeRegistered =
     respond [(''Colaborador cadastrado com sucesso!'', Success)] (Redirect EpAdminDashboard)"

fun present_punch :: "punch_response \<Rightarrow> http_response" where
  "present_punch PunchDenied = acesso_negado EpAdminDashboard"
| "present_punch AllRecorded =
     respond [(''Todos os pontos do dia j'' @ [CHR 0xE1] @ '' foram registrados!'', Warning)]
       (Redirect EpEmployeeDashboard)"
| "present_punch (Registered t now) =
     respond [(punch_name t @ '' registrada com sucesso '' @ [CHR 0xE0] @ ''s '' @ now @ ''!'', Success)]
       (Redirect EpEmployeeDashboard)"

definition present_export_history :: "export_response \<Rightarrow> http_response" where
  "present_export_history r =
     (case history_download r of
        Some a \<Rightarrow> respond [] (Download a)
      | None \<Rightarrow>
          (case r of
             ExportDenied \<Rightarrow> acesso_negado EpEmployeeDashboard
           | ExportNoData \<Rightarrow> nenhum_dado EpPunchHistory
           | _ \<Rightarrow> respond [(formato_invalido @ ''!'', Danger)] (Redirect EpPunchHistory)))"

definition present_export_reports :: "report_export_response \<Rightarrow> http_response" where
  "present_export_reports r =
     (case reports_download r of
        Some a \<Rightarrow> respond [] (Download a)
      | None \<Rightarrow>
          (case r of
             RExportDenied \<Rightarrow> acesso_negado EpEmployeeDashboard
           | RExportNoData \<Rightarrow> nenhum_dado EpReports
           | RExportInvalidFormat \<Rightarrow> respond [(formato_invalido @ ''!'', Danger)] (Redirect EpReports)
           | RExportInvalidDetailedFormat \<Rightarrow>
               respond [(formato_invalido @ '' para relat'' @ [CHR 0xF3] @ ''rio detalhado!'', Danger)]
                 (Redirect EpReports)
           | _ \<Rightarrow> respond [] InternalServerError))"

fun present_print :: "print_response \<Rightarrow> http_response" where
  "present_print PrintDenied = acesso_negado EpEmployeeDashboard"
| "present_print PrintNoEmployee =
     respond [(''Selecione um funcion'' @ [CHR 0xE1] @ ''rio para gerar o relat'' @ [CHR 0xF3] @
               ''rio de impress'' @ [CHR 0xE3] @ ''o!'', Warning)] (Redirect EpReports)"
| "present_print (PrintError e) = respond [] InternalServerError"
| "present_print PrintNotFound =
     respond [(''Funcion'' @ [CHR 0xE1] @ ''rio n'' @ [CHR 0xE3] @ ''o encontrado!'', Danger)] (Redirect EpReports)"
| "present_print (PrintPage per groups emp_nome emp_funcao) = respond [] (Template ''print_report.html'')"

fun present :: "response \<Rightarrow> http_response" where
  "present RUnauthorized = respond [] LoginRequired"
| "present (RIndex tg) = respond [] (redirect_page tg)"
| "present (RLogin a) = present_login a"
| "present (RLogout tg) = respond [(''Logout realizado com sucesso!'', Success)] (redirect_page tg)"
| "present (RAdminDashboard v) =
     (case v of AdminDenied \<Rightarrow> acesso_negado EpEmployeeDashboard
      | AdminView rows n today \<Rightarrow> respond [] (Template ''admin_dashboard.html''))"
| "present (REmployeeDashboard v) =
     (case v of RedirectAdmin \<Rightarrow> respond [] (Redirect EpAdminDashboard)
      | EmployeeView ps nxt today \<Rightarrow> respond [] (Template ''employee_dashboard.html''))"
| "present (RRegisterEmployee a) = present_register a"
| "present (RPunch a) = present_punch a"
| "present (RPunchHistory pg) = respond [] (Template ''punch_history.html'')"
| "present (RReports r) =
     (case r of ReportDenied \<Rightarrow> acesso_negado EpEmployeeDashboard
      | ReportError e \<Rightarrow> respond [] InternalServerError
      | ReportPage pg \<Rightarrow> respond [] (Template ''reports.html''))"
| "present (RExportHistory r) = present_export_history r"
| "present (RExportReports r) = present_export_reports r"
| "present (RPrintReport r) = present_print r"

definition serve :: "int \<Rightarrow> request \<Rightarrow> app_state \<Rightarrow> http_response \<times> app_state" where
  "serve t r st = (let (a, st') = app_step t r st in (present a, st'))"

text \<open>The routes an employee may not use: those guarded by \<open>perfil != 'admin'\<close>.\<close>

fun admin_only :: "request \<Rightarrow> bool" where
  "admin_only ReqAdminDashboard = True"
| "admin_only (ReqRegisterEmployee f) = True"
| "admin_only (ReqReports a b e) = True"
| "admin_only (ReqExportHistory f e) = True"
| "admin_only (ReqExportReports f a b e) = True"
| "admin_only (ReqPrintReport a b e) = True"
| "admin_only _ = False"

subsection \<open>Properties of the responses\<close>

text \<open>
  C13: a signed-in employee who opens any administrator route gets the same answer,
  the message \<open>Acesso negado!\<close> and a redirect to the employee dashboard, and
  nothing is written.
\<close>

theorem employee_denied_admin_routes:
  assumes "current_user d s = Some cu" and "perfil cu = Colaborador" and "admin_only r"
  shows "serve t r (d, s) = (acesso_negado EpEmployeeDashboard, (d, s))"
  using assms
  by (cases r)
     (simp_all add: serve_def app_step_def handle_def admin_dashboard_def register_employee_def reports_def
        export_history_def export_reports_def print_report_def present_export_history_def history_download_def
        present_export_reports_def reports_download_def)

text \<open>
  C14: when the signed-in employee's day still misses a type, the punch route answers
  with the confirmation naming that type and the time of the punch, and a redirect to
  the employee dashboard.
\<close>

theorem punch_confirmation:
  assumes "current_user d s = Some cu" and "perfil cu = Colaborador"
    and "next_punch (day_tipos d (uid cu) (strftime_dmy (get_brasilia_date t))) = Some x"
  shows "fst (serve t (ReqPunch obs) (d, s)) =
           respond [(punch_name x @ '' registrada com sucesso '' @ [CHR 0xE0] @ ''s '' @
                     strftime_hms (get_brasilia_time t) @ ''!'', Success)] (Redirect EpEmployeeDashboard)"
  using assms by (simp add: serve_def app_step_def handle_def register_punch_cases Let_def split: prod.split)

end
