(* ===== verification/Spec2Isabelle.thy ===== *)
theory Spec2Isabelle
  imports Concurrency Adapters Connection Web
begin

text \<open>
  \<^bold>\<open>A verification development of the employee time-clock.\<close>
  The program (\<open>src/database.py\<close>, \<open>src/auth.py\<close>, \<open>src/routes.py\<close>) is a Flask
  application over one SQLite file with two tables: employees record four punches a
  day (entrada, saida_almoco, volta_almoco, saida_final) and administrators register
  employees, read dashboards and histories, and produce reports, exports and a
  printable report.  Every handler is modelled as a HOL function from the request's
  arguments, the current user, the clock reading (a POSIX time \<open>t\<close>) and the
  database to an outcome value and the new database; Flask's responses (templates,
  redirects, flash messages) become constructors of outcome datatypes.

  \<^bold>\<open>Theories and what they model.\<close>
  \<^item> \<open>Prelude\<close>: named fact collections (\<open>handler_defs\<close>, \<open>query_defs\<close>), Python's
    first-occurrence \<open>dedup\<close> of dict keys, \<open>sort_desc_key\<close> (ORDER BY ... DESC with
    ties in rowid order), \<open>map_sum\<close> (a loop whose body may raise), and generic lemmas
    on lists, counting and the lexicographic order of strings (SQLite's BINARY
    collation on \<open>char list\<close>).
  \<^item> \<open>PyText\<close>: the \<open>str\<close> builtins the code calls: \<open>split\<close>, \<open>strip\<close>, \<open>lower\<close>,
    and \<open>re.sub(r'[^0-9]', '', s)\<close>.
  \<^item> \<open>Schema\<close>: \<open>init_db\<close> of \<open>database.py\<close> (tables as lists of rows in rowid order
    with AUTOINCREMENT counters, the UNIQUE constraints as the guard of
    \<open>insert_usuario\<close>, the bootstrap administrator) and the lookups of \<open>auth.py\<close>.
    werkzeug's password hashing is \<open>pw_hash\<close>: a hash accepts exactly its password.
  \<^item> \<open>Clock\<close>: \<open>get_brasilia_date/time\<close> (UTC-3, Hinnant's civil calendar), the
    \<open>strftime\<close> formats, \<open>convert_date_for_db\<close> with its \<open>IndexError\<close>, and how a
    stored \<open>'%d-%m-%Y'\<close> string compares with ISO strings and with other stored dates.
  \<^item> \<open>Sequencer\<close>: the \<open>for ... break\<close> loop choosing the next punch type, with its
    abstract contract \<open>next_spec\<close>.
  \<^item> \<open>Punch\<close>: \<open>employee_dashboard\<close> and \<open>register_punch\<close> (both clock reads, the
    query, the sequencer, the insert), the handler split into read and write phases
    (\<open>punch_begin\<close>, \<open>punch_commit\<close>), and the ledger invariant \<open>ledger_ok\<close>.
  \<^item> \<open>Reports\<close>: \<open>reports\<close> with its queries under BINARY collation, the LEFT JOIN
    summary, the grouping loop and the attendance frequency of \<open>export_reports\<close>.
  \<^item> \<open>Dashboard\<close>: \<open>admin_dashboard\<close>.  \<open>History\<close>: \<open>punch_history\<close> and
    \<open>export_history\<close>.  \<open>Exports\<close>: \<open>export_reports\<close>, the cells of
    \<open>export_detailed_excel/pdf\<close>, and \<open>print_report\<close>.
  \<^item> \<open>Employees\<close>: \<open>register_employee\<close>.  \<open>Session\<close>: \<open>index\<close>, \<open>login\<close>,
    \<open>logout\<close> and \<open>load_user\<close>.
  \<^item> \<open>App\<close>: all routes as one \<open>request\<close> datatype, \<open>app_step\<close> with
    \<open>login_required\<close>, the reachable databases (\<open>reachable\<close>, an inductive
    predicate from the start-up) and the loop \<open>punch_until_done\<close> of an employee
    pressing the punch button, whose termination is proved by a measure.
  \<^item> \<open>Adapters\<close>: the serialisers the export routes call (\<open>export_csv\<close>,
    \<open>export_excel\<close>, \<open>export_pdf_history\<close>, \<open>export_pdf_report\<close>,
    \<open>export_detailed_excel\<close>, \<open>export_detailed_pdf\<close>): the pandas frames the
    routes build (with pandas' float typing of a numeric column), the CSV text of
    \<open>to_csv\<close> with the csv module's minimal quoting, the column-width loop of the
    workbooks, the story of flowables of each PDF, and the attachment headers;
    \<open>history_download\<close> and \<open>reports_download\<close> compose the handlers with them.
  \<^item> \<open>Connection\<close>: \<open>get_db\<close>, \<open>close_db\<close> and the teardown handler of
    \<open>database.py\<close> as actions of HOL-Library's state monad on the context's cached
    connection (\<open>flask.g\<close>) and the process's live connections; a request is a fresh
    application context with any number of \<open>get_db\<close> calls (\<open>in_app_context\<close>,
    \<open>serve_requests\<close>).  This is what the concurrent model assumes: one connection
    per request, so no transaction spans two requests.
  \<^item> \<open>Web\<close>: the presentation: every outcome of \<open>App.response\<close> mapped to the
    flashed messages (text and category) and the page the route returns, a redirect,
    a named template, a download built by \<open>Adapters\<close>, Flask's error 500 for an
    uncaught exception or flask-login's sign-in redirect (\<open>present\<close>); \<open>serve\<close>
    composes it with \<open>app_step\<close>.
  \<^item> \<open>Concurrency\<close>: the threaded server, each request with its own sqlite3
    connection (\<open>get_db\<close>) and no transaction: \<open>conc_reachable\<close> interleaves
    sequential requests (\<open>app_step\<close>) with the read and write phases of
    \<open>register_punch\<close> (\<open>punch_begin\<close>, \<open>punch_commit\<close>) and of
    \<open>register_employee\<close> (\<open>register_begin\<close>, \<open>register_commit\<close>), the pending
    reads being the state beside the database.  The invariants \<open>conc_inv\<close>
    (gap-free days, pending punches consistent with the database) and
    \<open>conc_tables\<close> (well-formed tables) are proved by rule induction.
  \<^item> This theory: example data, concrete runs (start-up, registration of Ana, her
    first punch; and two of her punches interleaved), the bound connecting the punch ledger with the report summary, and
    one witness per property, each applying the property at concrete inputs
    evaluated by \<open>simp\<close> or \<open>code_simp\<close>.

  \<^bold>\<open>What the lemmas show.\<close>  Every reachable database keeps the table invariants,
  eleven-digit CPFs, the ledger invariant, well-formed times and an administrator
  (rule induction over \<open>reachable\<close>); the sequencer refines its contract; an employee
  can always complete a day and repeated punching terminates; the duplicate pre-check
  of registration is equivalent to the UNIQUE constraints; sign-in treats unknown
  logins and wrong passwords alike; groupings refine their specifications and
  round-trip to the listings; reports and exports agree; the sequential machine is
  the concurrent one without pending requests; concurrent punches, while they
  duplicate types, never record a type before the types that precede it, and
  concurrent registrations keep the tables well formed, the UNIQUE constraints
  turning the second of two duplicates into the \<open>except\<close> branch; the CSV
  export decodes back to the rows the handler selected, and the workbook widths are
  the longest cell plus two, capped at 50; a request opens one connection, shared
  by all its database calls and closed at teardown, so no sequence of requests leaks
  one; an employee gets the same refusal on every administrator route, and a punch
  is confirmed with the type it recorded.  The development also
  proves the program's defects: punches are stored as \<open>'%d-%m-%Y'\<close> while the reports
  filter on ISO bounds, so the default report counts nothing; the history's
  \<open>ORDER BY data DESC LIMIT 100\<close> sorts by day of the month and can hide today's
  punches; two interleaved punch requests insert the same type twice, since no UNIQUE
  constraint guards \<open>pontos\<close>, and a run from start-up reaches that state; a month-year date argument raises \<open>IndexError\<close>; the
  detailed export has no working default format and shows stored dates in ISO form;
  \<open>login\<close> follows any \<open>next\<close> URL; a punch straddling midnight is stored under
  the previous day at 00:00:00, since the date and the time are read separately.

  \<^bold>\<open>Bounds and inputs.\<close>  Times are whole POSIX seconds as \<open>int\<close>; dates are
  \<open>nat\<close> triples; the comparison lemmas assume days below 100 and four-digit years,
  which every clock date between the years 1000 and 9999 meets.  The history's limit
  is the code's 100.  No fuel is used: the only unbounded loop is
  \<open>punch_until_done\<close>, a \<open>function\<close> whose measure is the number of missing types.
  Query parameters \<open>employee_id\<close> are taken as decimal ids (\<open>user_id option\<close>).
  A frequency cell is printed as Python prints a \<open>round(x, 1)\<close> float: the integer
  part, a point and one digit (\<open>py_float_repr1\<close>), which holds below 10 to the 15.

  \<^bold>\<open>Not modelled.\<close>  The bytes of the xlsx and PDF files (openpyxl's zip
  container and styles, reportlab's layout and fonts; the adapters are modelled up to
  the sheet, widths and story they hand over), reportlab's parsing of the markup in
  a \<open>Paragraph\<close>, the rendering of the HTML templates (the template files and
  \<open>app.py\<close>, with flask-login's configuration, are not part of \<open>src/\<close>; \<open>Web\<close> names
  the template each route renders), the cookie signing of Flask sessions, the
  hashing algorithm of werkzeug and sqlite3's own connection object (a connection
  is a handle): they are library code the program only calls.  Requests are sequential in \<open>App\<close>; in
  \<open>Concurrency\<close> the two handlers that read before they write,
  \<open>register_punch\<close> and \<open>register_employee\<close>, are split into phases, the others
  run as one step; SQLite's busy-timeout errors under write contention are not
  modelled, and in the concurrent machine a punch's two clock reads are one instant
  (the sequential \<open>register_punch\<close> keeps them apart).
\<close>

section \<open>Example data\<close>

text \<open>
  A small database used by the witnesses: the bootstrap administrator and one
  employee, Ana, and the POSIX time of 2024-03-01 08:00 in UTC-3.
\<close>

definition admin_row :: usuario where
  "admin_row = \<lparr>uid = 1, nome = ''Administrador'', cpf = ''00000000000'', funcao = ''Administrador'',
     login = ''admin'', senha = generate_password_hash ''admin123'', perfil = Admin\<rparr>"

definition ana :: usuario where
  "ana = \<lparr>uid = 2, nome = ''Ana'', cpf = ''12345678901'', funcao = ''Analista'',
     login = ''ana'', senha = generate_password_hash ''s3nha'', perfil = Colaborador\<rparr>"

definition db_start :: db where
  "db_start = \<lparr>usuarios = [admin_row, ana], pontos = [], seq_usuarios = 2, seq_pontos = 0\<rparr>"

definition mar1_0800 :: int where
  "mar1_0800 = 1709290800"

definition ponto_mar1 :: ponto where
  "ponto_mar1 = \<lparr>pid = 1, usuario_id = 2, data = ''01-03-2024'', tipo = Entrada,
     hora = ''08:00:00'', observacao = []\<rparr>"

definition db_mar1 :: db where
  "db_mar1 = db_start\<lparr>pontos := [ponto_mar1], seq_pontos := 1\<rparr>"

definition db_iso :: db where
  "db_iso = db_start\<lparr>pontos := [ponto_mar1\<lparr>data := ''2024-03-01''\<rparr>], seq_pontos := 1\<rparr>"

definition row_iso :: detail_row where
  "row_iso = \<lparr>dr_data = ''2024-03-01'', dr_tipo = Entrada, dr_hora = ''08:00:00'', dr_observacao = [],
     dr_nome = ''Ana'', dr_funcao = ''Analista''\<rparr>"

definition page_iso :: report_page where
  "page_iso = \<lparr>rp_report_data = [\<lparr>sr_nome = ''Ana'', sr_funcao = ''Analista'', dias_trabalhados = 1,
       dias_com_registro = 1, total_pontos = 1\<rparr>],
     rp_detailed = [row_iso], rp_by_date = [(''2024-03-01'', [row_iso])],
     rp_employees = [(2, ''Ana'')], rp_employee_name = Some ''Ana'',
     rp_start = ''01-03-2024'', rp_end = ''31-03-2024''\<rparr>"

definition db_boot :: db where
  "db_boot = \<lparr>usuarios = [admin_row], pontos = [], seq_usuarios = 1, seq_pontos = 0\<rparr>"

definition admin_session :: session where "admin_session = \<lparr>sess_user = Some 1\<rparr>"
definition ana_session :: session where "ana_session = \<lparr>sess_user = Some 2\<rparr>"

definition ana_form :: employee_form where
  "ana_form = \<lparr>f_nome = '' Ana '', f_cpf = ''123.456.789-01'', f_funcao = ''Analista'',
     f_login = ''ana'', f_senha = ''s3nha''\<rparr>"

definition db_many :: db where
  "db_many = db_start\<lparr>pontos := replicate 100 (ponto_mar1\<lparr>data := ''02-03-2024''\<rparr>) @ [ponto_mar1],
                      seq_pontos := 101\<rparr>"

definition db_race :: db where
  "db_race = db_start\<lparr>pontos := [ponto_mar1, ponto_mar1\<lparr>pid := 2\<rparr>], seq_pontos := 2\<rparr>"

definition db_race3 :: db where
  "db_race3 = db_race\<lparr>pontos := pontos db_race @ [ponto_mar1\<lparr>pid := 3, tipo := Saida_almoco\<rparr>],
                     seq_pontos := 3\<rparr>"

definition note_text :: string where
  "note_text = ''cheguei '' @ [CHR 0x22] @ ''cedo'' @ [CHR 0x22] @ '', ok''"

definition db_note :: db where
  "db_note = db_start\<lparr>pontos := [ponto_mar1\<lparr>observacao := note_text\<rparr>], seq_pontos := 1\<rparr>"

definition note_row :: export_row where
  "note_row = \<lparr>ex_data = ''01-03-2024'', ex_funcionario = ''Ana'', ex_tipo = ''Entrada'', ex_horario = ''08:00'',
     ex_observacao = note_text\<rparr>"

definition freq_ana :: freq_row where
  "freq_ana = \<lparr>fr_nome = ''Ana'', fr_funcao = ''Analista'', fr_dias_trabalhados = 0, fr_dias_com_registro = 0,
     fr_total_pontos = 0, fr_frequencia = 0\<rparr>"

definition freq_bia :: freq_row where
  "freq_bia = \<lparr>fr_nome = ''Bia'', fr_funcao = ''Analista'', fr_dias_trabalhados = 3, fr_dias_com_registro = 3,
     fr_total_pontos = 12, fr_frequencia = 10\<rparr>"

definition reg_ana :: reg_request where
  "reg_ana = \<lparr>rq_nome = ''Ana'', rq_cpf = ''12345678901'', rq_funcao = ''Analista'', rq_login = ''ana'',
     rq_senha = ''s3nha''\<rparr>"

definition ctx0 :: ctx_state where
  "ctx0 = \<lparr>g_db = None, live = [7], next_conn = 8\<rparr>"

definition feb29_2359 :: int where
  "feb29_2359 = 1709261999"

lemma mar1_today: "strftime_dmy (get_brasilia_date mar1_0800) = ''01-03-2024''"
  unfolding mar1_0800_def by code_simp

lemma mar1_now: "strftime_hms (get_brasilia_time mar1_0800) = ''08:00:00''"
  unfolding mar1_0800_def by code_simp

lemma ledger_ok_db_start: "ledger_ok db_start"
  by (simp add: ledger_ok_def db_start_def)

lemma ana_colaborador: "perfil ana = Colaborador"
  by (simp add: ana_def)

lemma ana_next_start: "next_punch (day_tipos db_start (uid ana) ''01-03-2024'') = Some Entrada"
  by (simp add: day_tipos_def db_start_def next_punch_def punch_types_def)

text \<open>A run of the application: start-up, the administrator registers Ana, Ana punches.\<close>

lemma reachable_db_boot: "reachable db_boot"
  by (rule reachable.start)
    (simp add: init_db_def empty_db_def admin_count_def insert_usuario_def db_boot_def admin_row_def)

lemma step_register_ana:
  "app_step mar1_0800 (ReqRegisterEmployee (Some ana_form)) (db_boot, admin_session) =
     (RRegisterEmployee EmployeeRegistered, (db_start, admin_session))"
  unfolding app_step_def handle_def db_boot_def admin_session_def ana_form_def db_start_def admin_row_def ana_def
    current_user_def user_get_def register_employee_def
  by code_simp

lemma step_punch_ana:
  "app_step mar1_0800 (ReqPunch []) (db_start, ana_session) =
     (RPunch (Registered Entrada ''08:00:00''), (db_mar1, ana_session))"
  unfolding app_step_def handle_def db_start_def ana_session_def db_mar1_def ponto_mar1_def admin_row_def ana_def
    current_user_def user_get_def register_punch_def mar1_0800_def
  by code_simp

lemma reachable_db_start: "reachable db_start"
  by (rule reachable.step [OF reachable_db_boot step_register_ana])

lemma reachable_db_mar1: "reachable db_mar1"
  by (rule reachable.step [OF reachable_db_start step_punch_ana])

lemma commit_start:
  "snd (punch_commit (punch_begin ana mar1_0800 mar1_0800 [] db_start) db_start) = db_mar1"
  unfolding punch_commit_def punch_begin_def db_start_def db_mar1_def ponto_mar1_def ana_def admin_row_def
    today_punches_def insert_ponto_def mar1_0800_def
  by code_simp

lemma commit_race:
  "snd (punch_commit (punch_begin ana mar1_0800 mar1_0800 [] db_start) db_mar1) = db_race"
  unfolding punch_commit_def punch_begin_def db_start_def db_mar1_def db_race_def ponto_mar1_def ana_def
    admin_row_def today_punches_def insert_ponto_def mar1_0800_def
  by code_simp

lemma commit_race3:
  "snd (punch_commit (punch_begin ana mar1_0800 mar1_0800 [] db_race) db_race) = db_race3"
  unfolding punch_commit_def punch_begin_def db_start_def db_race3_def db_race_def ponto_mar1_def ana_def
    admin_row_def today_punches_def insert_ponto_def mar1_0800_def
  by code_simp


lemma ana_signed_in: "current_user d ana_session = Some ana" if "usuarios d = [admin_row, ana]"
  using that by (simp add: current_user_def ana_session_def user_get_def admin_row_def ana_def)

lemma conc_reachable_db_boot: "conc_reachable \<lparr>cdb = db_boot, pending = [], pending_reg = []\<rparr>"
  by (rule conc_reachable.start)
    (simp add: init_db_def empty_db_def admin_count_def insert_usuario_def db_boot_def admin_row_def)

lemma conc_reachable_db_start: "conc_reachable \<lparr>cdb = db_start, pending = [], pending_reg = []\<rparr>"
proof -
  note b = conc_reachable_db_boot
  have "app_step mar1_0800 (ReqRegisterEmployee (Some ana_form)) (cdb \<lparr>cdb = db_boot, pending = [], pending_reg = []\<rparr>, admin_session) =
          (RRegisterEmployee EmployeeRegistered, (db_start, admin_session))"
    using step_register_ana by simp
  from conc_reachable.seq_step [OF b this] show ?thesis by simp
qed

text \<open>Two punches of Ana read the empty day, then both write; a third punch follows.\<close>

lemma conc_reachable_db_race: "conc_reachable \<lparr>cdb = db_race, pending = [], pending_reg = []\<rparr>"
proof -
  let ?r = "punch_begin ana mar1_0800 mar1_0800 [] db_start"
  have u: "current_user db_start ana_session = Some ana"
    by (rule ana_signed_in) (simp add: db_start_def)
  have c1: "conc_reachable \<lparr>cdb = db_start, pending = [?r], pending_reg = []\<rparr>"
    using conc_reachable.read_step [OF conc_reachable_db_start, of ana_session ana mar1_0800 "[]"] u by simp
  have c2: "conc_reachable \<lparr>cdb = db_start, pending = [?r, ?r], pending_reg = []\<rparr>"
    using conc_reachable.read_step [OF c1, of ana_session ana mar1_0800 "[]"] u by simp
  have c3: "conc_reachable \<lparr>cdb = db_mar1, pending = [?r], pending_reg = []\<rparr>"
    using conc_reachable.write_step [OF c2, of ?r] commit_start by simp
  show ?thesis
    using conc_reachable.write_step [OF c3, of ?r] commit_race by simp
qed

lemma conc_reachable_db_race3: "conc_reachable \<lparr>cdb = db_race3, pending = [], pending_reg = []\<rparr>"
proof -
  let ?r = "punch_begin ana mar1_0800 mar1_0800 [] db_race"
  have u: "current_user db_race ana_session = Some ana"
    by (rule ana_signed_in) (simp add: db_race_def db_start_def)
  have c1: "conc_reachable \<lparr>cdb = db_race, pending = [?r], pending_reg = []\<rparr>"
    using conc_reachable.read_step [OF conc_reachable_db_race, of ana_session ana mar1_0800 "[]"] u by simp
  show ?thesis
    using conc_reachable.write_step [OF c1, of ?r] commit_race3 by simp
qed

text \<open>Two administrators register Ana at the same time: both pre-checks pass on the
  database without her, the first insert succeeds and the second violates UNIQUE.\<close>

lemma begin_ana: "register_begin admin_row (Some ana_form) db_boot = Inr reg_ana"
  unfolding register_begin_def admin_row_def ana_form_def db_boot_def reg_ana_def existing_count_def
  by code_simp

lemma commit_ana_boot: "register_commit reg_ana db_boot = (EmployeeRegistered, db_start)"
  unfolding register_commit_def reg_ana_def db_boot_def db_start_def admin_row_def ana_def insert_usuario_def
  by code_simp

lemma commit_ana_start: "register_commit reg_ana db_start = (RegisterFailed, db_start)"
  unfolding register_commit_def reg_ana_def db_start_def admin_row_def ana_def insert_usuario_def
  by code_simp

lemma conc_reachable_reg_race: "conc_reachable \<lparr>cdb = db_start, pending = [], pending_reg = [reg_ana]\<rparr>"
proof -
  have u: "current_user db_boot admin_session = Some admin_row"
    by (simp add: current_user_def admin_session_def user_get_def db_boot_def admin_row_def)
  have c1: "conc_reachable \<lparr>cdb = db_boot, pending = [], pending_reg = [reg_ana]\<rparr>"
    using conc_reachable.reg_read_step [OF conc_reachable_db_boot, of admin_session admin_row ana_form reg_ana]
      u begin_ana by simp
  have c2: "conc_reachable \<lparr>cdb = db_boot, pending = [], pending_reg = [reg_ana, reg_ana]\<rparr>"
    using conc_reachable.reg_read_step [OF c1, of admin_session admin_row ana_form reg_ana] u begin_ana by simp
  show ?thesis
    using conc_reachable.reg_write_step [OF c2, of reg_ana] commit_ana_boot by simp
qed

lemma day_race3: "day_tipos db_race3 2 ''01-03-2024'' = [Entrada, Entrada, Saida_almoco]"
  by (simp add: day_tipos_def db_race3_def db_race_def db_start_def ponto_mar1_def)

section \<open>The two clock reads of a punch\<close>

text \<open>
  \<open>register_punch\<close> reads the date and the time with two calls.  A request whose
  date is read at 23:59:59 and whose time is read one second later stores the
  previous day with the time 00:00:00, the first time of that day's ORDER BY hora.
\<close>

theorem register_punch_midnight_split:
  "register_punch ana feb29_2359 (feb29_2359 + 1) [] db_start =
     (Registered Entrada ''00:00:00'', insert_ponto 2 ''29-02-2024'' Entrada ''00:00:00'' [] db_start)"
  unfolding register_punch_def feb29_2359_def ana_def db_start_def admin_row_def today_punches_def
  by code_simp

section \<open>Concurrent punches reach a broken ledger\<close>

text \<open>
  C5: the duplicate of the punch race is reachable from start-up: the administrator
  registers Ana, two punch requests of Ana read her empty day, both write, and the
  database, with no request pending, holds two entries for the day.
\<close>

theorem conc_race_reachable:
  "\<exists>c. conc_reachable c \<and> pending c = [] \<and> \<not> ledger_ok (cdb c)"
proof -
  have "day_tipos db_race 2 ''01-03-2024'' = [Entrada, Entrada]"
    by (simp add: day_tipos_def db_race_def db_start_def ponto_mar1_def)
  then have "\<not> ledger_ok db_race"
    using ledger_ok_distinct_day [of db_race 2 "''01-03-2024''"] by auto
  then show ?thesis using conc_reachable_db_race by fastforce
qed

text \<open>
  C9: under concurrency the \<open>except\<close> branch of \<open>register_employee\<close>, dead in a
  sequential run, is reached: a registration whose pre-check passed before another
  registration of the same CPF inserted fails at its insert, and the database is
  left as it was.
\<close>

theorem conc_register_failed_reachable:
  "\<exists>c q. conc_reachable c \<and> q \<in> set (pending_reg c) \<and> register_commit q (cdb c) = (RegisterFailed, cdb c)"
  using conc_reachable_reg_race commit_ana_start by fastforce

section \<open>Properties spanning the punch and report components\<close>

lemma range_punches_day_le:
  assumes "ledger_ok d"
  shows "length (filter (\<lambda>p. data p = k) (range_punches d lo hi u)) \<le> 4"
proof -
  have "length (filter (\<lambda>p. data p = k) (range_punches d lo hi u)) \<le> length (day_tipos d u k)"
    unfolding range_punches_def day_tipos_def filter_filter length_map
    by (rule length_filter_mono) auto
  also have "\<dots> \<le> length punch_types"
    using ledger_ok_day_tipos [OF assms] by (rule prefix_length_le)
  finally show ?thesis by (simp add: length_punch_types)
qed

text \<open>
  C29: the report summary inherits the bound of the punch handler: in a database
  whose ledger was kept by \<open>register_punch\<close>, an employee's punch total over any
  range is at most four times the number of distinct dates with a record.
\<close>

theorem summary_total_le_four_per_day:
  assumes "ledger_ok d"
  shows "total_pontos (summary_of d lo hi u) \<le> 4 * dias_com_registro (summary_of d lo hi u)"
  using length_le_mult_keys [of data "range_punches d lo hi (uid u)" 4] range_punches_day_le [OF assms]
  by (simp add: summary_of_def Let_def)

section \<open>Witnesses\<close>

theorem register_punch_records_next_witness:
  "perfil ana = Colaborador \<and>
   next_punch (day_tipos db_start (uid ana) (strftime_dmy (get_brasilia_date mar1_0800))) = Some Entrada \<and>
   register_punch ana mar1_0800 mar1_0800 '' ok '' db_start =
     (Registered Entrada ''08:00:00'',
      insert_ponto 2 ''01-03-2024'' Entrada ''08:00:00'' ''ok'' db_start)"
proof -
  have h: "next_punch (day_tipos db_start (uid ana) (strftime_dmy (get_brasilia_date mar1_0800))) =
           Some Entrada"
    using ana_next_start by (simp add: mar1_today)
  have s: "py_strip '' ok '' = ''ok''" by code_simp
  show ?thesis
    using register_punch_records_next [OF ana_colaborador h, of mar1_0800 "'' ok ''"] ana_colaborador h
    by (simp add: mar1_today mar1_now s ana_def)
qed

theorem next_punch_after_prefix_witness:
  "set [Saida_almoco, Entrada, Entrada] = set (take 2 punch_types) \<and>
   next_punch [Saida_almoco, Entrada, Entrada] = Some Volta_almoco"
proof -
  have h: "set [Saida_almoco, Entrada, Entrada] = set (take 2 punch_types)"
    by (auto simp: punch_types_def)
  show ?thesis using h next_punch_after_prefix [OF h] by (simp add: punch_types_def)
qed

theorem next_punch_refines_spec_witness:
  "next_punch [Entrada] = next_spec {Entrada} \<and> next_spec {Entrada} = Some Saida_almoco"
  using next_punch_refines_spec [of "[Entrada]"] by (simp add: next_spec_def punch_types_def)

theorem register_punch_day_complete_witness:
  "register_punch ana mar1_0800 mar1_0800 []
     (db_start\<lparr>pontos := map (\<lambda>t. \<lparr>pid = 1, usuario_id = 2, data = ''01-03-2024'', tipo = t,
                                       hora = ''08:00:00'', observacao = []\<rparr>) punch_types\<rparr>) =
   (AllRecorded, db_start\<lparr>pontos := map (\<lambda>t. \<lparr>pid = 1, usuario_id = 2, data = ''01-03-2024'',
                                       tipo = t, hora = ''08:00:00'', observacao = []\<rparr>) punch_types\<rparr>)"
proof -
  let ?d = "db_start\<lparr>pontos := map (\<lambda>t. \<lparr>pid = 1, usuario_id = 2, data = ''01-03-2024'', tipo = t,
                                       hora = ''08:00:00'', observacao = []\<rparr>) punch_types\<rparr>"
  have h: "set punch_types \<subseteq> set (day_tipos ?d (uid ana) (strftime_dmy (get_brasilia_date mar1_0800)))"
    by (simp add: mar1_today day_tipos_def ana_def punch_types_def)
  show ?thesis using register_punch_day_complete [OF ana_colaborador h] .
qed

theorem punch_race_duplicate_witness:
  "day_tipos (snd (punch_commit (punch_begin ana mar1_0800 mar1_0800 [] db_start)
                  (snd (punch_commit (punch_begin ana mar1_0800 mar1_0800 [] db_start) db_start))))
             2 ''01-03-2024'' = [Entrada, Entrada]"
proof -
  have h: "next_punch (day_tipos db_start (uid ana) (strftime_dmy (get_brasilia_date mar1_0800))) =
           Some Entrada"
    using ana_next_start by (simp add: mar1_today)
  have "day_tipos db_start (uid ana) ''01-03-2024'' = []"
    by (simp add: day_tipos_def db_start_def)
  then show ?thesis
    using punch_race_duplicate [OF ana_colaborador h, of mar1_0800 "[]" mar1_0800 "[]"]
    by (simp add: mar1_today ana_def)
qed

theorem register_punch_two_phase_witness:
  "register_punch ana mar1_0800 mar1_0800 [] db_start =
   punch_commit (punch_begin ana mar1_0800 mar1_0800 [] db_start) db_start"
  by (rule register_punch_two_phase)

theorem dashboard_predicts_punch_witness:
  "employee_dashboard ana mar1_0800 db_start = EmployeeView [] (Some Entrada) ''01-03-2024'' \<and>
   fst (register_punch ana mar1_0800 mar1_0800 [] db_start) = Registered Entrada ''08:00:00''"
proof -
  have h: "employee_dashboard ana mar1_0800 db_start = EmployeeView [] (Some Entrada) ''01-03-2024''"
    by (simp add: employee_dashboard_def mar1_today ana_def db_start_def today_punches_def
        next_punch_def punch_types_def)
  show ?thesis using h dashboard_predicts_punch [OF h, of mar1_0800 "[]"] by (simp add: mar1_now)
qed

theorem summary_total_le_four_per_day_witness:
  "ledger_ok db_mar1 \<and>
   total_pontos (summary_of db_mar1 ''01-03-2024'' ''31-03-2024'' ana) = 1 \<and>
   total_pontos (summary_of db_mar1 ''01-03-2024'' ''31-03-2024'' ana) \<le>
     4 * dias_com_registro (summary_of db_mar1 ''01-03-2024'' ''31-03-2024'' ana)"
proof -
  have h: "ledger_ok db_mar1"
    by (simp add: ledger_ok_def db_mar1_def ponto_mar1_def day_tipos_def punch_types_def)
  have "total_pontos (summary_of db_mar1 ''01-03-2024'' ''31-03-2024'' ana) = 1"
    by (simp add: summary_of_def range_punches_def sql_between_def db_mar1_def ponto_mar1_def ana_def)
  then show ?thesis using h by (intro conjI) (assumption, assumption, rule summary_total_le_four_per_day [OF h])
qed

theorem reports_default_range_empty_witness:
  "perfil admin_row = Admin \<and> pontos db_mar1 = [ponto_mar1] \<and>
   data ponto_mar1 = strftime_dmy (get_brasilia_date mar1_0800) \<and>
   year (get_brasilia_date mar1_0800) = 2024 \<and>
   (\<exists>pg. reports admin_row mar1_0800 None None None db_mar1 = ReportPage pg \<and> rp_detailed pg = [] \<and>
      list_all (\<lambda>r. total_pontos r = 0) (rp_report_data pg))"
proof -
  have a: "perfil admin_row = Admin" by (simp add: admin_row_def)
  have e: "data ponto_mar1 = strftime_dmy (get_brasilia_date mar1_0800)"
    by (simp add: ponto_mar1_def mar1_today)
  have p: "\<forall>p \<in> set (pontos db_mar1). \<exists>t'. data p = strftime_dmy (get_brasilia_date t')"
  proof -
    have "\<exists>t'. data ponto_mar1 = strftime_dmy (get_brasilia_date t')" using e by blast
    then show ?thesis by (simp add: db_mar1_def)
  qed
  have y: "year (get_brasilia_date mar1_0800) = 2024"
    unfolding mar1_0800_def by code_simp
  show ?thesis
    using a e y reports_default_range_empty [OF a p, of mar1_0800 None]
    by (simp add: db_mar1_def list_all_iff)
qed

theorem stored_date_between_iff_witness:
  "sql_between (strftime_dmy \<lparr>year = 2024, month = 3, day = 21\<rparr>)
     (iso_date \<lparr>year = 2024, month = 3, day = 1\<rparr>) (iso_date \<lparr>year = 2150, month = 1, day = 1\<rparr>)"
  using stored_date_between_iff [of "\<lparr>year = 2024, month = 3, day = 21\<rparr>"
      "\<lparr>year = 2024, month = 3, day = 1\<rparr>" "\<lparr>year = 2150, month = 1, day = 1\<rparr>"]
  by simp

theorem punches_by_date_refines_witness:
  "punches_by_date [row_iso, row_iso\<lparr>dr_data := ''2024-03-02''\<rparr>, row_iso\<lparr>dr_hora := ''12:00:00''\<rparr>] =
   [(''2024-03-01'', [row_iso, row_iso\<lparr>dr_hora := ''12:00:00''\<rparr>]),
    (''2024-03-02'', [row_iso\<lparr>dr_data := ''2024-03-02''\<rparr>])]"
  using punches_by_date_refines [of "[row_iso, row_iso\<lparr>dr_data := ''2024-03-02''\<rparr>,
      row_iso\<lparr>dr_hora := ''12:00:00''\<rparr>]"]
  by (simp add: row_iso_def)

theorem report_groups_roundtrip_witness:
  "reports admin_row mar1_0800 (Some ''01-03-2024'') (Some ''31-03-2024'') (Some 2) db_iso =
     ReportPage page_iso \<and>
   concat (map snd (rp_by_date page_iso)) = rp_detailed page_iso"
proof -
  have h: "reports admin_row mar1_0800 (Some ''01-03-2024'') (Some ''31-03-2024'') (Some 2) db_iso =
           ReportPage page_iso"
    unfolding reports_def admin_row_def db_iso_def db_start_def ponto_mar1_def ana_def page_iso_def
      row_iso_def by code_simp
  show ?thesis using h report_groups_roundtrip [OF h] by blast
qed


theorem summary_all_by_name_witness:
  "sorted (map sr_nome (summary_all db_iso ''2024-03-01'' ''2024-03-31'')) \<and>
   length (summary_all db_iso ''2024-03-01'' ''2024-03-31'') = 1"
  using summary_all_by_name [of db_iso "''2024-03-01''" "''2024-03-31''"]
  by (simp add: db_iso_def db_start_def admin_row_def ana_def)

theorem reports_month_year_crash_witness:
  "perfil admin_row = Admin \<and>
   reports admin_row mar1_0800 (Some ''03-2024'') None None db_start = ReportError IndexError"
proof -
  have h: "perfil admin_row = Admin" by (simp add: admin_row_def)
  show ?thesis using h reports_month_year_crash [OF h] by blast
qed

theorem frequencia_error_witness:
  "frequencia 9 = 30 \<and> \<bar>frequencia 9 - of_nat 9 / 30 * 100\<bar> \<le> 1 / 20"
proof -
  have "frequencia 9 = 30" by (simp add: frequencia_def py_round1_def)
  then show ?thesis using frequencia_error [of 9] by simp
qed

theorem reachable_invariants_witness:
  "reachable db_mar1 \<and> schema_ok db_mar1 \<and> cpf_ok db_mar1 \<and> ledger_ok db_mar1 \<and> 0 < admin_count db_mar1"
  using reachable_db_mar1 reachable_invariants [OF reachable_db_mar1] by blast

theorem reachable_times_well_formed_witness:
  "reachable db_mar1 \<and> list_all (\<lambda>p. hora_ok (hora p) \<and> length (take 5 (hora p)) = 5) (pontos db_mar1)"
  using reachable_db_mar1 reachable_times_well_formed [OF reachable_db_mar1] by blast

theorem reachable_restart_harmless_witness:
  "reachable db_mar1 \<and> init_db db_mar1 = Inr db_mar1"
  using reachable_db_mar1 reachable_restart_harmless [OF reachable_db_mar1] by blast


theorem employee_completes_day_witness:
  "reachable db_start \<and> current_user db_start ana_session = Some ana \<and> perfil ana = Colaborador \<and>
   day_tipos (fst (snd (app_run mar1_0800 (replicate 4 (ReqPunch [])) (db_start, ana_session)))) (uid ana)
     (strftime_dmy (get_brasilia_date mar1_0800)) = punch_types"
proof -
  have c: "current_user db_start ana_session = Some ana"
    by (simp add: current_user_def user_get_def ana_session_def db_start_def admin_row_def ana_def)
  show ?thesis
    using reachable_db_start c ana_colaborador employee_completes_day [OF reachable_db_start c ana_colaborador]
    by blast
qed

theorem punch_until_done_terminates_witness:
  "perfil ana = Colaborador \<and>
   length (filter (\<lambda>a. a \<noteq> AllRecorded \<and> a \<noteq> PunchDenied) (fst (punch_until_done mar1_0800 [] ana db_mar1))) \<le> 4 \<and>
   set (day_tipos (snd (punch_until_done mar1_0800 [] ana db_mar1)) (uid ana)
     (strftime_dmy (get_brasilia_date mar1_0800))) = UNIV"
  using ana_colaborador punch_until_done_terminates [OF ana_colaborador] by blast

theorem precheck_matches_unique_witness:
  "0 < existing_count db_start ''12345678901'' ''maria'' \<and>
   (\<exists>e. insert_usuario ''Maria'' ''12345678901'' ''Analista'' ''maria'' (generate_password_hash ''x'')
          Colaborador db_start = Inl e)"
proof -
  have "0 < existing_count db_start ''12345678901'' ''maria''"
    by (simp add: existing_count_def db_start_def admin_row_def ana_def)
  then show ?thesis using precheck_matches_unique by blast
qed

theorem register_employee_inserts_witness:
  "perfil admin_row = Admin \<and>
   list_all (\<lambda>s. s \<noteq> []) [py_strip (f_nome ana_form), py_strip (f_cpf ana_form), py_strip (f_funcao ana_form),
     py_strip (f_login ana_form), f_senha ana_form] \<and>
   length (only_digits (py_strip (f_cpf ana_form))) = 11 \<and>
   existing_count db_boot (only_digits (py_strip (f_cpf ana_form))) (py_strip (f_login ana_form)) = 0 \<and>
   register_employee admin_row (Some ana_form) db_boot =
     (EmployeeRegistered,
      db_boot\<lparr>usuarios := usuarios db_boot @
           [\<lparr>uid = Suc (seq_usuarios db_boot), nome = py_strip (f_nome ana_form),
             cpf = only_digits (py_strip (f_cpf ana_form)), funcao = py_strip (f_funcao ana_form),
             login = py_strip (f_login ana_form), senha = generate_password_hash (f_senha ana_form),
             perfil = Colaborador\<rparr>],
        seq_usuarios := Suc (seq_usuarios db_boot)\<rparr>)"
proof -
  have a: "perfil admin_row = Admin" by (simp add: admin_row_def)
  have f: "list_all (\<lambda>s. s \<noteq> []) [py_strip (f_nome ana_form), py_strip (f_cpf ana_form),
     py_strip (f_funcao ana_form), py_strip (f_login ana_form), f_senha ana_form]"
    unfolding ana_form_def by code_simp
  have c: "length (only_digits (py_strip (f_cpf ana_form))) = 11"
    unfolding ana_form_def by code_simp
  have e: "existing_count db_boot (only_digits (py_strip (f_cpf ana_form))) (py_strip (f_login ana_form)) = 0"
    unfolding ana_form_def existing_count_def db_boot_def admin_row_def by code_simp
  show ?thesis using a f c e register_employee_inserts [OF a f c e] by blast
qed

theorem register_employee_never_fails_witness:
  "fst (register_employee admin_row (Some ana_form) db_start) \<noteq> RegisterFailed"
  by (rule register_employee_never_fails)

theorem register_employee_error_unchanged_witness:
  "fst (register_employee ana (Some ana_form) db_start) \<noteq> EmployeeRegistered \<and>
   snd (register_employee ana (Some ana_form) db_start) = db_start"
proof -
  have h: "fst (register_employee ana (Some ana_form) db_start) \<noteq> EmployeeRegistered"
    by (simp add: register_employee_def ana_def)
  show ?thesis using h register_employee_error_unchanged [OF h] by blast
qed

theorem login_rejects_uniformly_witness:
  "(get_by_login db_start (lf_login \<lparr>lf_login = ''ana'', lf_password = ''errada''\<rparr>) = None \<or>
    (\<exists>u. get_by_login db_start (lf_login \<lparr>lf_login = ''ana'', lf_password = ''errada''\<rparr>) = Some u \<and>
         \<not> check_password_hash (senha u) (lf_password \<lparr>lf_login = ''ana'', lf_password = ''errada''\<rparr>))) \<and>
   login_route (Some \<lparr>lf_login = ''ana'', lf_password = ''errada''\<rparr>) None db_start \<lparr>sess_user = None\<rparr> =
     (LoginRejected, \<lparr>sess_user = None\<rparr>)"
proof -
  have h: "get_by_login db_start (lf_login \<lparr>lf_login = ''ana'', lf_password = ''errada''\<rparr>) = None \<or>
    (\<exists>u. get_by_login db_start (lf_login \<lparr>lf_login = ''ana'', lf_password = ''errada''\<rparr>) = Some u \<and>
         \<not> check_password_hash (senha u) (lf_password \<lparr>lf_login = ''ana'', lf_password = ''errada''\<rparr>))"
    by (simp add: get_by_login_def db_start_def admin_row_def ana_def)
  show ?thesis using h login_rejects_uniformly [OF h] by blast
qed

theorem login_no_internal_error_witness:
  "fst (login_route (Some \<lparr>lf_login = ''ana'', lf_password = ''s3nha''\<rparr>) None db_start \<lparr>sess_user = None\<rparr>)
     \<noteq> LoginInternalError"
  by (rule login_no_internal_error)

theorem login_signs_in_row_witness:
  "schema_ok db_start \<and> ana \<in> set (usuarios db_start) \<and> senha ana = generate_password_hash ''s3nha'' \<and>
   current_user db_start (snd (login_route (Some \<lparr>lf_login = login ana, lf_password = ''s3nha''\<rparr>) None db_start
     \<lparr>sess_user = None\<rparr>)) = Some ana"
proof -
  have s: "schema_ok db_start"
    by (simp add: schema_ok_def db_start_def admin_row_def ana_def)
  have m: "ana \<in> set (usuarios db_start)" by (simp add: db_start_def)
  have p: "senha ana = generate_password_hash ''s3nha''" by (simp add: ana_def)
  show ?thesis using s m p login_signs_in_row [OF s m p] by blast
qed

theorem login_follows_next_witness:
  "check_password db_start (lf_login \<lparr>lf_login = ''ana'', lf_password = ''s3nha''\<rparr>)
     (lf_password \<lparr>lf_login = ''ana'', lf_password = ''s3nha''\<rparr>) \<and>
   ''http://evil.example/'' \<noteq> [] \<and>
   fst (login_route (Some \<lparr>lf_login = ''ana'', lf_password = ''s3nha''\<rparr>) (Some ''http://evil.example/'') db_start
     \<lparr>sess_user = None\<rparr>) = LoginRedirect (ToUrl ''http://evil.example/'')"
proof -
  have h: "check_password db_start (lf_login \<lparr>lf_login = ''ana'', lf_password = ''s3nha''\<rparr>)
     (lf_password \<lparr>lf_login = ''ana'', lf_password = ''s3nha''\<rparr>)"
    by (simp add: check_password_def db_start_def admin_row_def ana_def)
  have n: "''http://evil.example/'' \<noteq> []" by simp
  show ?thesis using h n login_follows_next [OF h n] by blast
qed

theorem admin_dashboard_flags_witness:
  "ledger_ok db_mar1 \<and>
   admin_dashboard admin_row mar1_0800 db_mar1 =
     AdminView [\<lparr>tr_nome = ''Ana'', tr_funcao = ''Analista'', tr_entrada = 1, tr_saida_almoco = 0,
                  tr_volta_almoco = 0, tr_saida_final = 0\<rparr>] 1 ''01-03-2024'' \<and>
   tr_count \<lparr>tr_nome = ''Ana'', tr_funcao = ''Analista'', tr_entrada = 1, tr_saida_almoco = 0,
              tr_volta_almoco = 0, tr_saida_final = 0\<rparr> Entrada \<le> 1"
proof -
  have l: "ledger_ok db_mar1"
    by (simp add: ledger_ok_def db_mar1_def ponto_mar1_def day_tipos_def punch_types_def)
  have v: "admin_dashboard admin_row mar1_0800 db_mar1 =
     AdminView [\<lparr>tr_nome = ''Ana'', tr_funcao = ''Analista'', tr_entrada = 1, tr_saida_almoco = 0,
                  tr_volta_almoco = 0, tr_saida_final = 0\<rparr>] 1 ''01-03-2024''"
    unfolding admin_dashboard_def today_row_of_def tipo_count_def db_mar1_def db_start_def ponto_mar1_def
      admin_row_def ana_def mar1_0800_def
    by code_simp
  show ?thesis using l v admin_dashboard_flags [OF l v, of _ Entrada] by simp
qed


theorem punch_history_hides_day_witness:
  "perfil ana \<noteq> Admin \<and>
   punch_history ana None db_many = HistoryPage (take 100 (own_history db_many 2)) ''Ana'' [] \<and>
   100 \<le> length (filter (\<lambda>q. usuario_id q = uid ana \<and>
            (\<exists>e. data q = strftime_dmy e \<and> day \<lparr>year = 2024, month = 3, day = 1\<rparr> < day e \<and> day e < 100))
          (pontos db_many)) \<and>
   list_all (\<lambda>r. hr_data r \<noteq> strftime_dmy \<lparr>year = 2024, month = 3, day = 1\<rparr>) (take 100 (own_history db_many 2))"
proof -
  have a: "perfil ana \<noteq> Admin" by (simp add: ana_def)
  have p: "punch_history ana None db_many = HistoryPage (take 100 (own_history db_many 2)) ''Ana'' []"
    by (simp add: punch_history_def ana_def)
  have e: "ponto_mar1\<lparr>data := ''02-03-2024''\<rparr> = ponto_mar1\<lparr>data := strftime_dmy \<lparr>year = 2024, month = 3, day = 2\<rparr>\<rparr>"
    unfolding strftime_dmy_def pad2_def digit_char_def by code_simp
  have "filter (\<lambda>q. usuario_id q = uid ana \<and>
            (\<exists>e. data q = strftime_dmy e \<and> day \<lparr>year = 2024, month = 3, day = 1\<rparr> < day e \<and> day e < 100))
          (replicate 100 (ponto_mar1\<lparr>data := ''02-03-2024''\<rparr>)) = replicate 100 (ponto_mar1\<lparr>data := ''02-03-2024''\<rparr>)"
  proof (rule filter_True)
    show "\<forall>q \<in> set (replicate 100 (ponto_mar1\<lparr>data := ''02-03-2024''\<rparr>)). usuario_id q = uid ana \<and>
            (\<exists>e. data q = strftime_dmy e \<and> day \<lparr>year = 2024, month = 3, day = 1\<rparr> < day e \<and> day e < 100)"
      unfolding e by (auto simp: ponto_mar1_def ana_def intro!: exI [of _ "\<lparr>year = 2024, month = 3, day = 2\<rparr>"])
  qed
  then have c: "100 \<le> length (filter (\<lambda>q. usuario_id q = uid ana \<and>
            (\<exists>e. data q = strftime_dmy e \<and> day \<lparr>year = 2024, month = 3, day = 1\<rparr> < day e \<and> day e < 100))
          (pontos db_many))"
    by (simp add: db_many_def)
  show ?thesis using a p c punch_history_hides_day [OF a p c] by (simp add: ana_def)
qed

theorem punch_history_own_only_witness:
  "perfil ana \<noteq> Admin \<and>
   punch_history ana None db_mar1 = HistoryPage (take 100 (own_history db_mar1 2)) ''Ana'' [] \<and>
   take 100 (own_history db_mar1 2) = [history_row_of ponto_mar1 None]"
proof -
  have a: "perfil ana \<noteq> Admin" by (simp add: ana_def)
  have p: "punch_history ana None db_mar1 = HistoryPage (take 100 (own_history db_mar1 2)) ''Ana'' []"
    by (simp add: punch_history_def ana_def)
  have "take 100 (own_history db_mar1 2) = [history_row_of ponto_mar1 None]"
    by (simp add: own_history_def db_mar1_def ponto_mar1_def sort_desc_key_def)
  then show ?thesis using a p punch_history_own_only [OF a p] by blast
qed

theorem punch_history_order_witness:
  "punch_history ana None db_many = HistoryPage (take 100 (own_history db_many 2)) ''Ana'' [] \<and>
   length (take 100 (own_history db_many 2)) \<le> 100"
proof -
  have p: "punch_history ana None db_many = HistoryPage (take 100 (own_history db_many 2)) ''Ana'' []"
    by (simp add: punch_history_def ana_def)
  show ?thesis using p punch_history_order [OF p] by blast
qed

theorem export_history_default_witness:
  "perfil admin_row = Admin \<and> all_history db_mar1 \<noteq> [] \<and>
   export_history admin_row None None db_mar1 =
     ExportFile Csv ''historico_todos_funcionarios.csv'' (map export_row_of (all_history db_mar1))"
proof -
  have a: "perfil admin_row = Admin" by (simp add: admin_row_def)
  have n: "all_history db_mar1 \<noteq> []"
    unfolding all_history_def joined_row_def user_get_def db_mar1_def db_start_def ponto_mar1_def
      admin_row_def ana_def sort_desc_key_def
    by code_simp
  show ?thesis using a n export_history_default [OF a n] by blast
qed

theorem display_date_swaps_witness:
  "display_date ''01-03-2024'' = Inr ''2024-03-01'' \<and> display_date ''2024-03-01'' = Inr ''01-03-2024''"
proof -
  have "strftime_dmy \<lparr>year = 2024, month = 3, day = 1\<rparr> = ''01-03-2024'' \<and>
        iso_date \<lparr>year = 2024, month = 3, day = 1\<rparr> = ''2024-03-01''"
    unfolding strftime_dmy_def iso_date_def pad2_def digit_char_def by code_simp
  then show ?thesis using display_date_swaps [of "\<lparr>year = 2024, month = 3, day = 1\<rparr>"] by simp
qed

theorem export_reports_detailed_default_witness:
  "perfil admin_row = Admin \<and>
   export_reports admin_row mar1_0800 None None None (Some 2) db_mar1 \<in>
     {RExportInvalidDetailedFormat, RExportNoData} \<union> range RExportError"
proof -
  have a: "perfil admin_row = Admin" by (simp add: admin_row_def)
  show ?thesis using a export_reports_detailed_default [OF a] by blast
qed

theorem export_summary_matches_reports_witness:
  "export_reports admin_row mar1_0800 None None None None db_mar1 =
     RExportSummary Csv ''relatorio_frequencia_01-03-2024_a_01-03-2024.csv'' (''01-03-2024'', ''01-03-2024'')
       [\<lparr>fr_nome = ''Ana'', fr_funcao = ''Analista'', fr_dias_trabalhados = 0, fr_dias_com_registro = 0,
         fr_total_pontos = 0, fr_frequencia = 0\<rparr>] \<and>
   (\<exists>pg. reports admin_row mar1_0800 None None None db_mar1 = ReportPage pg \<and>
     [\<lparr>fr_nome = ''Ana'', fr_funcao = ''Analista'', fr_dias_trabalhados = 0, fr_dias_com_registro = 0,
       fr_total_pontos = 0, fr_frequencia = 0\<rparr>] = map freq_row_of (rp_report_data pg))"
proof -
  have h: "export_reports admin_row mar1_0800 None None None None db_mar1 =
     RExportSummary Csv ''relatorio_frequencia_01-03-2024_a_01-03-2024.csv'' (''01-03-2024'', ''01-03-2024'')
       [\<lparr>fr_nome = ''Ana'', fr_funcao = ''Analista'', fr_dias_trabalhados = 0, fr_dias_com_registro = 0,
         fr_total_pontos = 0, fr_frequencia = 0\<rparr>]"
    unfolding export_reports_def db_mar1_def db_start_def ponto_mar1_def admin_row_def ana_def mar1_0800_def
      summary_all_def summary_of_def range_punches_def sql_between_def freq_row_of_def frequencia_def
    by code_simp
  show ?thesis using h export_summary_matches_reports [OF h] by blast
qed

theorem print_report_complete_witness:
  "ledger_ok db_iso \<and>
   ponto_mar1\<lparr>data := ''2024-03-01''\<rparr> \<in> set (print_punches db_iso 2 ''2024-03-01'' ''2024-03-31'') \<and>
   Option.bind (map_of (print_group (print_punches db_iso 2 ''2024-03-01'' ''2024-03-31'')) ''2024-03-01'')
     (\<lambda>m. map_of m Entrada) = Some (''08:00'', [])"
proof -
  have l: "ledger_ok db_iso"
    by (simp add: ledger_ok_def db_iso_def ponto_mar1_def day_tipos_def punch_types_def)
  have m: "ponto_mar1\<lparr>data := ''2024-03-01''\<rparr> \<in> set (print_punches db_iso 2 ''2024-03-01'' ''2024-03-31'')"
    by (simp add: print_punches_def db_iso_def ponto_mar1_def sql_between_def)
  have "print_entry (ponto_mar1\<lparr>data := ''2024-03-01''\<rparr>) = (''08:00'', [])"
    by (simp add: print_entry_def ponto_mar1_def obs_or_def)
  then show ?thesis using l m print_report_complete [OF l m] by (simp add: ponto_mar1_def)
qed

theorem conc_days_gap_free_witness:
  "conc_reachable \<lparr>cdb = db_race3, pending = [], pending_reg = []\<rparr> \<and>
   Saida_almoco \<in> set (day_tipos db_race3 2 ''01-03-2024'') \<and>
   Entrada \<in> set (takeWhile (\<lambda>z. z \<noteq> Saida_almoco) punch_types) \<and>
   Entrada \<in> set (day_tipos db_race3 2 ''01-03-2024'')"
proof -
  have h: "Entrada \<in> set (takeWhile (\<lambda>z. z \<noteq> Saida_almoco) punch_types)"
    by (simp add: punch_types_def)
  have "Entrada \<in> set (day_tipos (cdb \<lparr>cdb = db_race3, pending = [], pending_reg = []\<rparr>) 2 ''01-03-2024'')"
    using conc_days_gap_free [OF conc_reachable_db_race3 _ h] day_race3 by simp
  then show ?thesis using conc_reachable_db_race3 h day_race3 by simp
qed


theorem export_history_csv_roundtrip_witness:
  "export_history admin_row None None db_note = ExportFile Csv ''historico_todos_funcionarios.csv'' [note_row] \<and>
   (\<exists>s. history_download (export_history admin_row None None db_note) =
          Some (attachment_of ''historico_todos_funcionarios.csv'' ''text/csv; charset=utf-8'' (CsvText s)) \<and>
        csv_read s = history_columns # [export_fields note_row])"
proof -
  have h: "export_history admin_row None None db_note = ExportFile Csv ''historico_todos_funcionarios.csv'' [note_row]"
    unfolding export_history_def all_history_def joined_row_def user_get_def db_note_def db_start_def
      ponto_mar1_def admin_row_def ana_def sort_desc_key_def note_row_def export_row_of_def history_row_of_def
    by code_simp
  show ?thesis using export_history_csv_roundtrip [OF h] h by simp
qed

theorem summary_zero_rendering_witness:
  "0 < length [freq_ana, freq_bia] \<and> fr_dias_trabalhados ([freq_ana, freq_bia] ! 0) = 0 \<and>
   cell_str (df_rows (summary_frame [freq_ana, freq_bia]) ! 0 ! 5) = ''0.0'' \<and>
   0 < length [freq_ana] \<and> fr_dias_trabalhados ([freq_ana] ! 0) = 0 \<and>
   cell_str (df_rows (summary_frame [freq_ana]) ! 0 ! 5) = ''0''"
proof -
  have a: "fr_dias_trabalhados freq_ana = 0" and b: "fr_dias_trabalhados freq_bia = 3"
    by (simp_all add: freq_ana_def freq_bia_def)
  show ?thesis
    using summary_zero_rendering [of 0 "[freq_ana, freq_bia]"] summary_zero_rendering [of 0 "[freq_ana]"] a b
    by simp
qed

theorem conc_tables_well_formed_witness:
  "conc_reachable \<lparr>cdb = db_race3, pending = [], pending_reg = []\<rparr> \<and> schema_ok db_race3 \<and> cpf_ok db_race3"
  using conc_tables_well_formed [OF conc_reachable_db_race3] conc_reachable_db_race3 by simp

theorem request_one_connection_witness:
  "live ctx0 = [7] \<and> next_conn ctx0 = 8 \<and>
   fst (run_state (in_app_context (get_db_times 3)) ctx0) = [8, 8, 8] \<and>
   (\<exists>c. fst (run_state (in_app_context (get_db_times 3)) ctx0) = replicate 3 c \<and> c \<notin> set (live ctx0) \<and>
        live (snd (run_state (in_app_context (get_db_times 3)) ctx0)) = live ctx0 \<and>
        g_db (snd (run_state (in_app_context (get_db_times 3)) ctx0)) = None)"
proof -
  have h: "\<forall>c \<in> set (live ctx0). c < next_conn ctx0" by (simp add: ctx0_def)
  have r: "fst (run_state (in_app_context (get_db_times 3)) ctx0) = [8, 8, 8]"
    by (simp add: request_context ctx0_def numeral_eq_Suc del: get_db_times.simps)
  have "\<exists>c. fst (run_state (in_app_context (get_db_times (Suc 2))) ctx0) = replicate (Suc 2) c \<and>
          c \<notin> set (live ctx0) \<and> live (snd (run_state (in_app_context (get_db_times (Suc 2))) ctx0)) = live ctx0 \<and>
          g_db (snd (run_state (in_app_context (get_db_times (Suc 2))) ctx0)) = None"
    by (rule request_one_connection [OF h]) simp
  then show ?thesis using r by (simp add: ctx0_def numeral_eq_Suc del: get_db_times.simps)
qed

theorem serve_requests_no_leak_witness:
  "fst (run_state (serve_requests [2, 0, 1]) ctx0) = [[8, 8], [], [9]] \<and>
   live (snd (run_state (serve_requests [2, 0, 1]) ctx0)) = live ctx0 \<and>
   distinct (map hd (filter (\<lambda>cs. cs \<noteq> []) (fst (run_state (serve_requests [2, 0, 1]) ctx0))))"
proof -
  have r: "fst (run_state (serve_requests [2, 0, 1]) ctx0) = [[8, 8], [], [9]]"
    by (simp add: serve_requests_def request_context ctx0_def numeral_eq_Suc split: prod.split
        del: get_db_times.simps)
  have "live (snd (run_state (serve_requests [2, 0, 1]) ctx0)) = live ctx0 \<and>
        distinct (map hd (filter (\<lambda>cs. cs \<noteq> []) (fst (run_state (serve_requests [2, 0, 1]) ctx0))))"
    by (rule serve_requests_no_leak) simp
  then show ?thesis using r by simp
qed

theorem employee_denied_admin_routes_witness:
  "current_user db_start ana_session = Some ana \<and> perfil ana = Colaborador \<and>
   admin_only (ReqReports None None None) \<and>
   serve mar1_0800 (ReqReports None None None) (db_start, ana_session) =
     (acesso_negado EpEmployeeDashboard, (db_start, ana_session))"
proof -
  have u: "current_user db_start ana_session = Some ana"
    by (rule ana_signed_in) (simp add: db_start_def)
  show ?thesis
    using employee_denied_admin_routes [OF u ana_colaborador, of "ReqReports None None None" mar1_0800] u ana_colaborador
    by simp
qed

theorem punch_confirmation_witness:
  "current_user db_start ana_session = Some ana \<and> perfil ana = Colaborador \<and>
   next_punch (day_tipos db_start (uid ana) (strftime_dmy (get_brasilia_date mar1_0800))) = Some Entrada \<and>
   fst (serve mar1_0800 (ReqPunch []) (db_start, ana_session)) =
     respond [(''Entrada registrada com sucesso '' @ [CHR 0xE0] @ ''s 08:00:00!'', Success)] (Redirect EpEmployeeDashboard)"
proof -
  have u: "current_user db_start ana_session = Some ana"
    by (rule ana_signed_in) (simp add: db_start_def)
  have n: "next_punch (day_tipos db_start (uid ana) (strftime_dmy (get_brasilia_date mar1_0800))) = Some Entrada"
    using ana_next_start by (simp add: mar1_today)
  show ?thesis
    using punch_confirmation [OF u ana_colaborador n, of "[]"] u ana_colaborador n by (simp add: mar1_now)
qed

end
